theory Spec2Isabelle
  imports Complex_Main "HOL-Library.Log_Nat"
begin

section \<open>SQL values and three-valued logic\<close>

text \<open>
  The registry is the SQLite schema \<^verbatim>\<open>data/sql/proj_db_table_defs.sql\<close>: tables with
  column constraints and \<^verbatim>\<open>BEFORE INSERT\<close> triggers whose statements have the form
  \<^verbatim>\<open>SELECT RAISE(ABORT, msg) WHERE cond\<close>.

  A nullable column holds an \<open>option\<close> value, \<open>None\<close> being SQL's \<^verbatim>\<open>NULL\<close>. A column
  declared \<^verbatim>\<open>NOT NULL\<close> holds a plain value: a row with \<^verbatim>\<open>NULL\<close> there is refused by
  the column constraint and is no value of the row type. \<^verbatim>\<open>TEXT\<close> is \<open>string\<close>, the
  list of the characters of the text. \<^verbatim>\<open>FLOAT\<close> is \<open>real\<close>: the column holds a finite
  IEEE 754 double, which is the real number it denotes, and doubles compare as these
  numbers do; sums and differences of doubles are rounded, see below. \<^verbatim>\<open>SMALLINT\<close> is
  \<open>int\<close>, and a \<^verbatim>\<open>BOOLEAN\<close> column with \<^verbatim>\<open>NOT NULL CHECK (c IN (0, 1))\<close> is \<open>bool\<close>
  (\<open>True\<close> for 1).

  A condition evaluates to true, false or \<^verbatim>\<open>NULL\<close> (\<open>None\<close>). A \<^verbatim>\<open>WHERE\<close> clause keeps
  a row only when its condition is true; a \<^verbatim>\<open>CHECK\<close> constraint fails only when its
  condition is false.
\<close>

type_synonym sql_bool = "bool option"

definition is_true :: "sql_bool \<Rightarrow> bool" where
  "is_true b = (b = Some True)"

definition check_holds :: "sql_bool \<Rightarrow> bool" where
  "check_holds b = (b \<noteq> Some False)"

definition sql_not :: "sql_bool \<Rightarrow> sql_bool" where
  "sql_not b = map_option Not b"

fun sql_and :: "sql_bool \<Rightarrow> sql_bool \<Rightarrow> sql_bool" where
  "sql_and (Some False) _ = Some False"
| "sql_and _ (Some False) = Some False"
| "sql_and (Some True) (Some True) = Some True"
| "sql_and _ _ = None"

fun sql_or :: "sql_bool \<Rightarrow> sql_bool \<Rightarrow> sql_bool" where
  "sql_or (Some True) _ = Some True"
| "sql_or _ (Some True) = Some True"
| "sql_or (Some False) (Some False) = Some False"
| "sql_or _ _ = None"

definition is_null :: "'a option \<Rightarrow> sql_bool" where
  "is_null x = Some (x = None)"

definition is_not_null :: "'a option \<Rightarrow> sql_bool" where
  "is_not_null x = Some (x \<noteq> None)"

fun sql_eq :: "'a option \<Rightarrow> 'a option \<Rightarrow> sql_bool" where
  "sql_eq (Some x) (Some y) = Some (x = y)"
| "sql_eq _ _ = None"

definition sql_ne :: "'a option \<Rightarrow> 'a option \<Rightarrow> sql_bool" where
  "sql_ne x y = sql_not (sql_eq x y)"

fun sql_le :: "('a::linorder) option \<Rightarrow> 'a option \<Rightarrow> sql_bool" where
  "sql_le (Some x) (Some y) = Some (x \<le> y)"
| "sql_le _ _ = None"

fun sql_lt :: "('a::linorder) option \<Rightarrow> 'a option \<Rightarrow> sql_bool" where
  "sql_lt (Some x) (Some y) = Some (x < y)"
| "sql_lt _ _ = None"

definition sql_ge :: "('a::linorder) option \<Rightarrow> 'a option \<Rightarrow> sql_bool" where
  "sql_ge x y = sql_le y x"

definition sql_gt :: "('a::linorder) option \<Rightarrow> 'a option \<Rightarrow> sql_bool" where
  "sql_gt x y = sql_lt y x"

definition sql_between :: "('a::linorder) option \<Rightarrow> 'a option \<Rightarrow> 'a option \<Rightarrow> sql_bool" where
  "sql_between x lo hi = sql_and (sql_ge x lo) (sql_le x hi)"

subsection \<open>Arithmetic on doubles\<close>

text \<open>
  SQLite computes \<^verbatim>\<open>x + y\<close> and \<^verbatim>\<open>x - y\<close> of \<^verbatim>\<open>FLOAT\<close> values in IEEE 754 double
  precision: the exact sum is rounded to the nearest double, a tie to the one with the
  even significand. A double has a significand of 53 bits; its unit in the last place
  is \<open>2 ^ (e - 52)\<close>, where \<open>2 ^ e \<le> \<bar>x\<bar> < 2 ^ (e + 1)\<close> and \<open>e\<close> is at least \<open>- 1022\<close>
  (below that the doubles are subnormal and equally spaced).
\<close>

definition pow2 :: "int \<Rightarrow> real" where
  "pow2 e = (if 0 \<le> e then 2 ^ nat e else 1 / 2 ^ nat (- e))"

text \<open>
  The binary exponent of \<open>x \<noteq> 0\<close> is the \<open>e\<close> with \<open>2 ^ e \<le> \<bar>x\<bar> < 2 ^ (e + 1)\<close>;
  \<open>bitlen n\<close> is the number of binary digits of \<open>n\<close>.
\<close>

definition binary_exponent :: "real \<Rightarrow> int" where
  "binary_exponent x =
     (if 1 \<le> \<bar>x\<bar> then bitlen \<lfloor>\<bar>x\<bar>\<rfloor> - 1 else - bitlen (\<lceil>1 / \<bar>x\<bar>\<rceil> - 1))"

definition round_half_even :: "real \<Rightarrow> int" where
  "round_half_even x =
     (let n = \<lfloor>x\<rfloor>; d = x - of_int n
      in if d < 1 / 2 then n else if 1 / 2 < d then n + 1 else if even n then n else n + 1)"

text \<open>The double nearest to a real number, were the exponent not bounded above.\<close>

definition round_to_double :: "real \<Rightarrow> real" where
  "round_to_double x =
     (if x = 0 then 0
      else let ulp = pow2 (max (binary_exponent x) (- 1022) - 52)
           in of_int (round_half_even (x / ulp)) * ulp)"

text \<open>
  The largest double is \<open>(2 ^ 53 - 1) * 2 ^ 971\<close>; a result that rounds beyond it is an
  infinity. The result of an operation is a finite double or an infinity; when IEEE 754
  has no number for it (infinity minus infinity), SQLite gives \<^verbatim>\<open>NULL\<close>.
\<close>

definition max_double :: real where
  "max_double = (2 ^ 53 - 1) * 2 ^ 971"

text \<open>The real numbers that are doubles, the values a \<^verbatim>\<open>FLOAT\<close> column can hold.\<close>

definition is_double :: "real \<Rightarrow> bool" where
  "is_double x \<longleftrightarrow> round_to_double x = x \<and> \<bar>x\<bar> \<le> max_double"

datatype double = Finite real | Infinity | Minus_infinity

definition double_of_real :: "real \<Rightarrow> double" where
  "double_of_real x =
     (let r = round_to_double x
      in if max_double < r then Infinity
         else if r < - max_double then Minus_infinity
         else Finite r)"

fun double_le :: "double \<Rightarrow> double \<Rightarrow> bool" where
  "double_le Minus_infinity y = True"
| "double_le x Infinity = True"
| "double_le (Finite x) (Finite y) = (x \<le> y)"
| "double_le x y = False"

fun double_add :: "double \<Rightarrow> double \<Rightarrow> double option" where
  "double_add (Finite x) (Finite y) = Some (double_of_real (x + y))"
| "double_add Infinity Minus_infinity = None"
| "double_add Minus_infinity Infinity = None"
| "double_add (Finite x) y = Some y"
| "double_add x y = Some x"

fun double_sub :: "double \<Rightarrow> double \<Rightarrow> double option" where
  "double_sub (Finite x) (Finite y) = Some (double_of_real (x - y))"
| "double_sub Infinity Infinity = None"
| "double_sub Minus_infinity Minus_infinity = None"
| "double_sub (Finite x) Infinity = Some Minus_infinity"
| "double_sub (Finite x) Minus_infinity = Some Infinity"
| "double_sub x y = Some x"

text \<open>
  The operators on column values: \<open>double_value\<close> reads a \<^verbatim>\<open>FLOAT\<close> column or a numeric
  literal as a double, and every operator is \<^verbatim>\<open>NULL\<close> when an operand is.
\<close>

definition double_value :: "real option \<Rightarrow> double option" where
  "double_value x = map_option Finite x"

fun sql_add :: "double option \<Rightarrow> double option \<Rightarrow> double option" where
  "sql_add (Some x) (Some y) = double_add x y"
| "sql_add _ _ = None"

fun sql_sub :: "double option \<Rightarrow> double option \<Rightarrow> double option" where
  "sql_sub (Some x) (Some y) = double_sub x y"
| "sql_sub _ _ = None"

fun sql_le_double :: "double option \<Rightarrow> double option \<Rightarrow> sql_bool" where
  "sql_le_double (Some x) (Some y) = Some (double_le x y)"
| "sql_le_double _ _ = None"

subsection \<open>Lists of values, subqueries and joins\<close>

text \<open>\<^verbatim>\<open>x IN (v1, ..., vn)\<close> is \<^verbatim>\<open>x = v1 OR ... OR x = vn\<close>, false on the empty list.\<close>

fun sql_in :: "'a option \<Rightarrow> 'a option list \<Rightarrow> sql_bool" where
  "sql_in x [] = Some False"
| "sql_in x (v # vs) = sql_or (sql_eq x v) (sql_in x vs)"

definition sql_not_in :: "'a option \<Rightarrow> 'a option list \<Rightarrow> sql_bool" where
  "sql_not_in x vs = sql_not (sql_in x vs)"

text \<open>
  \<^verbatim>\<open>EXISTS (SELECT 1 FROM t WHERE cond)\<close> is true or false, never \<^verbatim>\<open>NULL\<close>. A scalar
  subquery \<^verbatim>\<open>(SELECT col FROM t WHERE cond)\<close> is the column of the first row kept, and
  \<^verbatim>\<open>NULL\<close> when no row is kept.
\<close>

definition sql_exists :: "'r list \<Rightarrow> ('r \<Rightarrow> sql_bool) \<Rightarrow> sql_bool" where
  "sql_exists rows cond = Some (list_ex (\<lambda>r. is_true (cond r)) rows)"

definition sql_not_exists :: "'r list \<Rightarrow> ('r \<Rightarrow> sql_bool) \<Rightarrow> sql_bool" where
  "sql_not_exists rows cond = sql_not (sql_exists rows cond)"

definition select_scalar :: "'r list \<Rightarrow> ('r \<Rightarrow> sql_bool) \<Rightarrow> ('r \<Rightarrow> 'a option) \<Rightarrow> 'a option" where
  "select_scalar rows cond col =
     (case find (\<lambda>r. is_true (cond r)) rows of None \<Rightarrow> None | Some r \<Rightarrow> col r)"

text \<open>
  \<^verbatim>\<open>a LEFT JOIN b ON cond\<close> pairs a row of \<open>a\<close> with each row of \<open>b\<close> that satisfies the
  condition, and once with \<^verbatim>\<open>NULL\<close>s when none does: these are the partners of one row.
\<close>

definition left_join_matches :: "'b list \<Rightarrow> ('b \<Rightarrow> sql_bool) \<Rightarrow> 'b option list" where
  "left_join_matches ys cond =
     (case filter (\<lambda>y. is_true (cond y)) ys of [] \<Rightarrow> [None] | ms \<Rightarrow> map Some ms)"

text \<open>
  A message that quotes a word, as \<^verbatim>\<open>... type 'length'\<close>, is built with \<open>quote\<close>.
\<close>

definition quote :: "string \<Rightarrow> string" where
  "quote w = CHR 0x27 # w @ [CHR 0x27]"

section \<open>Errors and rule lists\<close>

text \<open>
  \<open>Abort msg\<close> is \<^verbatim>\<open>RAISE(ABORT, msg)\<close> of a trigger; the other errors are the failures
  of the table's own constraints, tagged with the column or constraint they belong to.
\<close>

datatype error =
    Abort string
  | Not_null_failed string
  | Check_failed string
  | Unique_failed string
  | Foreign_key_failed string

text \<open>
  The statements of a trigger run in order against the state before the insert; the
  first one whose \<^verbatim>\<open>WHERE\<close> condition is true aborts the insert with its message.
\<close>

fun run_rules :: "(bool \<times> error) list \<Rightarrow> error option" where
  "run_rules [] = None"
| "run_rules ((c, e) # rs) = (if c then Some e else run_rules rs)"

section \<open>Tables\<close>

text \<open>
  One record per table, the columns in the order of \<^verbatim>\<open>CREATE TABLE\<close>. Every table
  but the two grid tables starts with the key columns \<open>auth_name\<close> and \<open>code\<close>; a
  column of table \<open>t\<close> is written \<open>t.column\<close>.
\<close>

record ident =
  auth_name :: string
  code :: string

record unit_of_measure = ident +
  name :: string
  type :: string
  conv_factor :: "real option"
  deprecated :: bool

record celestial_body = ident +
  name :: string
  semi_major_axis :: real

record ellipsoid = ident +
  name :: string
  description :: "string option"
  celestial_body_auth_name :: string
  celestial_body_code :: string
  semi_major_axis :: real
  uom_auth_name :: string
  uom_code :: string
  inv_flattening :: "real option"
  semi_minor_axis :: "real option"
  deprecated :: bool

record area = ident +
  name :: string
  description :: string
  south_lat :: "real option"
  north_lat :: "real option"
  west_lon :: "real option"
  east_lon :: "real option"
  deprecated :: bool

record prime_meridian = ident +
  name :: string
  longitude :: real
  uom_auth_name :: string
  uom_code :: string
  deprecated :: bool

record geodetic_datum = ident +
  name :: string
  description :: "string option"
  scope :: "string option"
  ellipsoid_auth_name :: string
  ellipsoid_code :: string
  prime_meridian_auth_name :: string
  prime_meridian_code :: string
  area_of_use_auth_name :: string
  area_of_use_code :: string
  deprecated :: bool

record vertical_datum = ident +
  name :: string
  description :: "string option"
  scope :: "string option"
  area_of_use_auth_name :: string
  area_of_use_code :: string
  deprecated :: bool

record coordinate_system = ident +
  type :: string
  dimension :: int

record geodetic_crs = ident +
  name :: string
  description :: "string option"
  scope :: "string option"
  type :: string
  coordinate_system_auth_name :: "string option"
  coordinate_system_code :: "string option"
  datum_auth_name :: "string option"
  datum_code :: "string option"
  area_of_use_auth_name :: "string option"
  area_of_use_code :: "string option"
  text_definition :: "string option"
  deprecated :: bool

record vertical_crs = ident +
  name :: string
  description :: "string option"
  scope :: "string option"
  coordinate_system_auth_name :: string
  coordinate_system_code :: string
  datum_auth_name :: string
  datum_code :: string
  area_of_use_auth_name :: string
  area_of_use_code :: string
  deprecated :: bool

record conversion_method = ident +
  name :: string

record conversion_param = ident +
  name :: string

record conversion_table = ident +
  name :: string
  description :: "string option"
  scope :: "string option"
  area_of_use_auth_name :: string
  area_of_use_code :: string
  method_auth_name :: "string option"
  method_code :: "string option"
  param1_auth_name :: "string option"
  param1_code :: "string option"
  param1_value :: "real option"
  param1_uom_auth_name :: "string option"
  param1_uom_code :: "string option"
  param2_auth_name :: "string option"
  param2_code :: "string option"
  param2_value :: "real option"
  param2_uom_auth_name :: "string option"
  param2_uom_code :: "string option"
  param3_auth_name :: "string option"
  param3_code :: "string option"
  param3_value :: "real option"
  param3_uom_auth_name :: "string option"
  param3_uom_code :: "string option"
  param4_auth_name :: "string option"
  param4_code :: "string option"
  param4_value :: "real option"
  param4_uom_auth_name :: "string option"
  param4_uom_code :: "string option"
  param5_auth_name :: "string option"
  param5_code :: "string option"
  param5_value :: "real option"
  param5_uom_auth_name :: "string option"
  param5_uom_code :: "string option"
  param6_auth_name :: "string option"
  param6_code :: "string option"
  param6_value :: "real option"
  param6_uom_auth_name :: "string option"
  param6_uom_code :: "string option"
  param7_auth_name :: "string option"
  param7_code :: "string option"
  param7_value :: "real option"
  param7_uom_auth_name :: "string option"
  param7_uom_code :: "string option"
  deprecated :: bool

record projected_crs = ident +
  name :: string
  description :: "string option"
  scope :: "string option"
  coordinate_system_auth_name :: "string option"
  coordinate_system_code :: "string option"
  geodetic_crs_auth_name :: "string option"
  geodetic_crs_code :: "string option"
  conversion_auth_name :: "string option"
  conversion_code :: "string option"
  area_of_use_auth_name :: "string option"
  area_of_use_code :: "string option"
  text_definition :: "string option"
  deprecated :: bool

record compound_crs = ident +
  name :: string
  description :: "string option"
  scope :: "string option"
  horiz_crs_auth_name :: string
  horiz_crs_code :: string
  vertical_crs_auth_name :: string
  vertical_crs_code :: string
  area_of_use_auth_name :: string
  area_of_use_code :: string
  deprecated :: bool

record coordinate_operation_method = ident +
  name :: string

record helmert_transformation_table = ident +
  name :: string
  description :: "string option"
  scope :: "string option"
  method_auth_name :: string
  method_code :: string
  source_crs_auth_name :: string
  source_crs_code :: string
  target_crs_auth_name :: string
  target_crs_code :: string
  area_of_use_auth_name :: string
  area_of_use_code :: string
  accuracy :: "real option"
  tx :: real
  ty :: real
  tz :: real
  translation_uom_auth_name :: string
  translation_uom_code :: string
  rx :: "real option"
  ry :: "real option"
  rz :: "real option"
  rotation_uom_auth_name :: "string option"
  rotation_uom_code :: "string option"
  scale_difference :: "real option"
  scale_difference_uom_auth_name :: "string option"
  scale_difference_uom_code :: "string option"
  rate_tx :: "real option"
  rate_ty :: "real option"
  rate_tz :: "real option"
  rate_translation_uom_auth_name :: "string option"
  rate_translation_uom_code :: "string option"
  rate_rx :: "real option"
  rate_ry :: "real option"
  rate_rz :: "real option"
  rate_rotation_uom_auth_name :: "string option"
  rate_rotation_uom_code :: "string option"
  rate_scale_difference :: "real option"
  rate_scale_difference_uom_auth_name :: "string option"
  rate_scale_difference_uom_code :: "string option"
  epoch :: "real option"
  epoch_uom_auth_name :: "string option"
  epoch_uom_code :: "string option"
  px :: "real option"
  py :: "real option"
  pz :: "real option"
  pivot_uom_auth_name :: "string option"
  pivot_uom_code :: "string option"
  operation_version :: "string option"
  deprecated :: bool

record grid_transformation = ident +
  name :: string
  description :: "string option"
  scope :: "string option"
  method_auth_name :: string
  method_code :: string
  method_name :: string
  source_crs_auth_name :: string
  source_crs_code :: string
  target_crs_auth_name :: string
  target_crs_code :: string
  area_of_use_auth_name :: string
  area_of_use_code :: string
  accuracy :: "real option"
  grid_param_auth_name :: string
  grid_param_code :: string
  grid_param_name :: string
  grid_name :: string
  grid2_param_auth_name :: "string option"
  grid2_param_code :: "string option"
  grid2_param_name :: "string option"
  grid2_name :: "string option"
  interpolation_crs_auth_name :: "string option"
  interpolation_crs_code :: "string option"
  operation_version :: "string option"
  deprecated :: bool

record grid_packages =
  package_name :: string
  description :: "string option"
  url :: "string option"
  direct_download :: "bool option"
  open_license :: "bool option"

record grid_alternatives =
  original_grid_name :: string
  proj_grid_name :: string
  proj_grid_format :: string
  proj_method :: string
  inverse_direction :: bool
  package_name :: "string option"
  url :: "string option"
  direct_download :: "bool option"
  open_license :: "bool option"
  directory :: "string option"

record other_transformation = ident +
  name :: string
  description :: "string option"
  scope :: "string option"
  method_auth_name :: string
  method_code :: string
  method_name :: string
  source_crs_auth_name :: string
  source_crs_code :: string
  target_crs_auth_name :: string
  target_crs_code :: string
  area_of_use_auth_name :: string
  area_of_use_code :: string
  accuracy :: "real option"
  param1_auth_name :: "string option"
  param1_code :: "string option"
  param1_name :: "string option"
  param1_value :: "real option"
  param1_uom_auth_name :: "string option"
  param1_uom_code :: "string option"
  param2_auth_name :: "string option"
  param2_code :: "string option"
  param2_name :: "string option"
  param2_value :: "real option"
  param2_uom_auth_name :: "string option"
  param2_uom_code :: "string option"
  param3_auth_name :: "string option"
  param3_code :: "string option"
  param3_name :: "string option"
  param3_value :: "real option"
  param3_uom_auth_name :: "string option"
  param3_uom_code :: "string option"
  param4_auth_name :: "string option"
  param4_code :: "string option"
  param4_name :: "string option"
  param4_value :: "real option"
  param4_uom_auth_name :: "string option"
  param4_uom_code :: "string option"
  param5_auth_name :: "string option"
  param5_code :: "string option"
  param5_name :: "string option"
  param5_value :: "real option"
  param5_uom_auth_name :: "string option"
  param5_uom_code :: "string option"
  param6_auth_name :: "string option"
  param6_code :: "string option"
  param6_name :: "string option"
  param6_value :: "real option"
  param6_uom_auth_name :: "string option"
  param6_uom_code :: "string option"
  param7_auth_name :: "string option"
  param7_code :: "string option"
  param7_name :: "string option"
  param7_value :: "real option"
  param7_uom_auth_name :: "string option"
  param7_uom_code :: "string option"
  operation_version :: "string option"
  deprecated :: bool

record concatenated_operation = ident +
  name :: string
  description :: "string option"
  scope :: "string option"
  source_crs_auth_name :: string
  source_crs_code :: string
  target_crs_auth_name :: string
  target_crs_code :: string
  area_of_use_auth_name :: string
  area_of_use_code :: string
  accuracy :: "real option"
  step1_auth_name :: string
  step1_code :: string
  step2_auth_name :: string
  step2_code :: string
  step3_auth_name :: "string option"
  step3_code :: "string option"
  operation_version :: "string option"
  deprecated :: bool

section \<open>The database\<close>

text \<open>
  The state is the content of the tables that a constraint or a trigger of the claims'
  tables reads or writes, each a list of rows in insertion order. The tables
  \<^verbatim>\<open>metadata\<close>, \<^verbatim>\<open>geodetic_datum_preferred_hub\<close>, \<^verbatim>\<open>axis\<close>, \<^verbatim>\<open>alias_name\<close>,
  \<^verbatim>\<open>supersession\<close>, \<^verbatim>\<open>deprecation\<close> and \<^verbatim>\<open>authority_to_authority_preference\<close> are
  read by no rule of another table and their triggers write nothing; they are left out.
\<close>

record db =
  unit_of_measure :: "unit_of_measure list"
  celestial_body :: "celestial_body list"
  ellipsoid :: "ellipsoid list"
  area :: "area list"
  prime_meridian :: "prime_meridian list"
  geodetic_datum :: "geodetic_datum list"
  vertical_datum :: "vertical_datum list"
  coordinate_system :: "coordinate_system list"
  geodetic_crs :: "geodetic_crs list"
  vertical_crs :: "vertical_crs list"
  conversion_method :: "conversion_method list"
  conversion_param :: "conversion_param list"
  conversion_table :: "conversion_table list"
  projected_crs :: "projected_crs list"
  compound_crs :: "compound_crs list"
  coordinate_operation_method :: "coordinate_operation_method list"
  helmert_transformation_table :: "helmert_transformation_table list"
  grid_transformation :: "grid_transformation list"
  grid_packages :: "grid_packages list"
  grid_alternatives :: "grid_alternatives list"
  other_transformation :: "other_transformation list"
  concatenated_operation :: "concatenated_operation list"

text \<open>
  The schema file itself seeds one celestial body:
  \<^verbatim>\<open>INSERT INTO celestial_body VALUES('PROJ', 'EARTH', 'Earth', 6378137.0)\<close>.
\<close>

definition initial_db :: db where
  "initial_db =
     \<lparr>unit_of_measure = [],
      celestial_body = [\<lparr>auth_name = ''PROJ'', code = ''EARTH'',
                          celestial_body.name = ''Earth'',
                          celestial_body.semi_major_axis = 6378137\<rparr>],
      ellipsoid = [], area = [], prime_meridian = [], geodetic_datum = [],
      vertical_datum = [], coordinate_system = [], geodetic_crs = [], vertical_crs = [],
      conversion_method = [], conversion_param = [], conversion_table = [],
      projected_crs = [], compound_crs = [], coordinate_operation_method = [],
      helmert_transformation_table = [], grid_transformation = [], grid_packages = [],
      grid_alternatives = [], other_transformation = [], concatenated_operation = []\<rparr>"

section \<open>Views\<close>

text \<open>
  The view \<^verbatim>\<open>helmert_transformation\<close> is \<^verbatim>\<open>helmert_transformation_table h LEFT JOIN
  coordinate_operation_method m\<close>; a row of the view is the pair of the table row and its
  partner, whose name is the column \<open>method_name\<close>.
\<close>

definition helmert_transformation ::
    "db \<Rightarrow> (helmert_transformation_table \<times> coordinate_operation_method option) list" where
  "helmert_transformation s =
     [(h, m).
        h \<leftarrow> helmert_transformation_table s,
        m \<leftarrow> left_join_matches (coordinate_operation_method s)
               (\<lambda>m. sql_and
                  (sql_eq (Some (helmert_transformation_table.method_auth_name h)) (Some (auth_name m)))
                  (sql_eq (Some (helmert_transformation_table.method_code h)) (Some (code m))))]"

text \<open>
  The view \<^verbatim>\<open>conversion\<close> joins \<^verbatim>\<open>conversion_table c\<close> with its method and with the
  parameter of each of the seven slots; the names of the partners are the columns
  \<open>method_name\<close> and \<open>param1_name\<close> to \<open>param7_name\<close>.
\<close>

definition conversion_param_matches ::
    "db \<Rightarrow> string option \<Rightarrow> string option \<Rightarrow> conversion_param option list" where
  "conversion_param_matches s a c =
     left_join_matches (conversion_param s)
       (\<lambda>p. sql_and (sql_eq a (Some (auth_name p))) (sql_eq c (Some (code p))))"

definition conversion ::
    "db \<Rightarrow> (conversion_table \<times> conversion_method option \<times> conversion_param option
            \<times> conversion_param option \<times> conversion_param option \<times> conversion_param option
            \<times> conversion_param option \<times> conversion_param option \<times> conversion_param option) list" where
  "conversion s =
     [(c, m, param1, param2, param3, param4, param5, param6, param7).
        c \<leftarrow> conversion_table s,
        m \<leftarrow> left_join_matches (conversion_method s)
               (\<lambda>m. sql_and (sql_eq (conversion_table.method_auth_name c) (Some (auth_name m)))
                             (sql_eq (conversion_table.method_code c) (Some (code m)))),
        param1 \<leftarrow> conversion_param_matches s (conversion_table.param1_auth_name c)
                    (conversion_table.param1_code c),
        param2 \<leftarrow> conversion_param_matches s (conversion_table.param2_auth_name c)
                    (conversion_table.param2_code c),
        param3 \<leftarrow> conversion_param_matches s (conversion_table.param3_auth_name c)
                    (conversion_table.param3_code c),
        param4 \<leftarrow> conversion_param_matches s (conversion_table.param4_auth_name c)
                    (conversion_table.param4_code c),
        param5 \<leftarrow> conversion_param_matches s (conversion_table.param5_auth_name c)
                    (conversion_table.param5_code c),
        param6 \<leftarrow> conversion_param_matches s (conversion_table.param6_auth_name c)
                    (conversion_table.param6_code c),
        param7 \<leftarrow> conversion_param_matches s (conversion_table.param7_auth_name c)
                    (conversion_table.param7_code c)]"

text \<open>
  \<^verbatim>\<open>coordinate_operation_view\<close> is the kind-tagged \<^verbatim>\<open>UNION ALL\<close> of the grid, Helmert
  (through its view), other and concatenated operations. Of its columns the rows keep
  \<open>table_name\<close>, \<open>auth_name\<close>, \<open>code\<close>, \<open>name\<close>, the method, source, target and area
  columns, \<open>accuracy\<close> and \<open>deprecated\<close>; \<open>description\<close> and \<open>scope\<close>, which nothing
  reads, are dropped. The key columns come first in every row record.
\<close>

record coordinate_operation_view_row = ident +
  table_name :: string
  name :: string
  method_auth_name :: "string option"
  method_code :: "string option"
  method_name :: "string option"
  source_crs_auth_name :: string
  source_crs_code :: string
  target_crs_auth_name :: string
  target_crs_code :: string
  area_of_use_auth_name :: string
  area_of_use_code :: string
  accuracy :: "real option"
  deprecated :: bool

definition coordinate_operation_view :: "db \<Rightarrow> coordinate_operation_view_row list" where
  "coordinate_operation_view s =
     map (\<lambda>g. \<lparr>auth_name = auth_name g, code = code g,
               table_name = ''grid_transformation'',
               name = grid_transformation.name g,
               method_auth_name = Some (grid_transformation.method_auth_name g),
               method_code = Some (grid_transformation.method_code g),
               method_name = Some (grid_transformation.method_name g),
               source_crs_auth_name = grid_transformation.source_crs_auth_name g,
               source_crs_code = grid_transformation.source_crs_code g,
               target_crs_auth_name = grid_transformation.target_crs_auth_name g,
               target_crs_code = grid_transformation.target_crs_code g,
               area_of_use_auth_name = grid_transformation.area_of_use_auth_name g,
               area_of_use_code = grid_transformation.area_of_use_code g,
               accuracy = grid_transformation.accuracy g,
               deprecated = grid_transformation.deprecated g\<rparr>) (grid_transformation s)
     @ map (\<lambda>(h, m). \<lparr>auth_name = auth_name h, code = code h,
               table_name = ''helmert_transformation'',
               name = helmert_transformation_table.name h,
               method_auth_name = Some (helmert_transformation_table.method_auth_name h),
               method_code = Some (helmert_transformation_table.method_code h),
               method_name = map_option coordinate_operation_method.name m,
               source_crs_auth_name = helmert_transformation_table.source_crs_auth_name h,
               source_crs_code = helmert_transformation_table.source_crs_code h,
               target_crs_auth_name = helmert_transformation_table.target_crs_auth_name h,
               target_crs_code = helmert_transformation_table.target_crs_code h,
               area_of_use_auth_name = helmert_transformation_table.area_of_use_auth_name h,
               area_of_use_code = helmert_transformation_table.area_of_use_code h,
               accuracy = helmert_transformation_table.accuracy h,
               deprecated = helmert_transformation_table.deprecated h\<rparr>) (helmert_transformation s)
     @ map (\<lambda>t. \<lparr>auth_name = auth_name t, code = code t,
               table_name = ''other_transformation'',
               name = other_transformation.name t,
               method_auth_name = Some (other_transformation.method_auth_name t),
               method_code = Some (other_transformation.method_code t),
               method_name = Some (other_transformation.method_name t),
               source_crs_auth_name = other_transformation.source_crs_auth_name t,
               source_crs_code = other_transformation.source_crs_code t,
               target_crs_auth_name = other_transformation.target_crs_auth_name t,
               target_crs_code = other_transformation.target_crs_code t,
               area_of_use_auth_name = other_transformation.area_of_use_auth_name t,
               area_of_use_code = other_transformation.area_of_use_code t,
               accuracy = other_transformation.accuracy t,
               deprecated = other_transformation.deprecated t\<rparr>) (other_transformation s)
     @ map (\<lambda>k. \<lparr>auth_name = auth_name k, code = code k,
               table_name = ''concatenated_operation'',
               name = concatenated_operation.name k,
               method_auth_name = None, method_code = None, method_name = None,
               source_crs_auth_name = concatenated_operation.source_crs_auth_name k,
               source_crs_code = concatenated_operation.source_crs_code k,
               target_crs_auth_name = concatenated_operation.target_crs_auth_name k,
               target_crs_code = concatenated_operation.target_crs_code k,
               area_of_use_auth_name = concatenated_operation.area_of_use_auth_name k,
               area_of_use_code = concatenated_operation.area_of_use_code k,
               accuracy = concatenated_operation.accuracy k,
               deprecated = concatenated_operation.deprecated k\<rparr>) (concatenated_operation s)"

text \<open>
  \<^verbatim>\<open>coordinate_operation_with_conversion_view\<close>: the keys of the operation view with
  their kind in the column \<open>type\<close>, and the keys of \<^verbatim>\<open>conversion_table\<close> with the kind
  \<^verbatim>\<open>'conversion'\<close>.
\<close>

record coordinate_operation_with_conversion_view_row = ident +
  type :: string

definition coordinate_operation_with_conversion_view ::
    "db \<Rightarrow> coordinate_operation_with_conversion_view_row list" where
  "coordinate_operation_with_conversion_view s =
     map (\<lambda>v. \<lparr>auth_name = auth_name v, code = code v,
               type = coordinate_operation_view_row.table_name v\<rparr>) (coordinate_operation_view s)
     @ map (\<lambda>c. \<lparr>auth_name = auth_name c, code = code c, type = ''conversion''\<rparr>)
         (conversion_table s)"

text \<open>
  \<^verbatim>\<open>crs_view\<close> is the kind-tagged \<^verbatim>\<open>UNION ALL\<close> of the geodetic, projected, vertical
  and compound CRS tables; again \<open>description\<close> and \<open>scope\<close> are dropped.
\<close>

record crs_view_row = ident +
  table_name :: string
  name :: string
  type :: string
  area_of_use_auth_name :: "string option"
  area_of_use_code :: "string option"
  deprecated :: bool

definition crs_view :: "db \<Rightarrow> crs_view_row list" where
  "crs_view s =
     map (\<lambda>g. \<lparr>auth_name = auth_name g, code = code g,
               table_name = ''geodetic_crs'',
               name = geodetic_crs.name g,
               type = geodetic_crs.type g,
               area_of_use_auth_name = geodetic_crs.area_of_use_auth_name g,
               area_of_use_code = geodetic_crs.area_of_use_code g,
               deprecated = geodetic_crs.deprecated g\<rparr>) (geodetic_crs s)
     @ map (\<lambda>p. \<lparr>auth_name = auth_name p, code = code p,
               table_name = ''projected_crs'',
               name = projected_crs.name p,
               type = ''projected'',
               area_of_use_auth_name = projected_crs.area_of_use_auth_name p,
               area_of_use_code = projected_crs.area_of_use_code p,
               deprecated = projected_crs.deprecated p\<rparr>) (projected_crs s)
     @ map (\<lambda>v. \<lparr>auth_name = auth_name v, code = code v,
               table_name = ''vertical_crs'',
               name = vertical_crs.name v,
               type = ''vertical'',
               area_of_use_auth_name = Some (vertical_crs.area_of_use_auth_name v),
               area_of_use_code = Some (vertical_crs.area_of_use_code v),
               deprecated = vertical_crs.deprecated v\<rparr>) (vertical_crs s)
     @ map (\<lambda>c. \<lparr>auth_name = auth_name c, code = code c,
               table_name = ''compound_crs'',
               name = compound_crs.name c,
               type = ''compound'',
               area_of_use_auth_name = Some (compound_crs.area_of_use_auth_name c),
               area_of_use_code = Some (compound_crs.area_of_use_code c),
               deprecated = compound_crs.deprecated c\<rparr>) (compound_crs s)"

section \<open>Inserts\<close>

text \<open>
  An \<^verbatim>\<open>INSERT\<close> runs the table's \<^verbatim>\<open>BEFORE INSERT\<close> trigger, then the \<^verbatim>\<open>CHECK\<close>
  constraints of the columns, then the primary key, and after the row is written the
  foreign keys (\<^verbatim>\<open>PRAGMA foreign_keys = 1\<close>). Any failure leaves the database as it
  was; otherwise the row is appended to the table.
\<close>

definition insert_row :: "error option \<Rightarrow> error option \<Rightarrow> db \<Rightarrow> error + db" where
  "insert_row trigger constraints s' =
     (case trigger of
        Some e \<Rightarrow> Inl e
      | None \<Rightarrow> (case constraints of Some e \<Rightarrow> Inl e | None \<Rightarrow> Inr s'))"

text \<open>
  \<^verbatim>\<open>length(x)\<close> of a text is the number of its characters before the first NUL
  character, and \<^verbatim>\<open>NULL\<close> when \<open>x\<close> is.
\<close>

definition text_length :: "string \<Rightarrow> nat" where
  "text_length x = length (takeWhile (\<lambda>c. c \<noteq> CHR 0x00) x)"

definition sql_length :: "string option \<Rightarrow> int option" where
  "sql_length x = map_option (\<lambda>v. int (text_length v)) x"

text \<open>
  \<open>has_key\<close> is the primary key lookup. A foreign key is checked only when every
  referencing column is non-\<^verbatim>\<open>NULL\<close>; then the parent table must hold the key.
\<close>

definition has_key :: "('a ident_scheme) list \<Rightarrow> string \<Rightarrow> string \<Rightarrow> bool" where
  "has_key rows a c = list_ex (\<lambda>r. auth_name r = a \<and> code r = c) rows"

fun fk_violated :: "string option \<Rightarrow> string option \<Rightarrow> ('a ident_scheme) list \<Rightarrow> bool" where
  "fk_violated (Some a) (Some c) parent = (\<not> has_key parent a c)"
| "fk_violated _ _ parent = False"

text \<open>
  The lookup that the triggers repeat: the rows of a table whose key equals a pair of
  (possibly \<^verbatim>\<open>NULL\<close>) referencing columns,
  \<^verbatim>\<open>t.auth_name = NEW.x_auth_name AND t.code = NEW.x_code\<close>.
\<close>

definition key_is :: "string option \<Rightarrow> string option \<Rightarrow> 'a ident_scheme \<Rightarrow> sql_bool" where
  "key_is a c r = sql_and (sql_eq (Some (auth_name r)) a) (sql_eq (Some (code r)) c)"

subsection \<open>unit_of_measure, celestial_body\<close>

definition unit_of_measure_constraints :: "db \<Rightarrow> unit_of_measure \<Rightarrow> error option" where
  "unit_of_measure_constraints s NEW = run_rules
     [(\<not> 1 \<le> text_length (auth_name NEW), Check_failed ''unit_of_measure.auth_name''),
      (\<not> 1 \<le> text_length (code NEW), Check_failed ''unit_of_measure.code''),
      (\<not> 2 \<le> text_length (unit_of_measure.name NEW), Check_failed ''unit_of_measure.name''),
      (\<not> check_holds (sql_in (Some (unit_of_measure.type NEW))
            [Some ''length'', Some ''angle'', Some ''scale'', Some ''time'']),
         Check_failed ''unit_of_measure.type''),
      (has_key (unit_of_measure s) (auth_name NEW) (code NEW),
         Unique_failed ''pk_unit_of_measure'')]"

definition insert_unit_of_measure :: "db \<Rightarrow> unit_of_measure \<Rightarrow> error + db" where
  "insert_unit_of_measure s NEW =
     insert_row None (unit_of_measure_constraints s NEW)
       (s\<lparr>unit_of_measure := unit_of_measure s @ [NEW]\<rparr>)"

definition celestial_body_constraints :: "db \<Rightarrow> celestial_body \<Rightarrow> error option" where
  "celestial_body_constraints s NEW = run_rules
     [(\<not> 1 \<le> text_length (auth_name NEW), Check_failed ''celestial_body.auth_name''),
      (\<not> 1 \<le> text_length (code NEW), Check_failed ''celestial_body.code''),
      (\<not> 2 \<le> text_length (celestial_body.name NEW), Check_failed ''celestial_body.name''),
      (\<not> celestial_body.semi_major_axis NEW > 0, Check_failed ''celestial_body.semi_major_axis''),
      (has_key (celestial_body s) (auth_name NEW) (code NEW),
         Unique_failed ''pk_celestial_body'')]"

definition insert_celestial_body :: "db \<Rightarrow> celestial_body \<Rightarrow> error + db" where
  "insert_celestial_body s NEW =
     insert_row None (celestial_body_constraints s NEW)
       (s\<lparr>celestial_body := celestial_body s @ [NEW]\<rparr>)"

text \<open>The scalar subquery \<^verbatim>\<open>(SELECT type FROM unit_of_measure WHERE ...)\<close>.\<close>

definition unit_of_measure_type :: "db \<Rightarrow> string option \<Rightarrow> string option \<Rightarrow> string option" where
  "unit_of_measure_type s a c =
     select_scalar (unit_of_measure s) (key_is a c) (\<lambda>u. Some (unit_of_measure.type u))"

subsection \<open>ellipsoid\<close>

definition ellipsoid_insert_trigger :: "db \<Rightarrow> ellipsoid \<Rightarrow> error option" where
  "ellipsoid_insert_trigger s NEW = run_rules
     [(is_true (sql_or
          (sql_and (is_null (inv_flattening NEW)) (is_null (semi_minor_axis NEW)))
          (sql_and (is_not_null (inv_flattening NEW)) (is_not_null (semi_minor_axis NEW)))),
       Abort ''insert on ellipsoid violates constraint: inv_flattening (exclusive) or semi_minor_axis should be defined''),
      (is_true (sql_ne
          (unit_of_measure_type s (Some (ellipsoid.uom_auth_name NEW))
             (Some (ellipsoid.uom_code NEW)))
          (Some ''length'')),
       Abort (''insert on ellipsoid violates constraint: uom should be of type '' @ quote ''length''))]"

definition ellipsoid_constraints :: "db \<Rightarrow> ellipsoid \<Rightarrow> error option" where
  "ellipsoid_constraints s NEW = run_rules
     [(\<not> 1 \<le> text_length (auth_name NEW), Check_failed ''ellipsoid.auth_name''),
      (\<not> 1 \<le> text_length (code NEW), Check_failed ''ellipsoid.code''),
      (\<not> 2 \<le> text_length (ellipsoid.name NEW), Check_failed ''ellipsoid.name''),
      (\<not> ellipsoid.semi_major_axis NEW > 0, Check_failed ''ellipsoid.semi_major_axis''),
      (\<not> check_holds (sql_or (sql_eq (inv_flattening NEW) (Some 0))
                              (sql_ge (inv_flattening NEW) (Some 1))),
         Check_failed ''ellipsoid.inv_flattening''),
      (\<not> check_holds (sql_and (sql_gt (semi_minor_axis NEW) (Some 0))
                               (sql_le (semi_minor_axis NEW) (Some (ellipsoid.semi_major_axis NEW)))),
         Check_failed ''ellipsoid.semi_minor_axis''),
      (has_key (ellipsoid s) (auth_name NEW) (code NEW), Unique_failed ''pk_ellipsoid''),
      (fk_violated (Some (celestial_body_auth_name NEW)) (Some (celestial_body_code NEW))
         (celestial_body s), Foreign_key_failed ''fk_ellipsoid_celestial_body''),
      (fk_violated (Some (ellipsoid.uom_auth_name NEW)) (Some (ellipsoid.uom_code NEW))
         (unit_of_measure s), Foreign_key_failed ''fk_ellipsoid_unit_of_measure'')]"

definition insert_ellipsoid :: "db \<Rightarrow> ellipsoid \<Rightarrow> error + db" where
  "insert_ellipsoid s NEW =
     insert_row (ellipsoid_insert_trigger s NEW) (ellipsoid_constraints s NEW)
       (s\<lparr>ellipsoid := ellipsoid s @ [NEW]\<rparr>)"

subsection \<open>area\<close>

definition area_insert_trigger :: "db \<Rightarrow> area \<Rightarrow> error option" where
  "area_insert_trigger s NEW = run_rules
     [(is_true (sql_gt (south_lat NEW) (north_lat NEW)),
       Abort ''insert on area violates constraint: south_lat <= north_lat''),
      (is_true (sql_not (sql_or
          (sql_le (west_lon NEW) (east_lon NEW))
          (sql_le_double
             (sql_sub (sql_add (double_value (east_lon NEW)) (double_value (Some 360)))
                (double_value (west_lon NEW)))
             (double_value (Some 200))))),
       Abort ''insert on area violates constraint: west_lon <= east_lon OR (east_lon + 360 - west_lon <= 200)'')]"

definition area_constraints :: "db \<Rightarrow> area \<Rightarrow> error option" where
  "area_constraints s NEW = run_rules
     [(\<not> 1 \<le> text_length (auth_name NEW), Check_failed ''area.auth_name''),
      (\<not> 1 \<le> text_length (code NEW), Check_failed ''area.code''),
      (\<not> 2 \<le> text_length (area.name NEW), Check_failed ''area.name''),
      (\<not> check_holds (sql_between (south_lat NEW) (Some (- 90)) (Some 90)),
         Check_failed ''area.south_lat''),
      (\<not> check_holds (sql_between (north_lat NEW) (Some (- 90)) (Some 90)),
         Check_failed ''area.north_lat''),
      (\<not> check_holds (sql_between (west_lon NEW) (Some (- 180)) (Some 180)),
         Check_failed ''area.west_lon''),
      (\<not> check_holds (sql_between (east_lon NEW) (Some (- 180)) (Some 180)),
         Check_failed ''area.east_lon''),
      (has_key (area s) (auth_name NEW) (code NEW), Unique_failed ''pk_area'')]"

definition insert_area :: "db \<Rightarrow> area \<Rightarrow> error + db" where
  "insert_area s NEW =
     insert_row (area_insert_trigger s NEW) (area_constraints s NEW)
       (s\<lparr>area := area s @ [NEW]\<rparr>)"

subsection \<open>prime_meridian\<close>

definition prime_meridian_insert_trigger :: "db \<Rightarrow> prime_meridian \<Rightarrow> error option" where
  "prime_meridian_insert_trigger s NEW = run_rules
     [(is_true (sql_ne
          (unit_of_measure_type s (Some (prime_meridian.uom_auth_name NEW))
             (Some (prime_meridian.uom_code NEW)))
          (Some ''angle'')),
       Abort (''insert on prime_meridian violates constraint: uom should be of type '' @ quote ''angle''))]"

definition prime_meridian_constraints :: "db \<Rightarrow> prime_meridian \<Rightarrow> error option" where
  "prime_meridian_constraints s NEW = run_rules
     [(\<not> 1 \<le> text_length (auth_name NEW), Check_failed ''prime_meridian.auth_name''),
      (\<not> 1 \<le> text_length (code NEW), Check_failed ''prime_meridian.code''),
      (\<not> 2 \<le> text_length (prime_meridian.name NEW), Check_failed ''prime_meridian.name''),
      (\<not> (- 180 \<le> longitude NEW \<and> longitude NEW \<le> 180), Check_failed ''prime_meridian.longitude''),
      (has_key (prime_meridian s) (auth_name NEW) (code NEW), Unique_failed ''pk_prime_meridian''),
      (fk_violated (Some (prime_meridian.uom_auth_name NEW)) (Some (prime_meridian.uom_code NEW))
         (unit_of_measure s), Foreign_key_failed ''fk_prime_meridian_unit_of_measure'')]"

definition insert_prime_meridian :: "db \<Rightarrow> prime_meridian \<Rightarrow> error + db" where
  "insert_prime_meridian s NEW =
     insert_row (prime_meridian_insert_trigger s NEW) (prime_meridian_constraints s NEW)
       (s\<lparr>prime_meridian := prime_meridian s @ [NEW]\<rparr>)"

subsection \<open>geodetic_datum, vertical_datum\<close>

text \<open>
  On a \<open>bool\<close> column \<^verbatim>\<open>deprecated != 0\<close> is the column itself, and \<^verbatim>\<open>NEW.deprecated = 0\<close>
  and \<^verbatim>\<open>NEW.deprecated != 1\<close> are both its negation.
\<close>

definition geodetic_datum_insert_trigger :: "db \<Rightarrow> geodetic_datum \<Rightarrow> error option" where
  "geodetic_datum_insert_trigger s NEW = run_rules
     [(is_true (sql_and
          (sql_exists (ellipsoid s)
             (\<lambda>e. sql_and (key_is (Some (ellipsoid_auth_name NEW)) (Some (ellipsoid_code NEW)) e)
                           (Some (ellipsoid.deprecated e))))
          (Some (\<not> geodetic_datum.deprecated NEW))),
       Abort ''insert on geodetic_datum violates constraint: ellipsoid must not be deprecated when geodetic_datum is not deprecated''),
      (is_true (sql_and
          (sql_exists (prime_meridian s)
             (\<lambda>m. sql_and (key_is (Some (prime_meridian_auth_name NEW)) (Some (prime_meridian_code NEW)) m)
                           (Some (prime_meridian.deprecated m))))
          (Some (\<not> geodetic_datum.deprecated NEW))),
       Abort ''insert on geodetic_datum violates constraint: prime_meridian must not be deprecated when geodetic_datum is not deprecated''),
      (is_true (sql_and
          (sql_exists (area s)
             (\<lambda>a. sql_and (key_is (Some (geodetic_datum.area_of_use_auth_name NEW))
                                   (Some (geodetic_datum.area_of_use_code NEW)) a)
                           (Some (area.deprecated a))))
          (Some (\<not> geodetic_datum.deprecated NEW))),
       Abort ''insert on geodetic_datum violates constraint: area_of_use must not be deprecated when geodetic_datum is not deprecated'')]"

definition geodetic_datum_constraints :: "db \<Rightarrow> geodetic_datum \<Rightarrow> error option" where
  "geodetic_datum_constraints s NEW = run_rules
     [(\<not> 1 \<le> text_length (auth_name NEW), Check_failed ''geodetic_datum.auth_name''),
      (\<not> 1 \<le> text_length (code NEW), Check_failed ''geodetic_datum.code''),
      (\<not> 2 \<le> text_length (geodetic_datum.name NEW), Check_failed ''geodetic_datum.name''),
      (has_key (geodetic_datum s) (auth_name NEW) (code NEW), Unique_failed ''pk_geodetic_datum''),
      (fk_violated (Some (ellipsoid_auth_name NEW)) (Some (ellipsoid_code NEW))
         (ellipsoid s), Foreign_key_failed ''fk_geodetic_datum_ellipsoid''),
      (fk_violated (Some (prime_meridian_auth_name NEW)) (Some (prime_meridian_code NEW))
         (prime_meridian s), Foreign_key_failed ''fk_geodetic_datum_prime_meridian''),
      (fk_violated (Some (geodetic_datum.area_of_use_auth_name NEW))
         (Some (geodetic_datum.area_of_use_code NEW))
         (area s), Foreign_key_failed ''fk_geodetic_datum_area'')]"

definition insert_geodetic_datum :: "db \<Rightarrow> geodetic_datum \<Rightarrow> error + db" where
  "insert_geodetic_datum s NEW =
     insert_row (geodetic_datum_insert_trigger s NEW) (geodetic_datum_constraints s NEW)
       (s\<lparr>geodetic_datum := geodetic_datum s @ [NEW]\<rparr>)"

definition vertical_datum_insert_trigger :: "db \<Rightarrow> vertical_datum \<Rightarrow> error option" where
  "vertical_datum_insert_trigger s NEW = run_rules
     [(is_true (sql_and
          (sql_exists (area s)
             (\<lambda>a. sql_and (key_is (Some (vertical_datum.area_of_use_auth_name NEW))
                                   (Some (vertical_datum.area_of_use_code NEW)) a)
                           (Some (area.deprecated a))))
          (Some (\<not> vertical_datum.deprecated NEW))),
       Abort ''insert on vertical_datum violates constraint: area_of_use must not be deprecated when vertical_datum is not deprecated'')]"

definition vertical_datum_constraints :: "db \<Rightarrow> vertical_datum \<Rightarrow> error option" where
  "vertical_datum_constraints s NEW = run_rules
     [(\<not> 1 \<le> text_length (auth_name NEW), Check_failed ''vertical_datum.auth_name''),
      (\<not> 1 \<le> text_length (code NEW), Check_failed ''vertical_datum.code''),
      (\<not> 2 \<le> text_length (vertical_datum.name NEW), Check_failed ''vertical_datum.name''),
      (has_key (vertical_datum s) (auth_name NEW) (code NEW), Unique_failed ''pk_vertical_datum''),
      (fk_violated (Some (vertical_datum.area_of_use_auth_name NEW))
         (Some (vertical_datum.area_of_use_code NEW))
         (area s), Foreign_key_failed ''fk_vertical_datum_area'')]"

definition insert_vertical_datum :: "db \<Rightarrow> vertical_datum \<Rightarrow> error + db" where
  "insert_vertical_datum s NEW =
     insert_row (vertical_datum_insert_trigger s NEW) (vertical_datum_constraints s NEW)
       (s\<lparr>vertical_datum := vertical_datum s @ [NEW]\<rparr>)"

subsection \<open>coordinate_system\<close>

definition coordinate_system_insert_trigger :: "db \<Rightarrow> coordinate_system \<Rightarrow> error option" where
  "coordinate_system_insert_trigger s NEW = run_rules
     [(coordinate_system.type NEW = ''vertical'' \<and> dimension NEW \<noteq> 1,
       Abort (''insert on coordinate_system violates constraint: dimension must be equal to 1 for type = ''
              @ quote ''vertical'')),
      (coordinate_system.type NEW = ''Cartesian'' \<and> dimension NEW \<notin> {2, 3},
       Abort (''insert on coordinate_system violates constraint: dimension must be equal to 2 or 3 for type = ''
              @ quote ''Cartesian'')),
      (coordinate_system.type NEW = ''ellipsoidal'' \<and> dimension NEW \<notin> {2, 3},
       Abort (''insert on coordinate_system violates constraint: dimension must be equal to 2 or 3 for type = ''
              @ quote ''ellipsoidal''))]"

definition coordinate_system_constraints :: "db \<Rightarrow> coordinate_system \<Rightarrow> error option" where
  "coordinate_system_constraints s NEW = run_rules
     [(\<not> 1 \<le> text_length (auth_name NEW), Check_failed ''coordinate_system.auth_name''),
      (\<not> 1 \<le> text_length (code NEW), Check_failed ''coordinate_system.code''),
      (coordinate_system.type NEW \<notin> {''Cartesian'', ''vertical'', ''ellipsoidal'', ''spherical''},
         Check_failed ''coordinate_system.type''),
      (\<not> (1 \<le> dimension NEW \<and> dimension NEW \<le> 3), Check_failed ''coordinate_system.dimension''),
      (has_key (coordinate_system s) (auth_name NEW) (code NEW),
         Unique_failed ''pk_coordinate_system'')]"

definition insert_coordinate_system :: "db \<Rightarrow> coordinate_system \<Rightarrow> error + db" where
  "insert_coordinate_system s NEW =
     insert_row (coordinate_system_insert_trigger s NEW) (coordinate_system_constraints s NEW)
       (s\<lparr>coordinate_system := coordinate_system s @ [NEW]\<rparr>)"

text \<open>
  The scalar subqueries \<^verbatim>\<open>(SELECT type FROM coordinate_system WHERE ...)\<close> and
  \<^verbatim>\<open>(SELECT dimension FROM coordinate_system WHERE ...)\<close> of the CRS triggers.
\<close>

definition coordinate_system_type :: "db \<Rightarrow> string option \<Rightarrow> string option \<Rightarrow> string option" where
  "coordinate_system_type s a c =
     select_scalar (coordinate_system s) (key_is a c) (\<lambda>cs. Some (coordinate_system.type cs))"

definition coordinate_system_dimension :: "db \<Rightarrow> string option \<Rightarrow> string option \<Rightarrow> int option" where
  "coordinate_system_dimension s a c =
     select_scalar (coordinate_system s) (key_is a c) (\<lambda>cs. Some (dimension cs))"

subsection \<open>geodetic_crs\<close>

definition geodetic_crs_insert_trigger :: "db \<Rightarrow> geodetic_crs \<Rightarrow> error option" where
  "geodetic_crs_insert_trigger s NEW = run_rules
     [(is_true (sql_exists (crs_view s) (key_is (Some (auth_name NEW)) (Some (code NEW)))),
       Abort ''insert on geodetic_crs violates constraint: (auth_name, code) must not already exist in crs_view''),
      (is_true (sql_and
          (sql_or (is_null (geodetic_crs.coordinate_system_auth_name NEW))
                  (is_null (geodetic_crs.coordinate_system_code NEW)))
          (is_null (geodetic_crs.text_definition NEW))),
       Abort ''insert on geodetic_crs violates constraint: coordinate_system must be defined when text_definition is NULL''),
      (is_true (sql_and
          (sql_or (is_null (geodetic_crs.datum_auth_name NEW))
                  (is_null (geodetic_crs.datum_code NEW)))
          (is_null (geodetic_crs.text_definition NEW))),
       Abort ''insert on geodetic_crs violates constraint: datum must be defined when text_definition is NULL''),
      (is_true (sql_and
          (sql_not (sql_or (is_null (geodetic_crs.coordinate_system_auth_name NEW))
                           (is_null (geodetic_crs.coordinate_system_code NEW))))
          (is_not_null (geodetic_crs.text_definition NEW))),
       Abort ''insert on geodetic_crs violates constraint: coordinate_system must NOT be defined when text_definition is NOT NULL''),
      (is_true (sql_and
          (sql_not (sql_or (is_null (geodetic_crs.datum_auth_name NEW))
                           (is_null (geodetic_crs.datum_code NEW))))
          (is_not_null (geodetic_crs.text_definition NEW))),
       Abort ''insert on geodetic_crs violates constraint: datum must NOT be defined when text_definition is NOT NULL''),
      (is_true (sql_and (sql_and
          (sql_exists (geodetic_datum s)
             (\<lambda>datum. sql_and (key_is (geodetic_crs.datum_auth_name NEW)
                                       (geodetic_crs.datum_code NEW) datum)
                               (Some (geodetic_datum.deprecated datum))))
          (Some (\<not> geodetic_crs.deprecated NEW)))
          (is_not_null (geodetic_crs.text_definition NEW))),
       Abort ''insert on geodetic_crs violates constraint: datum must not be deprecated when geodetic_crs is not deprecated''),
      (is_true (sql_and
          (sql_or (is_null (geodetic_crs.area_of_use_auth_name NEW))
                  (is_null (geodetic_crs.area_of_use_code NEW)))
          (is_null (geodetic_crs.text_definition NEW))),
       Abort ''insert on geodetic_crs violates constraint: area_of_use must be defined when text_definition is NULL''),
      (is_true (sql_and (sql_and
          (sql_exists (area s)
             (\<lambda>a. sql_and (key_is (geodetic_crs.area_of_use_auth_name NEW)
                                   (geodetic_crs.area_of_use_code NEW) a)
                           (Some (area.deprecated a))))
          (Some (\<not> geodetic_crs.deprecated NEW)))
          (is_not_null (geodetic_crs.text_definition NEW))),
       Abort ''insert on geodetic_crs violates constraint: area_of_use must not be deprecated when geodetic_crs is not deprecated''),
      (is_true (sql_and
          (Some (geodetic_crs.type NEW = ''geocentric''))
          (sql_ne (coordinate_system_dimension s (geodetic_crs.coordinate_system_auth_name NEW)
                     (geodetic_crs.coordinate_system_code NEW)) (Some 3))),
       Abort (''insert on geodetic_crs violates constraint: coordinate_system.dimension must be 3 for type = ''
              @ quote ''geocentric'')),
      (is_true (sql_and
          (Some (geodetic_crs.type NEW = ''geocentric''))
          (sql_ne (coordinate_system_type s (geodetic_crs.coordinate_system_auth_name NEW)
                     (geodetic_crs.coordinate_system_code NEW)) (Some ''Cartesian''))),
       Abort (''insert on geodetic_crs violates constraint: coordinate_system.type must be ''
              @ quote ''Cartesian'' @ '' for type = '' @ quote ''geocentric'')),
      (is_true (sql_and
          (sql_in (Some (geodetic_crs.type NEW)) [Some ''geographic 2D'', Some ''geographic 3D''])
          (sql_ne (coordinate_system_type s (geodetic_crs.coordinate_system_auth_name NEW)
                     (geodetic_crs.coordinate_system_code NEW)) (Some ''ellipsoidal''))),
       Abort (''insert on geodetic_crs violates constraint: coordinate_system.type must be ''
              @ quote ''ellipsoidal'' @ ''  for type = '' @ quote ''geographic 2D''
              @ '' or '' @ quote ''geographic 3D'')),
      (is_true (sql_and (sql_and
          (Some (geodetic_crs.type NEW = ''geographic 2D''))
          (Some (\<not> geodetic_crs.deprecated NEW)))
          (sql_ne (coordinate_system_dimension s (geodetic_crs.coordinate_system_auth_name NEW)
                     (geodetic_crs.coordinate_system_code NEW)) (Some 2))),
       Abort (''insert on geodetic_crs violates constraint: coordinate_system.dimension must be 2 for type = ''
              @ quote ''geographic 2D'')),
      (is_true (sql_and
          (Some (geodetic_crs.type NEW = ''geographic 3D''))
          (sql_ne (coordinate_system_dimension s (geodetic_crs.coordinate_system_auth_name NEW)
                     (geodetic_crs.coordinate_system_code NEW)) (Some 3))),
       Abort (''insert on geodetic_crs violates constraint: coordinate_system.dimension must be 3 for type = ''
              @ quote ''geographic 3D''))]"

definition geodetic_crs_constraints :: "db \<Rightarrow> geodetic_crs \<Rightarrow> error option" where
  "geodetic_crs_constraints s NEW = run_rules
     [(\<not> 1 \<le> text_length (auth_name NEW), Check_failed ''geodetic_crs.auth_name''),
      (\<not> 1 \<le> text_length (code NEW), Check_failed ''geodetic_crs.code''),
      (\<not> 2 \<le> text_length (geodetic_crs.name NEW), Check_failed ''geodetic_crs.name''),
      (geodetic_crs.type NEW \<notin> {''geographic 2D'', ''geographic 3D'', ''geocentric''},
         Check_failed ''geodetic_crs.type''),
      (has_key (geodetic_crs s) (auth_name NEW) (code NEW), Unique_failed ''pk_geodetic_crs''),
      (fk_violated (geodetic_crs.coordinate_system_auth_name NEW)
         (geodetic_crs.coordinate_system_code NEW)
         (coordinate_system s), Foreign_key_failed ''fk_geodetic_crs_coordinate_system''),
      (fk_violated (geodetic_crs.datum_auth_name NEW) (geodetic_crs.datum_code NEW)
         (geodetic_datum s), Foreign_key_failed ''fk_geodetic_crs_datum''),
      (fk_violated (geodetic_crs.area_of_use_auth_name NEW) (geodetic_crs.area_of_use_code NEW)
         (area s), Foreign_key_failed ''fk_geodetic_crs_area'')]"

definition insert_geodetic_crs :: "db \<Rightarrow> geodetic_crs \<Rightarrow> error + db" where
  "insert_geodetic_crs s NEW =
     insert_row (geodetic_crs_insert_trigger s NEW) (geodetic_crs_constraints s NEW)
       (s\<lparr>geodetic_crs := geodetic_crs s @ [NEW]\<rparr>)"

subsection \<open>vertical_crs\<close>

definition vertical_crs_insert_trigger :: "db \<Rightarrow> vertical_crs \<Rightarrow> error option" where
  "vertical_crs_insert_trigger s NEW = run_rules
     [(is_true (sql_exists (crs_view s) (key_is (Some (auth_name NEW)) (Some (code NEW)))),
       Abort ''insert on vertical_crs violates constraint: (auth_name, code) must not already exist in crs_view''),
      (is_true (sql_and
          (sql_exists (vertical_crs s)
             (\<lambda>datum. sql_and (key_is (Some (vertical_crs.datum_auth_name NEW))
                                       (Some (vertical_crs.datum_code NEW)) datum)
                               (Some (vertical_crs.deprecated datum))))
          (Some (\<not> vertical_crs.deprecated NEW))),
       Abort ''insert on vertical_crs violates constraint: datum must not be deprecated when vertical_crs is not deprecated''),
      (is_true (sql_and
          (sql_exists (area s)
             (\<lambda>a. sql_and (key_is (Some (vertical_crs.area_of_use_auth_name NEW))
                                   (Some (vertical_crs.area_of_use_code NEW)) a)
                           (Some (area.deprecated a))))
          (Some (\<not> vertical_crs.deprecated NEW))),
       Abort ''insert on vertical_crs violates constraint: area_of_use must not be deprecated when vertical_crs is not deprecated''),
      (is_true (sql_ne
          (coordinate_system_type s (Some (vertical_crs.coordinate_system_auth_name NEW))
             (Some (vertical_crs.coordinate_system_code NEW)))
          (Some ''vertical'')),
       Abort (''insert on vertical_crs violates constraint: coordinate_system.type must be ''
              @ quote ''vertical'')),
      (is_true (sql_ne
          (coordinate_system_dimension s (Some (vertical_crs.coordinate_system_auth_name NEW))
             (Some (vertical_crs.coordinate_system_code NEW)))
          (Some 1)),
       Abort ''insert on vertical_crs violates constraint: coordinate_system.dimension must be 1'')]"

definition vertical_crs_constraints :: "db \<Rightarrow> vertical_crs \<Rightarrow> error option" where
  "vertical_crs_constraints s NEW = run_rules
     [(\<not> 1 \<le> text_length (auth_name NEW), Check_failed ''vertical_crs.auth_name''),
      (\<not> 1 \<le> text_length (code NEW), Check_failed ''vertical_crs.code''),
      (\<not> 2 \<le> text_length (vertical_crs.name NEW), Check_failed ''vertical_crs.name''),
      (has_key (vertical_crs s) (auth_name NEW) (code NEW), Unique_failed ''pk_vertical_crs''),
      (fk_violated (Some (vertical_crs.coordinate_system_auth_name NEW))
         (Some (vertical_crs.coordinate_system_code NEW))
         (coordinate_system s), Foreign_key_failed ''fk_vertical_crs_coordinate_system''),
      (fk_violated (Some (vertical_crs.datum_auth_name NEW)) (Some (vertical_crs.datum_code NEW))
         (vertical_datum s), Foreign_key_failed ''fk_vertical_crs_datum''),
      (fk_violated (Some (vertical_crs.area_of_use_auth_name NEW))
         (Some (vertical_crs.area_of_use_code NEW))
         (area s), Foreign_key_failed ''fk_vertical_crs_area'')]"

definition insert_vertical_crs :: "db \<Rightarrow> vertical_crs \<Rightarrow> error + db" where
  "insert_vertical_crs s NEW =
     insert_row (vertical_crs_insert_trigger s NEW) (vertical_crs_constraints s NEW)
       (s\<lparr>vertical_crs := vertical_crs s @ [NEW]\<rparr>)"

subsection \<open>conversion_method, conversion_param, conversion_table\<close>

definition known_conversion_methods :: "string list" where
  "known_conversion_methods =
     [''EPSG_1024_Popular Visualisation Pseudo Mercator'',
      ''EPSG_1027_Lambert Azimuthal Equal Area (Spherical)'',
      ''EPSG_1028_Equidistant Cylindrical'',
      ''EPSG_1029_Equidistant Cylindrical (Spherical)'',
      ''EPSG_1041_Krovak (North Orientated)'',
      ''EPSG_1042_Krovak Modified'',
      ''EPSG_1043_Krovak Modified (North Orientated)'',
      ''EPSG_1051_Lambert Conic Conformal (2SP Michigan)'',
      ''EPSG_1052_Colombia Urban'',
      ''EPSG_1068_Height Depth Reversal'',
      ''EPSG_1069_Change of Vertical Unit'',
      ''EPSG_1078_Equal Earth'',
      ''EPSG_9602_Geographic/geocentric conversions'',
      ''EPSG_9659_Geographic3D to 2D conversion'',
      ''EPSG_9801_Lambert Conic Conformal (1SP)'',
      ''EPSG_9802_Lambert Conic Conformal (2SP)'',
      ''EPSG_9803_Lambert Conic Conformal (2SP Belgium)'',
      ''EPSG_9804_Mercator (variant A)'',
      ''EPSG_9805_Mercator (variant B)'',
      ''EPSG_9806_Cassini-Soldner'',
      ''EPSG_9807_Transverse Mercator'',
      ''EPSG_9808_Transverse Mercator (South Orientated)'',
      ''EPSG_9809_Oblique Stereographic'',
      ''EPSG_9810_Polar Stereographic (variant A)'',
      ''EPSG_9811_New Zealand Map Grid'',
      ''EPSG_9812_Hotine Oblique Mercator (variant A)'',
      ''EPSG_9813_Laborde Oblique Mercator'',
      ''EPSG_9815_Hotine Oblique Mercator (variant B)'',
      ''EPSG_9816_Tunisia Mining Grid'',
      ''EPSG_9817_Lambert Conic Near-Conformal'',
      ''EPSG_9818_American Polyconic'',
      ''EPSG_9819_Krovak'',
      ''EPSG_9820_Lambert Azimuthal Equal Area'',
      ''EPSG_9821_Lambert Azimuthal Equal Area (Spherical)'',
      ''EPSG_9822_Albers Equal Area'',
      ''EPSG_9823_Equidistant Cylindrical (Spherical)'',
      ''EPSG_9824_Transverse Mercator Zoned Grid System'',
      ''EPSG_9826_Lambert Conic Conformal (West Orientated)'',
      ''EPSG_9828_Bonne (South Orientated)'',
      ''EPSG_9829_Polar Stereographic (variant B)'',
      ''EPSG_9830_Polar Stereographic (variant C)'',
      ''EPSG_9831_Guam Projection'',
      ''EPSG_9832_Modified Azimuthal Equidistant'',
      ''EPSG_9833_Hyperbolic Cassini-Soldner'',
      ''EPSG_9834_Lambert Cylindrical Equal Area (Spherical)'',
      ''EPSG_9835_Lambert Cylindrical Equal Area'',
      ''EPSG_9836_Geocentric/topocentric conversions'',
      ''EPSG_9837_Geographic/topocentric conversions'',
      ''EPSG_9838_Vertical Perspective'',
      ''EPSG_9841_Mercator (1SP) (Spherical)'',
      ''EPSG_9842_Equidistant Cylindrical'',
      ''EPSG_9843_Axis Order Reversal (2D)'',
      ''EPSG_9844_Axis Order Reversal (Geographic3D horizontal)'',
      ''EPSG_9827_Bonne'',
      ''PROJ_gstm_Gauss Schreiber Transverse Mercator'',
      ''PROJ_mill_PROJ mill'']"

definition conversion_method_insert_trigger :: "db \<Rightarrow> conversion_method \<Rightarrow> error option" where
  "conversion_method_insert_trigger s NEW = run_rules
     [(auth_name NEW @ ''_'' @ code NEW @ ''_'' @ conversion_method.name NEW
         \<notin> set known_conversion_methods,
       Abort ''insert on conversion violates constraint: method should be known'')]"

definition conversion_method_constraints :: "db \<Rightarrow> conversion_method \<Rightarrow> error option" where
  "conversion_method_constraints s NEW = run_rules
     [(\<not> 1 \<le> text_length (auth_name NEW), Check_failed ''conversion_method.auth_name''),
      (\<not> 1 \<le> text_length (code NEW), Check_failed ''conversion_method.code''),
      (\<not> 2 \<le> text_length (conversion_method.name NEW), Check_failed ''conversion_method.name''),
      (has_key (conversion_method s) (auth_name NEW) (code NEW),
         Unique_failed ''pk_conversion_method'')]"

definition insert_conversion_method :: "db \<Rightarrow> conversion_method \<Rightarrow> error + db" where
  "insert_conversion_method s NEW =
     insert_row (conversion_method_insert_trigger s NEW) (conversion_method_constraints s NEW)
       (s\<lparr>conversion_method := conversion_method s @ [NEW]\<rparr>)"

definition conversion_param_constraints :: "db \<Rightarrow> conversion_param \<Rightarrow> error option" where
  "conversion_param_constraints s NEW = run_rules
     [(\<not> 1 \<le> text_length (auth_name NEW), Check_failed ''conversion_param.auth_name''),
      (\<not> 1 \<le> text_length (code NEW), Check_failed ''conversion_param.code''),
      (\<not> 2 \<le> text_length (conversion_param.name NEW), Check_failed ''conversion_param.name''),
      (has_key (conversion_param s) (auth_name NEW) (code NEW),
         Unique_failed ''pk_conversion_param'')]"

definition insert_conversion_param :: "db \<Rightarrow> conversion_param \<Rightarrow> error + db" where
  "insert_conversion_param s NEW =
     insert_row None (conversion_param_constraints s NEW)
       (s\<lparr>conversion_param := conversion_param s @ [NEW]\<rparr>)"

definition conversion_table_insert_trigger :: "db \<Rightarrow> conversion_table \<Rightarrow> error option" where
  "conversion_table_insert_trigger s NEW = run_rules
     [(is_true (sql_exists (coordinate_operation_with_conversion_view s)
          (key_is (Some (auth_name NEW)) (Some (code NEW)))),
       Abort ''insert on conversion_table violates constraint: (auth_name, code) must not already exist in coordinate_operation_with_conversion_view'')]"

text \<open>
  The constraints of \<^verbatim>\<open>conversion_table\<close> in two parts, the \<^verbatim>\<open>CHECK\<close>s with the primary
  key and the foreign keys: an insert through the view \<^verbatim>\<open>conversion\<close> checks the
  second part later than the first.
\<close>

definition conversion_table_checks :: "db \<Rightarrow> conversion_table \<Rightarrow> (bool \<times> error) list" where
  "conversion_table_checks s NEW =
     [(\<not> 1 \<le> text_length (auth_name NEW), Check_failed ''conversion_table.auth_name''),
      (\<not> 1 \<le> text_length (code NEW), Check_failed ''conversion_table.code''),
      (\<not> 2 \<le> text_length (conversion_table.name NEW), Check_failed ''conversion_table.name''),
      (\<not> check_holds (sql_or (is_null (conversion_table.method_auth_name NEW))
            (sql_ge (sql_length (conversion_table.method_auth_name NEW)) (Some 1))),
         Check_failed ''conversion_table.method_auth_name''),
      (\<not> check_holds (sql_or (is_null (conversion_table.method_code NEW))
            (sql_ge (sql_length (conversion_table.method_code NEW)) (Some 1))),
         Check_failed ''conversion_table.method_code''),
      (has_key (conversion_table s) (auth_name NEW) (code NEW), Unique_failed ''pk_conversion'')]"

definition conversion_table_foreign_keys ::
    "db \<Rightarrow> conversion_table \<Rightarrow> (bool \<times> error) list" where
  "conversion_table_foreign_keys s NEW =
     [(fk_violated (Some (conversion_table.area_of_use_auth_name NEW))
         (Some (conversion_table.area_of_use_code NEW))
         (area s), Foreign_key_failed ''fk_conversion_area''),
      (fk_violated (conversion_table.method_auth_name NEW) (conversion_table.method_code NEW)
         (conversion_method s), Foreign_key_failed ''fk_conversion_method''),
      (fk_violated (conversion_table.param1_uom_auth_name NEW) (conversion_table.param1_uom_code NEW)
         (unit_of_measure s), Foreign_key_failed ''fk_conversion_param1_uom''),
      (fk_violated (conversion_table.param2_uom_auth_name NEW) (conversion_table.param2_uom_code NEW)
         (unit_of_measure s), Foreign_key_failed ''fk_conversion_param2_uom''),
      (fk_violated (conversion_table.param3_uom_auth_name NEW) (conversion_table.param3_uom_code NEW)
         (unit_of_measure s), Foreign_key_failed ''fk_conversion_param3_uom''),
      (fk_violated (conversion_table.param4_uom_auth_name NEW) (conversion_table.param4_uom_code NEW)
         (unit_of_measure s), Foreign_key_failed ''fk_conversion_param4_uom''),
      (fk_violated (conversion_table.param5_uom_auth_name NEW) (conversion_table.param5_uom_code NEW)
         (unit_of_measure s), Foreign_key_failed ''fk_conversion_param5_uom''),
      (fk_violated (conversion_table.param6_uom_auth_name NEW) (conversion_table.param6_uom_code NEW)
         (unit_of_measure s), Foreign_key_failed ''fk_conversion_param6_uom''),
      (fk_violated (conversion_table.param7_uom_auth_name NEW) (conversion_table.param7_uom_code NEW)
         (unit_of_measure s), Foreign_key_failed ''fk_conversion_param7_uom'')]"

definition conversion_table_constraints :: "db \<Rightarrow> conversion_table \<Rightarrow> error option" where
  "conversion_table_constraints s NEW =
     run_rules (conversion_table_checks s NEW @ conversion_table_foreign_keys s NEW)"

definition insert_conversion_table :: "db \<Rightarrow> conversion_table \<Rightarrow> error + db" where
  "insert_conversion_table s NEW =
     insert_row (conversion_table_insert_trigger s NEW) (conversion_table_constraints s NEW)
       (s\<lparr>conversion_table := conversion_table s @ [NEW]\<rparr>)"

subsection \<open>Inserts into the view conversion\<close>

text \<open>
  The view \<^verbatim>\<open>conversion\<close> has nine \<^verbatim>\<open>INSTEAD OF INSERT\<close> triggers. One inserts the
  method, unless \<^verbatim>\<open>conversion_method\<close> has it under that name; one for each slot inserts
  the parameter, when \<open>paramN_auth_name\<close> is not \<^verbatim>\<open>NULL\<close> and \<^verbatim>\<open>conversion_param\<close> does
  not have it under that name; the last one inserts the row into \<^verbatim>\<open>conversion_table\<close>.
  The \<^verbatim>\<open>NEW\<close> row of the view has the columns of \<^verbatim>\<open>conversion_table\<close> and the eight name
  columns \<open>method_name\<close> and \<open>param1_name\<close> to \<open>param7_name\<close>.
\<close>

record conversion_row = conversion_table +
  method_name :: "string option"
  param1_name :: "string option"
  param2_name :: "string option"
  param3_name :: "string option"
  param4_name :: "string option"
  param5_name :: "string option"
  param6_name :: "string option"
  param7_name :: "string option"

text \<open>
  The triggers insert values that may be \<^verbatim>\<open>NULL\<close> into columns declared \<^verbatim>\<open>NOT NULL\<close>. An
  insert runs the \<^verbatim>\<open>BEFORE INSERT\<close> trigger of the table first, then checks \<^verbatim>\<open>NOT NULL\<close>
  column by column, then the other constraints. The rule of
  \<^verbatim>\<open>conversion_method_insert_trigger\<close> compares the concatenation of the three columns,
  which is \<^verbatim>\<open>NULL\<close> when one of them is, so it does not fire then.
\<close>

fun insert_conversion_method_values ::
    "db \<Rightarrow> string option \<Rightarrow> string option \<Rightarrow> string option \<Rightarrow> error + db" where
  "insert_conversion_method_values s None c n =
     Inl (Not_null_failed ''conversion_method.auth_name'')"
| "insert_conversion_method_values s (Some a) None n =
     Inl (Not_null_failed ''conversion_method.code'')"
| "insert_conversion_method_values s (Some a) (Some c) None =
     Inl (Not_null_failed ''conversion_method.name'')"
| "insert_conversion_method_values s (Some a) (Some c) (Some n) =
     insert_conversion_method s \<lparr>auth_name = a, code = c, conversion_method.name = n\<rparr>"

fun insert_conversion_param_values ::
    "db \<Rightarrow> string option \<Rightarrow> string option \<Rightarrow> string option \<Rightarrow> error + db" where
  "insert_conversion_param_values s None c n =
     Inl (Not_null_failed ''conversion_param.auth_name'')"
| "insert_conversion_param_values s (Some a) None n =
     Inl (Not_null_failed ''conversion_param.code'')"
| "insert_conversion_param_values s (Some a) (Some c) None =
     Inl (Not_null_failed ''conversion_param.name'')"
| "insert_conversion_param_values s (Some a) (Some c) (Some n) =
     insert_conversion_param s \<lparr>auth_name = a, code = c, conversion_param.name = n\<rparr>"

definition conversion_insert_trigger_method :: "conversion_row \<Rightarrow> db \<Rightarrow> error + db" where
  "conversion_insert_trigger_method NEW s =
     (if is_true (sql_not_exists (conversion_method s)
           (\<lambda>m. sql_and
              (sql_and (sql_eq (Some (auth_name m)) (conversion_table.method_auth_name NEW))
                       (sql_eq (Some (code m)) (conversion_table.method_code NEW)))
              (sql_eq (Some (conversion_method.name m)) (conversion_row.method_name NEW))))
      then insert_conversion_method_values s (conversion_table.method_auth_name NEW)
             (conversion_table.method_code NEW) (conversion_row.method_name NEW)
      else Inr s)"

text \<open>
  The seven triggers \<^verbatim>\<open>conversion_insert_trigger_param1\<close> to \<^verbatim>\<open>..._param7\<close> are the same
  up to the slot whose columns they read.
\<close>

definition conversion_insert_trigger_param ::
    "string option \<Rightarrow> string option \<Rightarrow> string option \<Rightarrow> db \<Rightarrow> error + db" where
  "conversion_insert_trigger_param param_auth_name param_code param_name s =
     (if is_true (sql_and (is_not_null param_auth_name)
           (sql_not_exists (conversion_param s)
              (\<lambda>p. sql_and
                 (sql_and (sql_eq (Some (auth_name p)) param_auth_name)
                          (sql_eq (Some (code p)) param_code))
                 (sql_eq (Some (conversion_param.name p)) param_name))))
      then insert_conversion_param_values s param_auth_name param_code param_name
      else Inr s)"

definition conversion_insert_trigger_param1 :: "conversion_row \<Rightarrow> db \<Rightarrow> error + db" where
  "conversion_insert_trigger_param1 NEW =
     conversion_insert_trigger_param (conversion_table.param1_auth_name NEW)
       (conversion_table.param1_code NEW) (conversion_row.param1_name NEW)"

definition conversion_insert_trigger_param2 :: "conversion_row \<Rightarrow> db \<Rightarrow> error + db" where
  "conversion_insert_trigger_param2 NEW =
     conversion_insert_trigger_param (conversion_table.param2_auth_name NEW)
       (conversion_table.param2_code NEW) (conversion_row.param2_name NEW)"

definition conversion_insert_trigger_param3 :: "conversion_row \<Rightarrow> db \<Rightarrow> error + db" where
  "conversion_insert_trigger_param3 NEW =
     conversion_insert_trigger_param (conversion_table.param3_auth_name NEW)
       (conversion_table.param3_code NEW) (conversion_row.param3_name NEW)"

definition conversion_insert_trigger_param4 :: "conversion_row \<Rightarrow> db \<Rightarrow> error + db" where
  "conversion_insert_trigger_param4 NEW =
     conversion_insert_trigger_param (conversion_table.param4_auth_name NEW)
       (conversion_table.param4_code NEW) (conversion_row.param4_name NEW)"

definition conversion_insert_trigger_param5 :: "conversion_row \<Rightarrow> db \<Rightarrow> error + db" where
  "conversion_insert_trigger_param5 NEW =
     conversion_insert_trigger_param (conversion_table.param5_auth_name NEW)
       (conversion_table.param5_code NEW) (conversion_row.param5_name NEW)"

definition conversion_insert_trigger_param6 :: "conversion_row \<Rightarrow> db \<Rightarrow> error + db" where
  "conversion_insert_trigger_param6 NEW =
     conversion_insert_trigger_param (conversion_table.param6_auth_name NEW)
       (conversion_table.param6_code NEW) (conversion_row.param6_name NEW)"

definition conversion_insert_trigger_param7 :: "conversion_row \<Rightarrow> db \<Rightarrow> error + db" where
  "conversion_insert_trigger_param7 NEW =
     conversion_insert_trigger_param (conversion_table.param7_auth_name NEW)
       (conversion_table.param7_code NEW) (conversion_row.param7_name NEW)"

text \<open>
  The last trigger inserts the columns of \<^verbatim>\<open>NEW\<close> without the eight names, which is
  \<open>conversion_table.truncate NEW\<close>. The insert is a statement of a trigger: the foreign
  keys of the row it writes are checked when the statement on the view ends.
\<close>

definition conversion_insert_trigger_insert_into_conversion_table ::
    "conversion_row \<Rightarrow> db \<Rightarrow> error + db" where
  "conversion_insert_trigger_insert_into_conversion_table NEW s =
     insert_row (conversion_table_insert_trigger s (conversion_table.truncate NEW))
       (run_rules (conversion_table_checks s (conversion_table.truncate NEW)))
       (s\<lparr>conversion_table := conversion_table s @ [conversion_table.truncate NEW]\<rparr>)"

text \<open>
  SQLite runs the triggers of one event one after the other, each on the state the
  previous one left, and starts with the one created last: the row goes into
  \<^verbatim>\<open>conversion_table\<close> first, then the parameters of slot 7 down to slot 1, then the
  method. The first failure ends the statement and leaves the database as it was. When
  all triggers have run, the foreign keys of the new row of \<^verbatim>\<open>conversion_table\<close> are
  checked against the tables as they are then (the other two tables have none).
\<close>

fun run_triggers :: "(db \<Rightarrow> error + db) list \<Rightarrow> db \<Rightarrow> error + db" where
  "run_triggers [] s = Inr s"
| "run_triggers (t # ts) s = (case t s of Inl e \<Rightarrow> Inl e | Inr s' \<Rightarrow> run_triggers ts s')"

definition insert_conversion :: "db \<Rightarrow> conversion_row \<Rightarrow> error + db" where
  "insert_conversion s NEW =
     (case run_triggers
             [conversion_insert_trigger_insert_into_conversion_table NEW,
              conversion_insert_trigger_param7 NEW,
              conversion_insert_trigger_param6 NEW,
              conversion_insert_trigger_param5 NEW,
              conversion_insert_trigger_param4 NEW,
              conversion_insert_trigger_param3 NEW,
              conversion_insert_trigger_param2 NEW,
              conversion_insert_trigger_param1 NEW,
              conversion_insert_trigger_method NEW] s of
        Inl e \<Rightarrow> Inl e
      | Inr s' \<Rightarrow>
          (case run_rules (conversion_table_foreign_keys s' (conversion_table.truncate NEW)) of
             Some e \<Rightarrow> Inl e
           | None \<Rightarrow> Inr s'))"


subsection \<open>projected_crs\<close>

text \<open>
  The rule that the geodetic CRS must not be defined together with a text definition is
  commented out in the source and is not part of the trigger.
\<close>

definition projected_crs_insert_trigger :: "db \<Rightarrow> projected_crs \<Rightarrow> error option" where
  "projected_crs_insert_trigger s NEW = run_rules
     [(is_true (sql_exists (crs_view s) (key_is (Some (auth_name NEW)) (Some (code NEW)))),
       Abort ''insert on projected_crs violates constraint: (auth_name, code) must not already exist in crs_view''),
      (is_true (sql_and
          (sql_or (is_null (projected_crs.coordinate_system_auth_name NEW))
                  (is_null (projected_crs.coordinate_system_code NEW)))
          (is_null (projected_crs.text_definition NEW))),
       Abort ''insert on projected_crs violates constraint: coordinate_system must be defined when text_definition is NULL''),
      (is_true (sql_and
          (sql_or (is_null (geodetic_crs_auth_name NEW)) (is_null (geodetic_crs_code NEW)))
          (is_null (projected_crs.text_definition NEW))),
       Abort ''insert on projected_crs violates constraint: geodetic_crs must be defined when text_definition is NULL''),
      (is_true (sql_and (sql_and
          (sql_exists (geodetic_crs s)
             (\<lambda>g. sql_and (key_is (geodetic_crs_auth_name NEW) (geodetic_crs_code NEW) g)
                           (Some (geodetic_crs.deprecated g))))
          (Some (\<not> projected_crs.deprecated NEW)))
          (sql_not (sql_and (Some (auth_name NEW = ''ESRI''))
                            (sql_ne (geodetic_crs_auth_name NEW) (Some ''ESRI''))))),
       Abort ''insert on projected_crs violates constraint: geodetic_crs must not be deprecated when projected_crs is not deprecated''),
      (is_true (sql_and
          (sql_not_exists (conversion s)
             (\<lambda>v. key_is (conversion_auth_name NEW) (conversion_code NEW) (fst v)))
          (is_null (projected_crs.text_definition NEW))),
       Abort ''insert on projected_crs violates constraint: conversion must exist when text_definition is NULL''),
      (is_true (sql_and
          (sql_exists (conversion s)
             (\<lambda>v. sql_and (key_is (conversion_auth_name NEW) (conversion_code NEW) (fst v))
                           (Some (conversion_table.deprecated (fst v)))))
          (Some (\<not> projected_crs.deprecated NEW))),
       Abort ''insert on projected_crs violates constraint: conversion must not be deprecated when projected_crs is not deprecated''),
      (is_true (sql_and
          (sql_not (sql_or (is_null (projected_crs.coordinate_system_auth_name NEW))
                           (is_null (projected_crs.coordinate_system_code NEW))))
          (is_not_null (projected_crs.text_definition NEW))),
       Abort ''insert on projected_crs violates constraint: coordinate_system must NOT be defined when text_definition is NOT NULL''),
      (is_true (sql_and
          (sql_not (sql_or (is_null (conversion_auth_name NEW)) (is_null (conversion_code NEW))))
          (is_not_null (projected_crs.text_definition NEW))),
       Abort ''insert on projected_crs violates constraint: conversion must NOT be defined when text_definition is NULL''),
      (is_true (sql_and
          (sql_or (is_null (projected_crs.area_of_use_auth_name NEW))
                  (is_null (projected_crs.area_of_use_code NEW)))
          (is_null (projected_crs.text_definition NEW))),
       Abort ''insert on projected_crs violates constraint: area_of_use must be defined when text_definition is NULL''),
      (is_true (sql_and (sql_and
          (sql_exists (area s)
             (\<lambda>a. sql_and (key_is (projected_crs.area_of_use_auth_name NEW)
                                   (projected_crs.area_of_use_code NEW) a)
                           (Some (area.deprecated a))))
          (Some (\<not> projected_crs.deprecated NEW)))
          (is_not_null (projected_crs.text_definition NEW))),
       Abort ''insert on projected_crs violates constraint: area_of_use must not be deprecated when projected_crs is not deprecated''),
      (is_true (sql_ne
          (coordinate_system_type s (projected_crs.coordinate_system_auth_name NEW)
             (projected_crs.coordinate_system_code NEW))
          (Some ''Cartesian'')),
       Abort (''insert on projected_crs violates constraint: coordinate_system.type must be ''
              @ quote ''cartesian'')),
      (is_true (sql_and
          (sql_not (sql_and
             (sql_eq (projected_crs.coordinate_system_auth_name NEW) (Some ''EPSG''))
             (sql_eq (projected_crs.coordinate_system_code NEW) (Some ''4461''))))
          (sql_ne (coordinate_system_dimension s (projected_crs.coordinate_system_auth_name NEW)
                     (projected_crs.coordinate_system_code NEW)) (Some 2))),
       Abort ''insert on projected_crs violates constraint: coordinate_system.dimension must be 2'')]"

definition projected_crs_constraints :: "db \<Rightarrow> projected_crs \<Rightarrow> error option" where
  "projected_crs_constraints s NEW = run_rules
     [(\<not> 1 \<le> text_length (auth_name NEW), Check_failed ''projected_crs.auth_name''),
      (\<not> 1 \<le> text_length (code NEW), Check_failed ''projected_crs.code''),
      (\<not> 2 \<le> text_length (projected_crs.name NEW), Check_failed ''projected_crs.name''),
      (has_key (projected_crs s) (auth_name NEW) (code NEW), Unique_failed ''pk_projected_crs''),
      (fk_violated (projected_crs.coordinate_system_auth_name NEW)
         (projected_crs.coordinate_system_code NEW)
         (coordinate_system s), Foreign_key_failed ''fk_projected_crs_coordinate_system''),
      (fk_violated (geodetic_crs_auth_name NEW) (geodetic_crs_code NEW)
         (geodetic_crs s), Foreign_key_failed ''fk_projected_crs_geodetic_crs''),
      (fk_violated (conversion_auth_name NEW) (conversion_code NEW)
         (conversion_table s), Foreign_key_failed ''fk_projected_crs_conversion''),
      (fk_violated (projected_crs.area_of_use_auth_name NEW) (projected_crs.area_of_use_code NEW)
         (area s), Foreign_key_failed ''fk_projected_crs_area'')]"

definition insert_projected_crs :: "db \<Rightarrow> projected_crs \<Rightarrow> error + db" where
  "insert_projected_crs s NEW =
     insert_row (projected_crs_insert_trigger s NEW) (projected_crs_constraints s NEW)
       (s\<lparr>projected_crs := projected_crs s @ [NEW]\<rparr>)"

subsection \<open>compound_crs\<close>

text \<open>The scalar subquery \<^verbatim>\<open>(SELECT type FROM crs_view WHERE ...)\<close>.\<close>

definition crs_view_type :: "db \<Rightarrow> string option \<Rightarrow> string option \<Rightarrow> string option" where
  "crs_view_type s a c =
     select_scalar (crs_view s) (key_is a c) (\<lambda>v. Some (crs_view_row.type v))"

definition compound_crs_insert_trigger :: "db \<Rightarrow> compound_crs \<Rightarrow> error option" where
  "compound_crs_insert_trigger s NEW = run_rules
     [(is_true (sql_exists (crs_view s) (key_is (Some (auth_name NEW)) (Some (code NEW)))),
       Abort ''insert on compound_crs violates constraint: (auth_name, code) must not already exist in crs_view''),
      (is_true (sql_not_exists (crs_view s)
          (key_is (Some (horiz_crs_auth_name NEW)) (Some (horiz_crs_code NEW)))),
       Abort ''insert on compound_crs violates constraint: horiz_crs(auth_name, code) not found''),
      (is_true (sql_not_in
          (crs_view_type s (Some (horiz_crs_auth_name NEW)) (Some (horiz_crs_code NEW)))
          [Some ''geographic 2D'', Some ''projected'']),
       Abort (''insert on compound_crs violates constraint: horiz_crs must be equal to ''
              @ quote ''geographic 2D'' @ '' or '' @ quote ''projected'')),
      (is_true (sql_not_in
          (crs_view_type s (Some (vertical_crs_auth_name NEW)) (Some (vertical_crs_code NEW)))
          [Some ''vertical'']),
       Abort (''insert on compound_crs violates constraint: vertical_crs must be equal to ''
              @ quote ''vertical'')),
      (is_true (sql_and
          (sql_exists (crs_view s)
             (\<lambda>v. sql_and (key_is (Some (horiz_crs_auth_name NEW)) (Some (horiz_crs_code NEW)) v)
                           (Some (crs_view_row.deprecated v))))
          (Some (\<not> compound_crs.deprecated NEW))),
       Abort ''insert on compound_crs violates constraint: horiz_crs must not be deprecated when compound_crs is not deprecated''),
      (is_true (sql_and
          (sql_exists (vertical_crs s)
             (\<lambda>v. sql_and (key_is (Some (vertical_crs_auth_name NEW)) (Some (vertical_crs_code NEW)) v)
                           (Some (vertical_crs.deprecated v))))
          (Some (\<not> compound_crs.deprecated NEW))),
       Abort ''insert on compound_crs violates constraint: vertical_crs must not be deprecated when compound_crs is not deprecated''),
      (is_true (sql_and
          (sql_exists (area s)
             (\<lambda>a. sql_and (key_is (Some (compound_crs.area_of_use_auth_name NEW))
                                   (Some (compound_crs.area_of_use_code NEW)) a)
                           (Some (area.deprecated a))))
          (Some (\<not> compound_crs.deprecated NEW))),
       Abort ''insert on compound_crs violates constraint: area_of_use must not be deprecated when compound_crs is not deprecated'')]"

definition compound_crs_constraints :: "db \<Rightarrow> compound_crs \<Rightarrow> error option" where
  "compound_crs_constraints s NEW = run_rules
     [(\<not> 1 \<le> text_length (auth_name NEW), Check_failed ''compound_crs.auth_name''),
      (\<not> 1 \<le> text_length (code NEW), Check_failed ''compound_crs.code''),
      (\<not> 2 \<le> text_length (compound_crs.name NEW), Check_failed ''compound_crs.name''),
      (has_key (compound_crs s) (auth_name NEW) (code NEW), Unique_failed ''pk_compound_crs''),
      (fk_violated (Some (vertical_crs_auth_name NEW)) (Some (vertical_crs_code NEW))
         (vertical_crs s), Foreign_key_failed ''fk_compound_crs_vertical_crs''),
      (fk_violated (Some (compound_crs.area_of_use_auth_name NEW))
         (Some (compound_crs.area_of_use_code NEW))
         (area s), Foreign_key_failed ''fk_compoundcrs_area'')]"

definition insert_compound_crs :: "db \<Rightarrow> compound_crs \<Rightarrow> error + db" where
  "insert_compound_crs s NEW =
     insert_row (compound_crs_insert_trigger s NEW) (compound_crs_constraints s NEW)
       (s\<lparr>compound_crs := compound_crs s @ [NEW]\<rparr>)"

subsection \<open>coordinate_operation_method, helmert_transformation_table\<close>

definition coordinate_operation_method_constraints ::
    "db \<Rightarrow> coordinate_operation_method \<Rightarrow> error option" where
  "coordinate_operation_method_constraints s NEW = run_rules
     [(\<not> 1 \<le> text_length (auth_name NEW), Check_failed ''coordinate_operation_method.auth_name''),
      (\<not> 1 \<le> text_length (code NEW), Check_failed ''coordinate_operation_method.code''),
      (\<not> 2 \<le> text_length (coordinate_operation_method.name NEW),
         Check_failed ''coordinate_operation_method.name''),
      (has_key (coordinate_operation_method s) (auth_name NEW) (code NEW),
         Unique_failed ''pk_coordinate_operation_method'')]"

definition insert_coordinate_operation_method ::
    "db \<Rightarrow> coordinate_operation_method \<Rightarrow> error + db" where
  "insert_coordinate_operation_method s NEW =
     insert_row None (coordinate_operation_method_constraints s NEW)
       (s\<lparr>coordinate_operation_method := coordinate_operation_method s @ [NEW]\<rparr>)"

definition helmert_transformation_insert_trigger ::
    "db \<Rightarrow> helmert_transformation_table \<Rightarrow> error option" where
  "helmert_transformation_insert_trigger s NEW = run_rules
     [(is_true (sql_exists (coordinate_operation_with_conversion_view s)
          (key_is (Some (auth_name NEW)) (Some (code NEW)))),
       Abort ''insert on helmert_transformation violates constraint: (auth_name, code) must not already exist in coordinate_operation_with_conversion_view''),
      (is_true (sql_ne
          (unit_of_measure_type s (Some (helmert_transformation_table.translation_uom_auth_name NEW))
             (Some (helmert_transformation_table.translation_uom_code NEW)))
          (Some ''length'')),
       Abort (''insert on helmert_transformation violates constraint: translation_uom.type must be ''
              @ quote ''length'')),
      (is_true (sql_ne
          (unit_of_measure_type s (helmert_transformation_table.rotation_uom_auth_name NEW) (helmert_transformation_table.rotation_uom_code NEW))
          (Some ''angle'')),
       Abort (''insert on helmert_transformation violates constraint: rotation_uom.type must be ''
              @ quote ''angle'')),
      (is_true (sql_ne
          (unit_of_measure_type s (helmert_transformation_table.scale_difference_uom_auth_name NEW) (helmert_transformation_table.scale_difference_uom_code NEW))
          (Some ''scale'')),
       Abort (''insert on helmert_transformation violates constraint: scale_difference_uom.type must be ''
              @ quote ''scale'')),
      (is_true (sql_ne
          (unit_of_measure_type s (helmert_transformation_table.rate_translation_uom_auth_name NEW) (helmert_transformation_table.rate_translation_uom_code NEW))
          (Some ''length'')),
       Abort (''insert on helmert_transformation violates constraint: rate_translation_uom.type must be ''
              @ quote ''length'')),
      (is_true (sql_ne
          (unit_of_measure_type s (helmert_transformation_table.rate_rotation_uom_auth_name NEW) (helmert_transformation_table.rate_rotation_uom_code NEW))
          (Some ''angle'')),
       Abort (''insert on helmert_transformation violates constraint: rate_rotation_uom.type must be ''
              @ quote ''angle'')),
      (is_true (sql_ne
          (unit_of_measure_type s (helmert_transformation_table.rate_scale_difference_uom_auth_name NEW) (helmert_transformation_table.rate_scale_difference_uom_code NEW))
          (Some ''scale'')),
       Abort (''insert on helmert_transformation violates constraint: rate_scale_difference_uom.type must be ''
              @ quote ''scale'')),
      (is_true (sql_ne
          (unit_of_measure_type s (helmert_transformation_table.epoch_uom_auth_name NEW) (helmert_transformation_table.epoch_uom_code NEW))
          (Some ''time'')),
       Abort (''insert on helmert_transformation violates constraint: epoch_uom.type must be ''
              @ quote ''time'')),
      (is_true (sql_ne
          (unit_of_measure_type s (helmert_transformation_table.pivot_uom_auth_name NEW) (helmert_transformation_table.pivot_uom_code NEW))
          (Some ''length'')),
       Abort (''insert on helmert_transformation violates constraint: pivot_uom.type must be ''
              @ quote ''length'')),
      (is_true (sql_and (sql_and
          (sql_exists (geodetic_crs s)
             (\<lambda>crs. sql_and (key_is (Some (helmert_transformation_table.source_crs_auth_name NEW))
                                     (Some (helmert_transformation_table.source_crs_code NEW)) crs)
                             (Some (geodetic_crs.deprecated crs))))
          (Some (\<not> helmert_transformation_table.deprecated NEW)))
          (sql_not (Some (auth_name NEW = ''ESRI'')))),
       Abort ''insert on helmert_transformation violates constraint: source_crs must not be deprecated when helmert_transformation is not deprecated''),
      (is_true (sql_and (sql_and
          (sql_exists (geodetic_crs s)
             (\<lambda>crs. sql_and (key_is (Some (helmert_transformation_table.target_crs_auth_name NEW))
                                     (Some (helmert_transformation_table.target_crs_code NEW)) crs)
                             (Some (geodetic_crs.deprecated crs))))
          (Some (\<not> helmert_transformation_table.deprecated NEW)))
          (sql_not (Some (auth_name NEW = ''ESRI'')))),
       Abort ''insert on helmert_transformation violates constraint: target_crs must not be deprecated when helmert_transformation is not deprecated''),
      (is_true (sql_and
          (sql_exists (area s)
             (\<lambda>a. sql_and (key_is (Some (helmert_transformation_table.area_of_use_auth_name NEW))
                                   (Some (helmert_transformation_table.area_of_use_code NEW)) a)
                           (Some (area.deprecated a))))
          (Some (\<not> helmert_transformation_table.deprecated NEW))),
       Abort ''insert on helmert_transformation violates constraint: area_of_use must not be deprecated when helmert_transformation is not deprecated'')]"

definition helmert_transformation_table_constraints ::
    "db \<Rightarrow> helmert_transformation_table \<Rightarrow> error option" where
  "helmert_transformation_table_constraints s NEW = run_rules
     [(\<not> 1 \<le> text_length (auth_name NEW), Check_failed ''helmert_transformation_table.auth_name''),
      (\<not> 1 \<le> text_length (code NEW), Check_failed ''helmert_transformation_table.code''),
      (\<not> 2 \<le> text_length (helmert_transformation_table.name NEW), Check_failed ''helmert_transformation_table.name''),
      (\<not> 1 \<le> text_length (helmert_transformation_table.method_auth_name NEW), Check_failed ''helmert_transformation_table.method_auth_name''),
      (\<not> 1 \<le> text_length (helmert_transformation_table.method_code NEW), Check_failed ''helmert_transformation_table.method_code''),
      (\<not> check_holds (sql_ge (helmert_transformation_table.accuracy NEW) (Some 0)), Check_failed ''helmert_transformation_table.accuracy''),
      (has_key (helmert_transformation_table s) (auth_name NEW) (code NEW),
         Unique_failed ''pk_helmert_transformation''),
      (fk_violated (Some (helmert_transformation_table.source_crs_auth_name NEW))
         (Some (helmert_transformation_table.source_crs_code NEW))
         (geodetic_crs s), Foreign_key_failed ''fk_helmert_transformation_source_crs''),
      (fk_violated (Some (helmert_transformation_table.target_crs_auth_name NEW))
         (Some (helmert_transformation_table.target_crs_code NEW))
         (geodetic_crs s), Foreign_key_failed ''fk_helmert_transformation_target_crs''),
      (fk_violated (Some (helmert_transformation_table.area_of_use_auth_name NEW)) (Some (helmert_transformation_table.area_of_use_code NEW))
         (area s), Foreign_key_failed ''fk_helmert_transformation_area''),
      (fk_violated (Some (helmert_transformation_table.method_auth_name NEW))
         (Some (helmert_transformation_table.method_code NEW))
         (coordinate_operation_method s), Foreign_key_failed ''fk_helmert_transformation_method''),
      (fk_violated (Some (helmert_transformation_table.translation_uom_auth_name NEW))
         (Some (helmert_transformation_table.translation_uom_code NEW))
         (unit_of_measure s), Foreign_key_failed ''fk_helmert_translation_uom''),
      (fk_violated (helmert_transformation_table.rotation_uom_auth_name NEW) (helmert_transformation_table.rotation_uom_code NEW)
         (unit_of_measure s), Foreign_key_failed ''fk_helmert_rotation_uom''),
      (fk_violated (helmert_transformation_table.scale_difference_uom_auth_name NEW) (helmert_transformation_table.scale_difference_uom_code NEW)
         (unit_of_measure s), Foreign_key_failed ''fk_helmert_scale_difference_uom''),
      (fk_violated (helmert_transformation_table.rate_translation_uom_auth_name NEW) (helmert_transformation_table.rate_translation_uom_code NEW)
         (unit_of_measure s), Foreign_key_failed ''fk_helmert_rate_translation_uom''),
      (fk_violated (helmert_transformation_table.rate_rotation_uom_auth_name NEW) (helmert_transformation_table.rate_rotation_uom_code NEW)
         (unit_of_measure s), Foreign_key_failed ''fk_helmert_rate_rotation_uom''),
      (fk_violated (helmert_transformation_table.rate_scale_difference_uom_auth_name NEW) (helmert_transformation_table.rate_scale_difference_uom_code NEW)
         (unit_of_measure s), Foreign_key_failed ''fk_helmert_rate_scale_difference_uom''),
      (fk_violated (helmert_transformation_table.epoch_uom_auth_name NEW) (helmert_transformation_table.epoch_uom_code NEW)
         (unit_of_measure s), Foreign_key_failed ''fk_helmert_epoch_uom''),
      (fk_violated (helmert_transformation_table.pivot_uom_auth_name NEW) (helmert_transformation_table.pivot_uom_code NEW)
         (unit_of_measure s), Foreign_key_failed ''fk_helmert_pivot_uom'')]"

definition insert_helmert_transformation_table ::
    "db \<Rightarrow> helmert_transformation_table \<Rightarrow> error + db" where
  "insert_helmert_transformation_table s NEW =
     insert_row (helmert_transformation_insert_trigger s NEW)
       (helmert_transformation_table_constraints s NEW)
       (s\<lparr>helmert_transformation_table := helmert_transformation_table s @ [NEW]\<rparr>)"

subsection \<open>grid_transformation\<close>

definition grid_transformation_insert_trigger :: "db \<Rightarrow> grid_transformation \<Rightarrow> error option" where
  "grid_transformation_insert_trigger s NEW = run_rules
     [(is_true (sql_exists (coordinate_operation_with_conversion_view s)
          (key_is (Some (auth_name NEW)) (Some (code NEW)))),
       Abort ''insert on grid_transformation violates constraint: (auth_name, code) must not already exist in coordinate_operation_with_conversion_view''),
      (is_true (sql_not_exists (crs_view s)
          (key_is (Some (grid_transformation.source_crs_auth_name NEW)) (Some (grid_transformation.source_crs_code NEW)))),
       Abort ''insert on grid_transformation violates constraint: source_crs(auth_name, code) not found''),
      (is_true (sql_not_exists (crs_view s)
          (key_is (Some (grid_transformation.target_crs_auth_name NEW)) (Some (grid_transformation.target_crs_code NEW)))),
       Abort ''insert on grid_transformation violates constraint: target_crs(auth_name, code) not found''),
      (is_true (sql_and (sql_and
          (sql_exists (crs_view s)
             (\<lambda>crs. sql_and (key_is (Some (grid_transformation.source_crs_auth_name NEW))
                                     (Some (grid_transformation.source_crs_code NEW)) crs)
                             (Some (crs_view_row.deprecated crs))))
          (Some (\<not> grid_transformation.deprecated NEW)))
          (sql_not (Some (auth_name NEW = ''ESRI'')))),
       Abort ''insert on grid_transformation violates constraint: source_crs must not be deprecated when grid_transformation is not deprecated''),
      (is_true (sql_and (sql_and
          (sql_exists (crs_view s)
             (\<lambda>crs. sql_and (key_is (Some (grid_transformation.target_crs_auth_name NEW))
                                     (Some (grid_transformation.target_crs_code NEW)) crs)
                             (Some (crs_view_row.deprecated crs))))
          (Some (\<not> grid_transformation.deprecated NEW)))
          (sql_not (Some (auth_name NEW = ''ESRI'')))),
       Abort ''insert on grid_transformation violates constraint: target_crs must not be deprecated when grid_transformation is not deprecated''),
      (is_true (sql_and
          (sql_exists (area s)
             (\<lambda>a. sql_and (key_is (Some (grid_transformation.area_of_use_auth_name NEW))
                                   (Some (grid_transformation.area_of_use_code NEW)) a)
                           (Some (area.deprecated a))))
          (Some (\<not> grid_transformation.deprecated NEW))),
       Abort ''insert on grid_transformation violates constraint: area_of_use must not be deprecated when grid_transformation is not deprecated'')]"

definition grid_transformation_constraints :: "db \<Rightarrow> grid_transformation \<Rightarrow> error option" where
  "grid_transformation_constraints s NEW = run_rules
     [(\<not> 1 \<le> text_length (auth_name NEW), Check_failed ''grid_transformation.auth_name''),
      (\<not> 1 \<le> text_length (code NEW), Check_failed ''grid_transformation.code''),
      (\<not> 2 \<le> text_length (grid_transformation.name NEW), Check_failed ''grid_transformation.name''),
      (\<not> 1 \<le> text_length (grid_transformation.method_auth_name NEW), Check_failed ''grid_transformation.method_auth_name''),
      (\<not> 1 \<le> text_length (grid_transformation.method_code NEW), Check_failed ''grid_transformation.method_code''),
      (\<not> 2 \<le> text_length (grid_transformation.method_name NEW), Check_failed ''grid_transformation.method_name''),
      (\<not> check_holds (sql_ge (grid_transformation.accuracy NEW) (Some 0)), Check_failed ''grid_transformation.accuracy''),
      (has_key (grid_transformation s) (auth_name NEW) (code NEW),
         Unique_failed ''pk_grid_transformation''),
      (fk_violated (interpolation_crs_auth_name NEW) (interpolation_crs_code NEW)
         (geodetic_crs s), Foreign_key_failed ''fk_grid_transformation_interpolation_crs''),
      (fk_violated (Some (grid_transformation.area_of_use_auth_name NEW)) (Some (grid_transformation.area_of_use_code NEW))
         (area s), Foreign_key_failed ''fk_grid_transformation_transformation_area'')]"

definition insert_grid_transformation :: "db \<Rightarrow> grid_transformation \<Rightarrow> error + db" where
  "insert_grid_transformation s NEW =
     insert_row (grid_transformation_insert_trigger s NEW) (grid_transformation_constraints s NEW)
       (s\<lparr>grid_transformation := grid_transformation s @ [NEW]\<rparr>)"

subsection \<open>grid_packages, grid_alternatives\<close>

definition grid_packages_insert_trigger :: "db \<Rightarrow> grid_packages \<Rightarrow> error option" where
  "grid_packages_insert_trigger s NEW = run_rules
     [(is_true (sql_and (is_null (grid_packages.open_license NEW))
                        (is_not_null (grid_packages.url NEW))),
       Abort ''insert on grid_packages violates constraint: open_license must be set when url is not NULL''),
      (is_true (sql_and (is_null (grid_packages.direct_download NEW))
                        (is_not_null (grid_packages.url NEW))),
       Abort ''insert on grid_packages violates constraint: direct_download must be set when url is not NULL'')]"

definition grid_packages_constraints :: "db \<Rightarrow> grid_packages \<Rightarrow> error option" where
  "grid_packages_constraints s NEW = run_rules
     [(list_ex (\<lambda>p. grid_packages.package_name p = grid_packages.package_name NEW)
         (grid_packages s), Unique_failed ''grid_packages.package_name'')]"

definition insert_grid_packages :: "db \<Rightarrow> grid_packages \<Rightarrow> error + db" where
  "insert_grid_packages s NEW =
     insert_row (grid_packages_insert_trigger s NEW) (grid_packages_constraints s NEW)
       (s\<lparr>grid_packages := grid_packages s @ [NEW]\<rparr>)"

definition grid_alternatives_insert_trigger :: "db \<Rightarrow> grid_alternatives \<Rightarrow> error option" where
  "grid_alternatives_insert_trigger s NEW = run_rules
     [(is_true (sql_not_in (Some (proj_grid_format NEW))
          [Some ''CTable2'', Some ''NTv1'', Some ''NTv2'', Some ''GTX'']),
       Abort (''insert on grid_alternatives violates constraint: proj_grid_format must be one of ''
              @ quote ''CTable2'' @ '', '' @ quote ''NTv1'' @ '', '' @ quote ''NTv2''
              @ '', '' @ quote ''GTX'')),
      (is_true (sql_not_in (Some (proj_method NEW)) [Some ''hgridshift'', Some ''vgridshift'']),
       Abort (''insert on grid_alternatives violates constraint: proj_method must be one of ''
              @ quote ''hgridshift'' @ '', '' @ quote ''vgridshift'')),
      (is_true (sql_and
          (sql_ne (Some (proj_method NEW)) (Some ''hgridshift''))
          (sql_in (Some (proj_grid_format NEW)) [Some ''CTable2'', Some ''NTv1'', Some ''NTv2''])),
       Abort (''insert on grid_alternatives violates constraint: proj_method must be ''
              @ quote ''hgridshift'' @ '' when proj_grid_format is '' @ quote ''CTable2''
              @ '', '' @ quote ''NTv1'' @ '', '' @ quote ''NTv2'')),
      (is_true (sql_and
          (sql_ne (Some (proj_method NEW)) (Some ''vgridshift''))
          (sql_in (Some (proj_grid_format NEW)) [Some ''GTX''])),
       Abort (''insert on grid_alternatives violates constraint: proj_method must be ''
              @ quote ''vridshift'' @ '' when proj_grid_format is '' @ quote ''GTX'')),
      (is_true (sql_and
          (sql_not_in (Some (original_grid_name NEW)) [Some ''null''])
          (sql_not_in (Some (original_grid_name NEW))
             (map (\<lambda>g. Some (grid_name g)) (grid_transformation s)))),
       Abort ''insert on grid_alternatives violates constraint: original_grid_name must be referenced in grid_transformation.grid_name''),
      (is_true (sql_and
          (sql_eq (Some (original_grid_name NEW)) (Some (proj_grid_name NEW)))
          (Some (inverse_direction NEW))),
       Abort ''insert on grid_alternatives violates constraint: NEW.inverse_direction must be 0 when original_grid_name = proj_grid_name''),
      (is_true (sql_and (is_not_null (grid_alternatives.package_name NEW))
                        (is_not_null (grid_alternatives.url NEW))),
       Abort ''insert on grid_alternatives violates constraint: package_name must be NULL when url is not NULL''),
      (is_true (sql_and (is_null (grid_alternatives.direct_download NEW))
                        (is_not_null (grid_alternatives.url NEW))),
       Abort ''insert on grid_alternatives violates constraint: direct_download must be set when url is not NULL''),
      (is_true (sql_and (is_null (grid_alternatives.open_license NEW))
                        (is_not_null (grid_alternatives.url NEW))),
       Abort ''insert on grid_alternatives violates constraint: open_license must be set when url is not NULL'')]"

fun package_fk_violated :: "string option \<Rightarrow> grid_packages list \<Rightarrow> bool" where
  "package_fk_violated (Some p) parent =
     (\<not> list_ex (\<lambda>r. grid_packages.package_name r = p) parent)"
| "package_fk_violated None parent = False"

definition grid_alternatives_constraints :: "db \<Rightarrow> grid_alternatives \<Rightarrow> error option" where
  "grid_alternatives_constraints s NEW = run_rules
     [(list_ex (\<lambda>g. original_grid_name g = original_grid_name NEW) (grid_alternatives s),
         Unique_failed ''grid_alternatives.original_grid_name''),
      (package_fk_violated (grid_alternatives.package_name NEW) (grid_packages s),
         Foreign_key_failed ''fk_grid_alternatives_grid_packages'')]"

definition insert_grid_alternatives :: "db \<Rightarrow> grid_alternatives \<Rightarrow> error + db" where
  "insert_grid_alternatives s NEW =
     insert_row (grid_alternatives_insert_trigger s NEW) (grid_alternatives_constraints s NEW)
       (s\<lparr>grid_alternatives := grid_alternatives s @ [NEW]\<rparr>)"

subsection \<open>other_transformation\<close>

definition other_transformation_insert_trigger :: "db \<Rightarrow> other_transformation \<Rightarrow> error option" where
  "other_transformation_insert_trigger s NEW = run_rules
     [(is_true (sql_exists (coordinate_operation_with_conversion_view s)
          (key_is (Some (auth_name NEW)) (Some (code NEW)))),
       Abort ''insert on other_transformation violates constraint: (auth_name, code) must not already exist in coordinate_operation_with_conversion_view''),
      (is_true (sql_not_exists (crs_view s)
          (key_is (Some (other_transformation.source_crs_auth_name NEW)) (Some (other_transformation.source_crs_code NEW)))),
       Abort ''insert on other_transformation violates constraint: source_crs(auth_name, code) not found''),
      (is_true (sql_not_exists (crs_view s)
          (key_is (Some (other_transformation.target_crs_auth_name NEW)) (Some (other_transformation.target_crs_code NEW)))),
       Abort ''insert on other_transformation violates constraint: target_crs(auth_name, code) not found''),
      (is_true (sql_and
          (Some (other_transformation.method_auth_name NEW = ''PROJ''))
          (sql_not_in (Some (other_transformation.method_code NEW))
             [Some ''PROJString'', Some ''WKT''])),
       Abort ''insert on other_transformation violates constraint: method_code should be in (PROJString, WKT) when method_auth_name = PROJ''),
      (is_true (sql_and (sql_and
          (sql_exists (crs_view s)
             (\<lambda>crs. sql_and (key_is (Some (other_transformation.source_crs_auth_name NEW))
                                     (Some (other_transformation.source_crs_code NEW)) crs)
                             (Some (crs_view_row.deprecated crs))))
          (Some (\<not> other_transformation.deprecated NEW)))
          (sql_not (Some (auth_name NEW = ''ESRI'')))),
       Abort ''insert on other_transformation violates constraint: source_crs must not be deprecated when other_transformation is not deprecated''),
      (is_true (sql_and (sql_and
          (sql_exists (crs_view s)
             (\<lambda>crs. sql_and (key_is (Some (other_transformation.target_crs_auth_name NEW))
                                     (Some (other_transformation.target_crs_code NEW)) crs)
                             (Some (crs_view_row.deprecated crs))))
          (Some (\<not> other_transformation.deprecated NEW)))
          (sql_not (Some (auth_name NEW = ''ESRI'')))),
       Abort ''insert on other_transformation violates constraint: target_crs must not be deprecated when other_transformation is not deprecated''),
      (is_true (sql_and
          (sql_exists (area s)
             (\<lambda>a. sql_and (key_is (Some (other_transformation.area_of_use_auth_name NEW))
                                   (Some (other_transformation.area_of_use_code NEW)) a)
                           (Some (area.deprecated a))))
          (Some (\<not> other_transformation.deprecated NEW))),
       Abort ''insert on other_transformation violates constraint: area_of_use must not be deprecated when other_transformation is not deprecated'')]"

definition other_transformation_constraints :: "db \<Rightarrow> other_transformation \<Rightarrow> error option" where
  "other_transformation_constraints s NEW = run_rules
     [(\<not> 1 \<le> text_length (auth_name NEW), Check_failed ''other_transformation.auth_name''),
      (\<not> 1 \<le> text_length (code NEW), Check_failed ''other_transformation.code''),
      (\<not> 2 \<le> text_length (other_transformation.name NEW), Check_failed ''other_transformation.name''),
      (\<not> 1 \<le> text_length (other_transformation.method_auth_name NEW), Check_failed ''other_transformation.method_auth_name''),
      (\<not> 1 \<le> text_length (other_transformation.method_code NEW), Check_failed ''other_transformation.method_code''),
      (\<not> 2 \<le> text_length (other_transformation.method_name NEW), Check_failed ''other_transformation.method_name''),
      (\<not> check_holds (sql_ge (other_transformation.accuracy NEW) (Some 0)), Check_failed ''other_transformation.accuracy''),
      (has_key (other_transformation s) (auth_name NEW) (code NEW),
         Unique_failed ''pk_other_transformation''),
      (fk_violated (Some (other_transformation.area_of_use_auth_name NEW)) (Some (other_transformation.area_of_use_code NEW))
         (area s), Foreign_key_failed ''fk_other_transformation_area''),
      (fk_violated (other_transformation.param1_uom_auth_name NEW) (other_transformation.param1_uom_code NEW)
         (unit_of_measure s), Foreign_key_failed ''fk_other_transformation_param1_uom''),
      (fk_violated (other_transformation.param2_uom_auth_name NEW) (other_transformation.param2_uom_code NEW)
         (unit_of_measure s), Foreign_key_failed ''fk_other_transformation_param2_uom''),
      (fk_violated (other_transformation.param3_uom_auth_name NEW) (other_transformation.param3_uom_code NEW)
         (unit_of_measure s), Foreign_key_failed ''fk_other_transformation_param3_uom''),
      (fk_violated (other_transformation.param4_uom_auth_name NEW) (other_transformation.param4_uom_code NEW)
         (unit_of_measure s), Foreign_key_failed ''fk_other_transformation_param4_uom''),
      (fk_violated (other_transformation.param5_uom_auth_name NEW) (other_transformation.param5_uom_code NEW)
         (unit_of_measure s), Foreign_key_failed ''fk_other_transformation_param5_uom''),
      (fk_violated (other_transformation.param6_uom_auth_name NEW) (other_transformation.param6_uom_code NEW)
         (unit_of_measure s), Foreign_key_failed ''fk_other_transformation_param6_uom''),
      (fk_violated (other_transformation.param7_uom_auth_name NEW) (other_transformation.param7_uom_code NEW)
         (unit_of_measure s), Foreign_key_failed ''fk_other_transformation_param7_uom'')]"

definition insert_other_transformation :: "db \<Rightarrow> other_transformation \<Rightarrow> error + db" where
  "insert_other_transformation s NEW =
     insert_row (other_transformation_insert_trigger s NEW) (other_transformation_constraints s NEW)
       (s\<lparr>other_transformation := other_transformation s @ [NEW]\<rparr>)"

subsection \<open>concatenated_operation\<close>

definition concatenated_operation_insert_trigger ::
    "db \<Rightarrow> concatenated_operation \<Rightarrow> error option" where
  "concatenated_operation_insert_trigger s NEW = run_rules
     [(is_true (sql_exists (coordinate_operation_with_conversion_view s)
          (key_is (Some (auth_name NEW)) (Some (code NEW)))),
       Abort ''insert on concatenated_operation violates constraint: (auth_name, code) must not already exist in coordinate_operation_with_conversion_view''),
      (is_true (sql_not_exists (coordinate_operation_with_conversion_view s)
          (key_is (Some (step1_auth_name NEW)) (Some (step1_code NEW)))),
       Abort ''insert on concatenated_operation violates constraint: step1(auth_name, code) must already exist in coordinate_operation_with_conversion_view''),
      (is_true (sql_not_exists (coordinate_operation_with_conversion_view s)
          (key_is (Some (step2_auth_name NEW)) (Some (step2_code NEW)))),
       Abort ''insert on concatenated_operation violates constraint: step2(auth_name, code) must already exist in coordinate_operation_with_conversion_view''),
      (is_true (sql_and
          (is_not_null (step3_auth_name NEW))
          (sql_not_exists (coordinate_operation_with_conversion_view s)
             (key_is (step3_auth_name NEW) (step3_code NEW)))),
       Abort ''insert on concatenated_operation violates constraint: step3(auth_name, code) must already exist in coordinate_operation_with_conversion_view''),
      (is_true (sql_not_exists (crs_view s)
          (key_is (Some (concatenated_operation.source_crs_auth_name NEW)) (Some (concatenated_operation.source_crs_code NEW)))),
       Abort ''insert on concatenated_operation violates constraint: source_crs(auth_name, code) not found''),
      (is_true (sql_not_exists (crs_view s)
          (key_is (Some (concatenated_operation.target_crs_auth_name NEW)) (Some (concatenated_operation.target_crs_code NEW)))),
       Abort ''insert on concatenated_operation violates constraint: target_crs(auth_name, code) not found''),
      (is_true (sql_exists (concatenated_operation s) (key_is (Some (step1_auth_name NEW)) (Some (step1_code NEW)))),
       Abort ''insert on concatenated_operation violates constraint: step1 should not be a concatenated_operation''),
      (is_true (sql_exists (concatenated_operation s) (key_is (Some (step2_auth_name NEW)) (Some (step2_code NEW)))),
       Abort ''insert on concatenated_operation violates constraint: step2 should not be a concatenated_operation''),
      (is_true (sql_exists (concatenated_operation s) (key_is (step3_auth_name NEW) (step3_code NEW))),
       Abort ''insert on concatenated_operation violates constraint: step3 should not be a concatenated_operation''),
      (is_true (sql_and (sql_and
          (sql_exists (crs_view s)
             (\<lambda>crs. sql_and (key_is (Some (concatenated_operation.source_crs_auth_name NEW))
                                     (Some (concatenated_operation.source_crs_code NEW)) crs)
                             (Some (crs_view_row.deprecated crs))))
          (Some (\<not> concatenated_operation.deprecated NEW)))
          (sql_not (Some (auth_name NEW = ''ESRI'')))),
       Abort ''insert on concatenated_operation violates constraint: source_crs must not be deprecated when concatenated_operation is not deprecated''),
      (is_true (sql_and (sql_and
          (sql_exists (crs_view s)
             (\<lambda>crs. sql_and (key_is (Some (concatenated_operation.target_crs_auth_name NEW))
                                     (Some (concatenated_operation.target_crs_code NEW)) crs)
                             (Some (crs_view_row.deprecated crs))))
          (Some (\<not> concatenated_operation.deprecated NEW)))
          (sql_not (Some (auth_name NEW = ''ESRI'')))),
       Abort ''insert on concatenated_operation violates constraint: target_crs must not be deprecated when concatenated_operation is not deprecated''),
      (is_true (sql_and
          (sql_exists (area s)
             (\<lambda>a. sql_and (key_is (Some (concatenated_operation.area_of_use_auth_name NEW))
                                   (Some (concatenated_operation.area_of_use_code NEW)) a)
                           (Some (area.deprecated a))))
          (Some (\<not> concatenated_operation.deprecated NEW))),
       Abort ''insert on concatenated_operation violates constraint: area_of_use must not be deprecated when concatenated_operation is not deprecated'')]"

definition concatenated_operation_constraints ::
    "db \<Rightarrow> concatenated_operation \<Rightarrow> error option" where
  "concatenated_operation_constraints s NEW = run_rules
     [(\<not> 1 \<le> text_length (auth_name NEW), Check_failed ''concatenated_operation.auth_name''),
      (\<not> 1 \<le> text_length (code NEW), Check_failed ''concatenated_operation.code''),
      (\<not> 2 \<le> text_length (concatenated_operation.name NEW), Check_failed ''concatenated_operation.name''),
      (\<not> check_holds (sql_ge (concatenated_operation.accuracy NEW) (Some 0)), Check_failed ''concatenated_operation.accuracy''),
      (has_key (concatenated_operation s) (auth_name NEW) (code NEW),
         Unique_failed ''pk_concatenated_operation''),
      (fk_violated (Some (concatenated_operation.area_of_use_auth_name NEW)) (Some (concatenated_operation.area_of_use_code NEW))
         (area s), Foreign_key_failed ''fk_concatenated_operation_transformation_area'')]"

definition insert_concatenated_operation :: "db \<Rightarrow> concatenated_operation \<Rightarrow> error + db" where
  "insert_concatenated_operation s NEW =
     insert_row (concatenated_operation_insert_trigger s NEW)
       (concatenated_operation_constraints s NEW)
       (s\<lparr>concatenated_operation := concatenated_operation s @ [NEW]\<rparr>)"

section \<open>Loading the database\<close>

text \<open>
  The database changes by \<^verbatim>\<open>INSERT\<close> statements only (there is no trigger for updates or
  deletes; the data files consist of inserts). A statement names the table and gives the
  row. The states that can be reached are those that a sequence of admitted inserts
  builds from the initial database.

  An \<^verbatim>\<open>INSERT\<close> into the view \<^verbatim>\<open>conversion\<close> or \<^verbatim>\<open>helmert_transformation\<close> is carried out
  by \<^verbatim>\<open>INSTEAD OF\<close> triggers as inserts into the method table, the parameter table and
  the underlying table, each under its own trigger and constraints, and is undone as a
  whole when one of them fails: it reaches no state that the table inserts do not reach
  (for \<open>insert_conversion\<close> this is lemma \<open>insert_conversion_reachable\<close>).
\<close>

datatype statement =
    Insert_unit_of_measure unit_of_measure
  | Insert_celestial_body celestial_body
  | Insert_ellipsoid ellipsoid
  | Insert_area area
  | Insert_prime_meridian prime_meridian
  | Insert_geodetic_datum geodetic_datum
  | Insert_vertical_datum vertical_datum
  | Insert_coordinate_system coordinate_system
  | Insert_geodetic_crs geodetic_crs
  | Insert_vertical_crs vertical_crs
  | Insert_conversion_method conversion_method
  | Insert_conversion_param conversion_param
  | Insert_conversion_table conversion_table
  | Insert_projected_crs projected_crs
  | Insert_compound_crs compound_crs
  | Insert_coordinate_operation_method coordinate_operation_method
  | Insert_helmert_transformation_table helmert_transformation_table
  | Insert_grid_transformation grid_transformation
  | Insert_grid_packages grid_packages
  | Insert_grid_alternatives grid_alternatives
  | Insert_other_transformation other_transformation
  | Insert_concatenated_operation concatenated_operation

fun execute :: "db \<Rightarrow> statement \<Rightarrow> error + db" where
  "execute s (Insert_unit_of_measure r) = insert_unit_of_measure s r"
| "execute s (Insert_celestial_body r) = insert_celestial_body s r"
| "execute s (Insert_ellipsoid r) = insert_ellipsoid s r"
| "execute s (Insert_area r) = insert_area s r"
| "execute s (Insert_prime_meridian r) = insert_prime_meridian s r"
| "execute s (Insert_geodetic_datum r) = insert_geodetic_datum s r"
| "execute s (Insert_vertical_datum r) = insert_vertical_datum s r"
| "execute s (Insert_coordinate_system r) = insert_coordinate_system s r"
| "execute s (Insert_geodetic_crs r) = insert_geodetic_crs s r"
| "execute s (Insert_vertical_crs r) = insert_vertical_crs s r"
| "execute s (Insert_conversion_method r) = insert_conversion_method s r"
| "execute s (Insert_conversion_param r) = insert_conversion_param s r"
| "execute s (Insert_conversion_table r) = insert_conversion_table s r"
| "execute s (Insert_projected_crs r) = insert_projected_crs s r"
| "execute s (Insert_compound_crs r) = insert_compound_crs s r"
| "execute s (Insert_coordinate_operation_method r) = insert_coordinate_operation_method s r"
| "execute s (Insert_helmert_transformation_table r) = insert_helmert_transformation_table s r"
| "execute s (Insert_grid_transformation r) = insert_grid_transformation s r"
| "execute s (Insert_grid_packages r) = insert_grid_packages s r"
| "execute s (Insert_grid_alternatives r) = insert_grid_alternatives s r"
| "execute s (Insert_other_transformation r) = insert_other_transformation s r"
| "execute s (Insert_concatenated_operation r) = insert_concatenated_operation s r"

fun execute_all :: "db \<Rightarrow> statement list \<Rightarrow> error + db" where
  "execute_all s [] = Inr s"
| "execute_all s (st # sts) =
     (case execute s st of Inl e \<Rightarrow> Inl e | Inr s' \<Rightarrow> execute_all s' sts)"

inductive reachable :: "db \<Rightarrow> bool" where
  initial: "reachable initial_db"
| step: "reachable s \<Longrightarrow> execute s st = Inr s' \<Longrightarrow> reachable s'"

text \<open>
  What the triggers of the view \<^verbatim>\<open>conversion\<close> that insert a parameter or the method have
  in common: they do the same whatever \<^verbatim>\<open>conversion_table\<close> holds, they change no table
  but \<^verbatim>\<open>conversion_param\<close> and \<^verbatim>\<open>conversion_method\<close>, and what they do is nothing or one
  insert statement.
\<close>

definition conversion_trigger_commutes :: "(db \<Rightarrow> error + db) \<Rightarrow> bool" where
  "conversion_trigger_commutes t \<longleftrightarrow>
     (\<forall>s rows. t (s\<lparr>conversion_table := rows\<rparr>)
        = map_sum id (\<lambda>u. u\<lparr>conversion_table := rows\<rparr>) (t s))
     \<and> (\<forall>s u. t s = Inr u \<longrightarrow>
          u\<lparr>conversion_param := [], conversion_method := []\<rparr>
            = s\<lparr>conversion_param := [], conversion_method := []\<rparr>
          \<and> (u = s \<or> (\<exists>st. execute s st = Inr u)))"

text \<open>
  The property the specification states for an area: \<open>south \<le> north\<close>, and
  \<open>west \<le> east\<close> or \<open>east + 360 - west \<le> 200\<close>, as a condition on the numbers that
  the four bound columns hold; it is not true of a row in which one of them is \<^verbatim>\<open>NULL\<close>.
\<close>

definition area_bounds_ordered :: "area \<Rightarrow> bool" where
  "area_bounds_ordered a =
     (case (south_lat a, north_lat a, west_lon a, east_lon a) of
        (Some south, Some north, Some west, Some east) \<Rightarrow>
          south \<le> north \<and> (west \<le> east \<or> east + 360 - west \<le> 200)
      | _ \<Rightarrow> False)"

text \<open>
  The property the specification states for a geodetic CRS and the coordinate system it
  references (the row the trigger's subqueries find): geocentric requires Cartesian of
  dimension 3, geographic 2D requires ellipsoidal of dimension 2, geographic 3D requires
  ellipsoidal of dimension 3.
\<close>

definition coordinate_system_matches_crs_type :: "db \<Rightarrow> geodetic_crs \<Rightarrow> bool" where
  "coordinate_system_matches_crs_type s g =
     (let t = coordinate_system_type s (geodetic_crs.coordinate_system_auth_name g)
                (geodetic_crs.coordinate_system_code g);
          d = coordinate_system_dimension s (geodetic_crs.coordinate_system_auth_name g)
                (geodetic_crs.coordinate_system_code g)
      in (geodetic_crs.type g = ''geocentric'' \<longrightarrow> t = Some ''Cartesian'' \<and> d = Some 3)
       \<and> (geodetic_crs.type g = ''geographic 2D'' \<longrightarrow> t = Some ''ellipsoidal'' \<and> d = Some 2)
       \<and> (geodetic_crs.type g = ''geographic 3D'' \<longrightarrow> t = Some ''ellipsoidal'' \<and> d = Some 3))"

text \<open>
  The seven parameter slots of a conversion: the five columns \<open>paramN_auth_name\<close>,
  \<open>paramN_code\<close>, \<open>paramN_value\<close>, \<open>paramN_uom_auth_name\<close>, \<open>paramN_uom_code\<close> of each.
  The specification asks every slot to be fully populated or fully \<^verbatim>\<open>NULL\<close>.
\<close>

type_synonym param_slot =
  "string option \<times> string option \<times> real option \<times> string option \<times> string option"

definition conversion_slots :: "conversion_table \<Rightarrow> param_slot list" where
  "conversion_slots c =
     [(conversion_table.param1_auth_name c, conversion_table.param1_code c,
       conversion_table.param1_value c, conversion_table.param1_uom_auth_name c,
       conversion_table.param1_uom_code c),
      (conversion_table.param2_auth_name c, conversion_table.param2_code c,
       conversion_table.param2_value c, conversion_table.param2_uom_auth_name c,
       conversion_table.param2_uom_code c),
      (conversion_table.param3_auth_name c, conversion_table.param3_code c,
       conversion_table.param3_value c, conversion_table.param3_uom_auth_name c,
       conversion_table.param3_uom_code c),
      (conversion_table.param4_auth_name c, conversion_table.param4_code c,
       conversion_table.param4_value c, conversion_table.param4_uom_auth_name c,
       conversion_table.param4_uom_code c),
      (conversion_table.param5_auth_name c, conversion_table.param5_code c,
       conversion_table.param5_value c, conversion_table.param5_uom_auth_name c,
       conversion_table.param5_uom_code c),
      (conversion_table.param6_auth_name c, conversion_table.param6_code c,
       conversion_table.param6_value c, conversion_table.param6_uom_auth_name c,
       conversion_table.param6_uom_code c),
      (conversion_table.param7_auth_name c, conversion_table.param7_code c,
       conversion_table.param7_value c, conversion_table.param7_uom_auth_name c,
       conversion_table.param7_uom_code c)]"

fun slot_all_or_nothing :: "param_slot \<Rightarrow> bool" where
  "slot_all_or_nothing (a, c, v, ua, uc) =
     ((a = None \<and> c = None \<and> v = None \<and> ua = None \<and> uc = None)
      \<or> (a \<noteq> None \<and> c \<noteq> None \<and> v \<noteq> None \<and> ua \<noteq> None \<and> uc \<noteq> None))"

text \<open>
  The parameter references of the seven slots of a row of the view \<^verbatim>\<open>conversion\<close>: the
  columns \<open>paramN_auth_name\<close>, \<open>paramN_code\<close> and \<open>paramN_name\<close> of each.
\<close>

definition conversion_param_references ::
    "conversion_row \<Rightarrow> (string option \<times> string option \<times> string option) list" where
  "conversion_param_references c =
     [(conversion_table.param1_auth_name c, conversion_table.param1_code c,
       conversion_row.param1_name c),
      (conversion_table.param2_auth_name c, conversion_table.param2_code c,
       conversion_row.param2_name c),
      (conversion_table.param3_auth_name c, conversion_table.param3_code c,
       conversion_row.param3_name c),
      (conversion_table.param4_auth_name c, conversion_table.param4_code c,
       conversion_row.param4_name c),
      (conversion_table.param5_auth_name c, conversion_table.param5_code c,
       conversion_row.param5_name c),
      (conversion_table.param6_auth_name c, conversion_table.param6_code c,
       conversion_row.param6_name c),
      (conversion_table.param7_auth_name c, conversion_table.param7_code c,
       conversion_row.param7_name c)]"

section \<open>Example rows\<close>

text \<open>
  Rows in the style of the EPSG dataset, used to run the inserts on concrete inputs.
  \<open>example_db\<close> holds two units, an ellipsoid, a prime meridian, a current and a
  deprecated area, geodetic datum, vertical datum and geodetic CRS, five coordinate
  systems, a conversion, a Helmert transformation and a concatenated operation.
\<close>

definition earth :: celestial_body where
  "earth = \<lparr>auth_name = ''PROJ'', code = ''EARTH'', celestial_body.name = ''Earth'',
            celestial_body.semi_major_axis = 6378137\<rparr>"

definition metre :: unit_of_measure where
  "metre = \<lparr>auth_name = ''EPSG'', code = ''9001'', unit_of_measure.name = ''metre'',
            unit_of_measure.type = ''length'', conv_factor = Some 1,
            unit_of_measure.deprecated = False\<rparr>"

definition degree :: unit_of_measure where
  "degree = \<lparr>auth_name = ''EPSG'', code = ''9102'', unit_of_measure.name = ''degree'',
             unit_of_measure.type = ''angle'', conv_factor = Some 0.0174532925199433,
             unit_of_measure.deprecated = False\<rparr>"

definition wgs84_ellipsoid :: ellipsoid where
  "wgs84_ellipsoid =
     \<lparr>auth_name = ''EPSG'', code = ''7030'', ellipsoid.name = ''WGS 84'',
      ellipsoid.description = None,
      celestial_body_auth_name = ''PROJ'', celestial_body_code = ''EARTH'',
      ellipsoid.semi_major_axis = 6378137,
      ellipsoid.uom_auth_name = ''EPSG'', ellipsoid.uom_code = ''9001'',
      inv_flattening = Some 298.257223563, semi_minor_axis = None,
      ellipsoid.deprecated = False\<rparr>"

definition db_with_metre :: db where
  "db_with_metre = initial_db\<lparr>unit_of_measure := [metre]\<rparr>"

definition world :: area where
  "world = \<lparr>auth_name = ''EPSG'', code = ''1262'', area.name = ''World'',
            area.description = ''World.'',
            south_lat = Some (- 90), north_lat = Some 90,
            west_lon = Some (- 180), east_lon = Some 180,
            area.deprecated = False\<rparr>"

definition retired_area :: area where
  "retired_area = \<lparr>auth_name = ''EPSG'', code = ''1000'', area.name = ''Retired area'',
            area.description = ''An area no longer in use.'',
            south_lat = Some 40, north_lat = Some 50,
            west_lon = Some 0, east_lon = Some 10,
            area.deprecated = True\<rparr>"

definition area_without_bounds :: area where
  "area_without_bounds =
     \<lparr>auth_name = ''EPSG'', code = ''1'', area.name = ''Nowhere'',
      area.description = ''No bounding box.'',
      south_lat = None, north_lat = None, west_lon = None, east_lon = None,
      area.deprecated = False\<rparr>"

definition greenwich :: prime_meridian where
  "greenwich = \<lparr>auth_name = ''EPSG'', code = ''8901'', prime_meridian.name = ''Greenwich'',
                longitude = 0, prime_meridian.uom_auth_name = ''EPSG'',
                prime_meridian.uom_code = ''9102'', prime_meridian.deprecated = False\<rparr>"

definition wgs84_datum :: geodetic_datum where
  "wgs84_datum =
     \<lparr>auth_name = ''EPSG'', code = ''6326'',
      geodetic_datum.name = ''World Geodetic System 1984'',
      geodetic_datum.description = None, geodetic_datum.scope = None,
      ellipsoid_auth_name = ''EPSG'', ellipsoid_code = ''7030'',
      prime_meridian_auth_name = ''EPSG'', prime_meridian_code = ''8901'',
      geodetic_datum.area_of_use_auth_name = ''EPSG'',
      geodetic_datum.area_of_use_code = ''1262'',
      geodetic_datum.deprecated = False\<rparr>"

definition retired_datum :: geodetic_datum where
  "retired_datum =
     wgs84_datum\<lparr>code := ''6000'', geodetic_datum.name := ''Retired datum'',
                 geodetic_datum.deprecated := True\<rparr>"

definition mean_sea_level :: vertical_datum where
  "mean_sea_level =
     \<lparr>auth_name = ''EPSG'', code = ''5100'', vertical_datum.name = ''Mean Sea Level'',
      vertical_datum.description = None, vertical_datum.scope = None,
      vertical_datum.area_of_use_auth_name = ''EPSG'',
      vertical_datum.area_of_use_code = ''1262'',
      vertical_datum.deprecated = False\<rparr>"

definition retired_vertical_datum :: vertical_datum where
  "retired_vertical_datum =
     mean_sea_level\<lparr>code := ''5000'', vertical_datum.name := ''Retired vertical datum'',
                    vertical_datum.deprecated := True\<rparr>"

definition ellipsoidal_2d :: coordinate_system where
  "ellipsoidal_2d = \<lparr>auth_name = ''EPSG'', code = ''6422'',
                     coordinate_system.type = ''ellipsoidal'', dimension = 2\<rparr>"

definition ellipsoidal_3d :: coordinate_system where
  "ellipsoidal_3d = \<lparr>auth_name = ''EPSG'', code = ''6423'',
                     coordinate_system.type = ''ellipsoidal'', dimension = 3\<rparr>"

definition cartesian_3d :: coordinate_system where
  "cartesian_3d = \<lparr>auth_name = ''EPSG'', code = ''6500'',
                   coordinate_system.type = ''Cartesian'', dimension = 3\<rparr>"

definition cartesian_2d :: coordinate_system where
  "cartesian_2d = \<lparr>auth_name = ''EPSG'', code = ''4400'',
                   coordinate_system.type = ''Cartesian'', dimension = 2\<rparr>"

definition vertical_1d :: coordinate_system where
  "vertical_1d = \<lparr>auth_name = ''EPSG'', code = ''6499'',
                  coordinate_system.type = ''vertical'', dimension = 1\<rparr>"

definition wgs84 :: geodetic_crs where
  "wgs84 =
     \<lparr>auth_name = ''EPSG'', code = ''4326'', geodetic_crs.name = ''WGS 84'',
      geodetic_crs.description = None, geodetic_crs.scope = None,
      geodetic_crs.type = ''geographic 2D'',
      geodetic_crs.coordinate_system_auth_name = Some ''EPSG'',
      geodetic_crs.coordinate_system_code = Some ''6422'',
      geodetic_crs.datum_auth_name = Some ''EPSG'',
      geodetic_crs.datum_code = Some ''6326'',
      geodetic_crs.area_of_use_auth_name = Some ''EPSG'',
      geodetic_crs.area_of_use_code = Some ''1262'',
      geodetic_crs.text_definition = None,
      geodetic_crs.deprecated = False\<rparr>"

definition retired_geodetic_crs :: geodetic_crs where
  "retired_geodetic_crs =
     wgs84\<lparr>code := ''4000'', geodetic_crs.name := ''Retired CRS'',
           geodetic_crs.datum_code := Some ''6000'', geodetic_crs.deprecated := True\<rparr>"

definition wgs84_3d :: geodetic_crs where
  "wgs84_3d =
     wgs84\<lparr>code := ''4979'', geodetic_crs.type := ''geographic 3D'',
           geodetic_crs.coordinate_system_code := Some ''6423''\<rparr>"

definition deprecated_2d_on_3d_system :: geodetic_crs where
  "deprecated_2d_on_3d_system =
     wgs84\<lparr>code := ''4001'', geodetic_crs.name := ''Deprecated 2D CRS'',
           geodetic_crs.coordinate_system_code := Some ''6423'',
           geodetic_crs.deprecated := True\<rparr>"

definition crs_on_retired_datum :: geodetic_crs where
  "crs_on_retired_datum =
     wgs84\<lparr>code := ''4002'', geodetic_crs.name := ''CRS on a retired datum'',
           geodetic_crs.datum_code := Some ''6000''\<rparr>"

definition crs_on_retired_area :: geodetic_crs where
  "crs_on_retired_area =
     wgs84\<lparr>code := ''4003'', geodetic_crs.name := ''CRS on a retired area'',
           geodetic_crs.area_of_use_code := Some ''1000''\<rparr>"

definition height_on_retired_datum :: vertical_crs where
  "height_on_retired_datum =
     \<lparr>auth_name = ''EPSG'', code = ''5700'', vertical_crs.name = ''Height on a retired datum'',
      vertical_crs.description = None, vertical_crs.scope = None,
      vertical_crs.coordinate_system_auth_name = ''EPSG'',
      vertical_crs.coordinate_system_code = ''6499'',
      vertical_crs.datum_auth_name = ''EPSG'', vertical_crs.datum_code = ''5000'',
      vertical_crs.area_of_use_auth_name = ''EPSG'', vertical_crs.area_of_use_code = ''1262'',
      vertical_crs.deprecated = False\<rparr>"

definition wgs84_with_height :: compound_crs where
  "wgs84_with_height =
     \<lparr>auth_name = ''EPSG'', code = ''9000'', compound_crs.name = ''WGS 84 + height'',
      compound_crs.description = None, compound_crs.scope = None,
      horiz_crs_auth_name = ''EPSG'', horiz_crs_code = ''4326'',
      vertical_crs_auth_name = ''EPSG'', vertical_crs_code = ''5700'',
      compound_crs.area_of_use_auth_name = ''EPSG'', compound_crs.area_of_use_code = ''1262'',
      compound_crs.deprecated = False\<rparr>"

definition transverse_mercator :: conversion_method where
  "transverse_mercator = \<lparr>auth_name = ''EPSG'', code = ''9807'',
                          conversion_method.name = ''Transverse Mercator''\<rparr>"

definition utm_zone_31n :: conversion_table where
  "utm_zone_31n =
     \<lparr>auth_name = ''EPSG'', code = ''16031'', conversion_table.name = ''UTM zone 31N'',
      conversion_table.description = None, conversion_table.scope = None,
      conversion_table.area_of_use_auth_name = ''EPSG'',
      conversion_table.area_of_use_code = ''1262'',
      conversion_table.method_auth_name = Some ''EPSG'',
      conversion_table.method_code = Some ''9807'',
      conversion_table.param1_auth_name = Some ''EPSG'',
      conversion_table.param1_code = Some ''8801'',
      conversion_table.param1_value = Some 0,
      conversion_table.param1_uom_auth_name = Some ''EPSG'',
      conversion_table.param1_uom_code = Some ''9102'',
      conversion_table.param2_auth_name = Some ''EPSG'',
      conversion_table.param2_code = Some ''8802'',
      conversion_table.param2_value = Some 3,
      conversion_table.param2_uom_auth_name = Some ''EPSG'',
      conversion_table.param2_uom_code = Some ''9102'',
      conversion_table.param3_auth_name = None,
      conversion_table.param3_code = None,
      conversion_table.param3_value = None,
      conversion_table.param3_uom_auth_name = None,
      conversion_table.param3_uom_code = None,
      conversion_table.param4_auth_name = None,
      conversion_table.param4_code = None,
      conversion_table.param4_value = None,
      conversion_table.param4_uom_auth_name = None,
      conversion_table.param4_uom_code = None,
      conversion_table.param5_auth_name = None,
      conversion_table.param5_code = None,
      conversion_table.param5_value = None,
      conversion_table.param5_uom_auth_name = None,
      conversion_table.param5_uom_code = None,
      conversion_table.param6_auth_name = None,
      conversion_table.param6_code = None,
      conversion_table.param6_value = None,
      conversion_table.param6_uom_auth_name = None,
      conversion_table.param6_uom_code = None,
      conversion_table.param7_auth_name = None,
      conversion_table.param7_code = None,
      conversion_table.param7_value = None,
      conversion_table.param7_uom_auth_name = None,
      conversion_table.param7_uom_code = None,
      conversion_table.deprecated = False\<rparr>"

definition conversion_with_partial_slot :: conversion_table where
  "conversion_with_partial_slot =
     utm_zone_31n\<lparr>code := ''16099'', conversion_table.name := ''Partial slot'',
                  conversion_table.param3_auth_name := Some ''EPSG'',
                  conversion_table.param3_code := Some ''8805''\<rparr>"

definition geocentric_translations :: coordinate_operation_method where
  "geocentric_translations =
     \<lparr>auth_name = ''EPSG'', code = ''9603'',
      coordinate_operation_method.name = ''Geocentric translations (geog2D domain)''\<rparr>"

definition retired_to_wgs84 :: helmert_transformation_table where
  "retired_to_wgs84 =
     \<lparr>auth_name = ''EPSG'', code = ''1100'',
      helmert_transformation_table.name = ''Retired CRS to WGS 84 (1)'',
      helmert_transformation_table.description = None,
      helmert_transformation_table.scope = None,
      helmert_transformation_table.method_auth_name = ''EPSG'',
      helmert_transformation_table.method_code = ''9603'',
      helmert_transformation_table.source_crs_auth_name = ''EPSG'',
      helmert_transformation_table.source_crs_code = ''4000'',
      helmert_transformation_table.target_crs_auth_name = ''EPSG'',
      helmert_transformation_table.target_crs_code = ''4326'',
      helmert_transformation_table.area_of_use_auth_name = ''EPSG'',
      helmert_transformation_table.area_of_use_code = ''1262'',
      helmert_transformation_table.accuracy = Some 5,
      tx = 84, ty = - 107, tz = 120,
      translation_uom_auth_name = ''EPSG'', translation_uom_code = ''9001'',
      rx = None,
      ry = None,
      rz = None,
      rotation_uom_auth_name = None,
      rotation_uom_code = None,
      scale_difference = None,
      scale_difference_uom_auth_name = None,
      scale_difference_uom_code = None,
      rate_tx = None,
      rate_ty = None,
      rate_tz = None,
      rate_translation_uom_auth_name = None,
      rate_translation_uom_code = None,
      rate_rx = None,
      rate_ry = None,
      rate_rz = None,
      rate_rotation_uom_auth_name = None,
      rate_rotation_uom_code = None,
      rate_scale_difference = None,
      rate_scale_difference_uom_auth_name = None,
      rate_scale_difference_uom_code = None,
      epoch = None,
      epoch_uom_auth_name = None,
      epoch_uom_code = None,
      px = None,
      py = None,
      pz = None,
      pivot_uom_auth_name = None,
      pivot_uom_code = None,
      helmert_transformation_table.operation_version = None,
      helmert_transformation_table.deprecated = True\<rparr>"

definition retired_to_utm :: concatenated_operation where
  "retired_to_utm =
     \<lparr>auth_name = ''EPSG'', code = ''8000'',
      concatenated_operation.name = ''Retired CRS to WGS 84 / UTM zone 31N'',
      concatenated_operation.description = None, concatenated_operation.scope = None,
      concatenated_operation.source_crs_auth_name = ''EPSG'',
      concatenated_operation.source_crs_code = ''4000'',
      concatenated_operation.target_crs_auth_name = ''EPSG'',
      concatenated_operation.target_crs_code = ''4326'',
      concatenated_operation.area_of_use_auth_name = ''EPSG'',
      concatenated_operation.area_of_use_code = ''1262'',
      concatenated_operation.accuracy = None,
      step1_auth_name = ''EPSG'', step1_code = ''1100'',
      step2_auth_name = ''EPSG'', step2_code = ''16031'',
      step3_auth_name = None, step3_code = None,
      concatenated_operation.operation_version = None,
      concatenated_operation.deprecated = True\<rparr>"

definition wgs84_chain :: concatenated_operation where
  "wgs84_chain =
     retired_to_utm\<lparr>code := ''8001'', concatenated_operation.name := ''WGS 84 chain'',
                    concatenated_operation.source_crs_code := ''4326'',
                    concatenated_operation.deprecated := False\<rparr>"

definition example_db :: db where
  "example_db =
     \<lparr>unit_of_measure = [metre, degree],
      celestial_body = [earth],
      ellipsoid = [wgs84_ellipsoid],
      area = [world, retired_area],
      prime_meridian = [greenwich],
      geodetic_datum = [wgs84_datum, retired_datum],
      vertical_datum = [mean_sea_level, retired_vertical_datum],
      coordinate_system = [ellipsoidal_2d, ellipsoidal_3d, cartesian_3d, cartesian_2d, vertical_1d],
      geodetic_crs = [wgs84, retired_geodetic_crs],
      vertical_crs = [],
      conversion_method = [transverse_mercator],
      conversion_param = [],
      conversion_table = [utm_zone_31n],
      projected_crs = [],
      compound_crs = [],
      coordinate_operation_method = [geocentric_translations],
      helmert_transformation_table = [retired_to_wgs84],
      grid_transformation = [],
      grid_packages = [],
      grid_alternatives = [],
      other_transformation = [],
      concatenated_operation = [retired_to_utm]\<rparr>"

text \<open>The statements that load \<open>example_db\<close>.\<close>

definition example_load :: "statement list" where
  "example_load =
     [Insert_unit_of_measure metre, Insert_unit_of_measure degree,
      Insert_ellipsoid wgs84_ellipsoid,
      Insert_area world, Insert_area retired_area,
      Insert_prime_meridian greenwich,
      Insert_geodetic_datum wgs84_datum, Insert_geodetic_datum retired_datum,
      Insert_vertical_datum mean_sea_level, Insert_vertical_datum retired_vertical_datum,
      Insert_coordinate_system ellipsoidal_2d, Insert_coordinate_system ellipsoidal_3d,
      Insert_coordinate_system cartesian_3d, Insert_coordinate_system cartesian_2d,
      Insert_coordinate_system vertical_1d,
      Insert_geodetic_crs wgs84, Insert_geodetic_crs retired_geodetic_crs,
      Insert_conversion_method transverse_mercator,
      Insert_conversion_table utm_zone_31n,
      Insert_coordinate_operation_method geocentric_translations,
      Insert_helmert_transformation_table retired_to_wgs84,
      Insert_concatenated_operation retired_to_utm]"


definition esri_grid :: grid_transformation where
  "esri_grid =
     \<lparr>auth_name = ''ESRI'', code = ''108003'',
      grid_transformation.name = ''Retired CRS to WGS 84 (grid)'',
      grid_transformation.description = None, grid_transformation.scope = None,
      grid_transformation.method_auth_name = ''EPSG'',
      grid_transformation.method_code = ''9615'',
      grid_transformation.method_name = ''NTv2'',
      grid_transformation.source_crs_auth_name = ''EPSG'',
      grid_transformation.source_crs_code = ''4000'',
      grid_transformation.target_crs_auth_name = ''EPSG'',
      grid_transformation.target_crs_code = ''4326'',
      grid_transformation.area_of_use_auth_name = ''EPSG'',
      grid_transformation.area_of_use_code = ''1262'',
      grid_transformation.accuracy = Some 1,
      grid_param_auth_name = ''EPSG'', grid_param_code = ''8656'',
      grid_param_name = ''Latitude and longitude difference file'',
      grid_name = ''retired.gsb'',
      grid2_param_auth_name = None, grid2_param_code = None, grid2_param_name = None,
      grid2_name = None,
      interpolation_crs_auth_name = None, interpolation_crs_code = None,
      grid_transformation.operation_version = None,
      grid_transformation.deprecated = False\<rparr>"

definition esri_other :: other_transformation where
  "esri_other =
     \<lparr>auth_name = ''ESRI'', code = ''108004'',
      other_transformation.name = ''Retired CRS to WGS 84 (rotation)'',
      other_transformation.description = None, other_transformation.scope = None,
      other_transformation.method_auth_name = ''EPSG'',
      other_transformation.method_code = ''9601'',
      other_transformation.method_name = ''Longitude rotation'',
      other_transformation.source_crs_auth_name = ''EPSG'',
      other_transformation.source_crs_code = ''4000'',
      other_transformation.target_crs_auth_name = ''EPSG'',
      other_transformation.target_crs_code = ''4326'',
      other_transformation.area_of_use_auth_name = ''EPSG'',
      other_transformation.area_of_use_code = ''1262'',
      other_transformation.accuracy = Some 0,
      other_transformation.param1_auth_name = None,
      other_transformation.param1_code = None,
      other_transformation.param1_name = None,
      other_transformation.param1_value = None,
      other_transformation.param1_uom_auth_name = None,
      other_transformation.param1_uom_code = None,
      other_transformation.param2_auth_name = None,
      other_transformation.param2_code = None,
      other_transformation.param2_name = None,
      other_transformation.param2_value = None,
      other_transformation.param2_uom_auth_name = None,
      other_transformation.param2_uom_code = None,
      other_transformation.param3_auth_name = None,
      other_transformation.param3_code = None,
      other_transformation.param3_name = None,
      other_transformation.param3_value = None,
      other_transformation.param3_uom_auth_name = None,
      other_transformation.param3_uom_code = None,
      other_transformation.param4_auth_name = None,
      other_transformation.param4_code = None,
      other_transformation.param4_name = None,
      other_transformation.param4_value = None,
      other_transformation.param4_uom_auth_name = None,
      other_transformation.param4_uom_code = None,
      other_transformation.param5_auth_name = None,
      other_transformation.param5_code = None,
      other_transformation.param5_name = None,
      other_transformation.param5_value = None,
      other_transformation.param5_uom_auth_name = None,
      other_transformation.param5_uom_code = None,
      other_transformation.param6_auth_name = None,
      other_transformation.param6_code = None,
      other_transformation.param6_name = None,
      other_transformation.param6_value = None,
      other_transformation.param6_uom_auth_name = None,
      other_transformation.param6_uom_code = None,
      other_transformation.param7_auth_name = None,
      other_transformation.param7_code = None,
      other_transformation.param7_name = None,
      other_transformation.param7_value = None,
      other_transformation.param7_uom_auth_name = None,
      other_transformation.param7_uom_code = None,
      other_transformation.operation_version = None,
      other_transformation.deprecated = False\<rparr>"


definition esri_projected :: projected_crs where
  "esri_projected =
     \<lparr>auth_name = ''ESRI'', code = ''102001'',
      projected_crs.name = ''Retired CRS / UTM zone 31N'',
      projected_crs.description = None, projected_crs.scope = None,
      projected_crs.coordinate_system_auth_name = Some ''EPSG'',
      projected_crs.coordinate_system_code = Some ''4400'',
      geodetic_crs_auth_name = Some ''EPSG'', geodetic_crs_code = Some ''4000'',
      conversion_auth_name = Some ''EPSG'', conversion_code = Some ''16031'',
      projected_crs.area_of_use_auth_name = Some ''EPSG'',
      projected_crs.area_of_use_code = Some ''1262'',
      projected_crs.text_definition = None,
      projected_crs.deprecated = False\<rparr>"


text \<open>The grid alternative that stands for "no grid", as the dataset has it.\<close>

definition null_grid :: grid_alternatives where
  "null_grid =
     \<lparr>original_grid_name = ''null'', proj_grid_name = ''null'',
      proj_grid_format = ''CTable2'', proj_method = ''hgridshift'',
      inverse_direction = False, grid_alternatives.package_name = None,
      grid_alternatives.url = None, grid_alternatives.direct_download = None,
      grid_alternatives.open_license = None, directory = None\<rparr>"

text \<open>
  An area whose bounds are doubles and whose span \<open>east + 360 - west\<close> is
  \<open>200 + 1 / 2 ^ 60\<close>: in double arithmetic \<open>1 / 2 ^ 60 + 360\<close> is \<open>360\<close>.
\<close>

definition area_with_rounded_span :: area where
  "area_with_rounded_span =
     \<lparr>auth_name = ''EPSG'', code = ''2'', area.name = ''Rounded span'',
      area.description = ''From 160 east to just east of Greenwich.'',
      south_lat = Some (- 10), north_lat = Some 10,
      west_lon = Some 160, east_lon = Some (1 / 2 ^ 60),
      area.deprecated = False\<rparr>"

text \<open>
  Vertical CRSs: one on the deprecated datum \<^verbatim>\<open>EPSG:5000\<close> and the deprecated area
  \<^verbatim>\<open>EPSG:1000\<close>; a deprecated one whose key \<^verbatim>\<open>EPSG:5100\<close> is also the key of the vertical
  datum \<open>mean_sea_level\<close>, which is not deprecated; and one on that datum.
\<close>

definition height_on_retired_datum_and_area :: vertical_crs where
  "height_on_retired_datum_and_area =
     height_on_retired_datum\<lparr>vertical_crs.area_of_use_code := ''1000''\<rparr>"

definition retired_height :: vertical_crs where
  "retired_height =
     height_on_retired_datum\<lparr>code := ''5100'', vertical_crs.name := ''Retired height'',
                             vertical_crs.deprecated := True\<rparr>"

definition height_on_mean_sea_level :: vertical_crs where
  "height_on_mean_sea_level =
     height_on_retired_datum\<lparr>code := ''5701'', vertical_crs.name := ''Height'',
                             vertical_crs.datum_code := ''5100''\<rparr>"

text \<open>
  The conversion with the partial third slot as a row of the view \<^verbatim>\<open>conversion\<close>, with
  the names of its method and of the parameters of its first three slots.
\<close>

definition partial_slot_row :: conversion_row where
  "partial_slot_row =
     conversion_table.extend conversion_with_partial_slot
       (conversion_row.fields (Some ''Transverse Mercator'')
          (Some ''Latitude of natural origin'') (Some ''Longitude of natural origin'')
          (Some ''Scale factor at natural origin'') None None None None)"

section \<open>Basic facts about conditions and rule lists\<close>

named_theorems sql_simps

lemma run_rules_None_iff: "run_rules rs = None \<longleftrightarrow> (\<forall>r\<in>set rs. \<not> fst r)"
  by (induction rs) (auto split: if_splits)

lemma run_rules_SomeD: "run_rules rs = Some e \<Longrightarrow> (True, e) \<in> set rs"
  by (induction rs) (auto split: if_splits)

lemma insert_row_Inr_iff:
  "insert_row t c s' = Inr s'' \<longleftrightarrow> t = None \<and> c = None \<and> s'' = s'"
  by (auto simp: insert_row_def split: option.splits)

lemma insert_row_Inl_iff:
  "insert_row t c s' = Inl e \<longleftrightarrow> t = Some e \<or> (t = None \<and> c = Some e)"
  by (auto simp: insert_row_def split: option.splits)

lemma text_length_simps [simp]:
  "text_length [] = 0"
  "text_length (c # cs) = (if c = CHR 0x00 then 0 else Suc (text_length cs))"
  by (simp_all add: text_length_def)

lemma double_value_simps [simp]:
  "double_value None = None"
  "double_value (Some x) = Some (Finite x)"
  by (simp_all add: double_value_def)

lemma is_true_Some [sql_simps]: "is_true (Some b) = b" "is_true None = False"
  by (simp_all add: is_true_def)

lemma is_true_and [sql_simps]: "is_true (sql_and a b) \<longleftrightarrow> is_true a \<and> is_true b"
  by (cases "(a, b)" rule: sql_and.cases) (auto simp: is_true_def)

lemma is_true_or [sql_simps]: "is_true (sql_or a b) \<longleftrightarrow> is_true a \<or> is_true b"
  by (cases "(a, b)" rule: sql_or.cases) (auto simp: is_true_def)

lemma is_true_not [sql_simps]: "is_true (sql_not a) \<longleftrightarrow> a = Some False"
  by (cases a) (auto simp: is_true_def sql_not_def)

lemma is_true_is_null [sql_simps]:
  "is_true (is_null x) \<longleftrightarrow> x = None" "is_true (is_not_null x) \<longleftrightarrow> x \<noteq> None"
  by (simp_all add: is_true_def is_null_def is_not_null_def)

lemma is_true_eq [sql_simps]:
  "is_true (sql_eq (Some x) y) \<longleftrightarrow> y = Some x"
  "is_true (sql_eq y (Some x)) \<longleftrightarrow> y = Some x"
  by (cases y; auto simp: is_true_def)+

lemma is_true_ne [sql_simps]:
  "is_true (sql_ne y (Some x)) \<longleftrightarrow> (\<exists>v. y = Some v \<and> v \<noteq> x)"
  "is_true (sql_ne (Some x) y) \<longleftrightarrow> (\<exists>v. y = Some v \<and> v \<noteq> x)"
  by (cases y; auto simp: is_true_def sql_ne_def sql_not_def)+

lemma is_true_le [sql_simps]:
  "is_true (sql_le x y) \<longleftrightarrow> (\<exists>a b. x = Some a \<and> y = Some b \<and> a \<le> b)"
  by (cases "(x, y)" rule: sql_le.cases) (auto simp: is_true_def)

lemma is_true_lt [sql_simps]:
  "is_true (sql_lt x y) \<longleftrightarrow> (\<exists>a b. x = Some a \<and> y = Some b \<and> a < b)"
  by (cases "(x, y)" rule: sql_lt.cases) (auto simp: is_true_def)

lemma is_true_exists [sql_simps]:
  "is_true (sql_exists rows cond) \<longleftrightarrow> (\<exists>r\<in>set rows. is_true (cond r))"
  "is_true (sql_not_exists rows cond) \<longleftrightarrow> \<not> (\<exists>r\<in>set rows. is_true (cond r))"
  by (auto simp: is_true_def sql_exists_def sql_not_exists_def sql_not_def list_ex_iff)

lemma is_true_key_is [sql_simps]:
  "is_true (key_is a c r) \<longleftrightarrow> a = Some (auth_name r) \<and> c = Some (code r)"
  by (auto simp: key_is_def sql_simps)

lemma sql_and_eq_False [sql_simps]:
  "sql_and a b = Some False \<longleftrightarrow> a = Some False \<or> b = Some False"
  by (cases "(a, b)" rule: sql_and.cases) auto

lemma sql_or_eq_False [sql_simps]:
  "sql_or a b = Some False \<longleftrightarrow> a = Some False \<and> b = Some False"
  by (cases "(a, b)" rule: sql_or.cases) auto

lemma sql_not_eq_False [sql_simps]: "sql_not a = Some False \<longleftrightarrow> a = Some True"
  by (cases a) (auto simp: sql_not_def)

lemma sql_le_eq_False [sql_simps]:
  "sql_le x y = Some False \<longleftrightarrow> (\<exists>a b. x = Some a \<and> y = Some b \<and> \<not> a \<le> b)"
  by (cases "(x, y)" rule: sql_le.cases) auto

lemma sql_lt_eq_False [sql_simps]:
  "sql_lt x y = Some False \<longleftrightarrow> (\<exists>a b. x = Some a \<and> y = Some b \<and> \<not> a < b)"
  by (cases "(x, y)" rule: sql_lt.cases) auto

lemma sql_eq_eq_False [sql_simps]:
  "sql_eq x y = Some False \<longleftrightarrow> (\<exists>a b. x = Some a \<and> y = Some b \<and> a \<noteq> b)"
  by (cases "(x, y)" rule: sql_eq.cases) auto

lemma is_true_in [sql_simps]:
  "is_true (sql_in x vs) \<longleftrightarrow> (\<exists>v\<in>set vs. is_true (sql_eq x v))"
  by (induction vs) (simp_all add: sql_simps)

lemma sql_in_eq_False [sql_simps]:
  "sql_in x vs = Some False \<longleftrightarrow> (\<forall>v\<in>set vs. sql_eq x v = Some False)"
  by (induction vs) (simp_all add: sql_simps)

lemma is_true_not_in [sql_simps]:
  "is_true (sql_not_in x vs) \<longleftrightarrow> (\<forall>v\<in>set vs. sql_eq x v = Some False)"
  by (simp add: sql_not_in_def sql_simps)

lemma is_null_eq_False [sql_simps]:
  "is_null x = Some False \<longleftrightarrow> x \<noteq> None" "is_not_null x = Some False \<longleftrightarrow> x = None"
  by (auto simp: is_null_def is_not_null_def)

lemma sql_ne_eq_False [sql_simps]:
  "sql_ne x y = Some False \<longleftrightarrow> (\<exists>a. x = Some a \<and> y = Some a)"
  by (cases "(x, y)" rule: sql_eq.cases) (auto simp: sql_ne_def sql_not_def)

lemma check_holds_iff: "check_holds b \<longleftrightarrow> b \<noteq> Some False"
  by (simp add: check_holds_def)

lemma has_key_iff: "has_key rows a c \<longleftrightarrow> (\<exists>r\<in>set rows. auth_name r = a \<and> code r = c)"
  by (simp add: has_key_def list_ex_iff)

lemma run_rules_None_nth: "run_rules rs = None \<Longrightarrow> n < length rs \<Longrightarrow> \<not> fst (rs ! n)"
  by (simp add: run_rules_None_iff)

lemma select_scalar_has_key:
  "has_key rows a c \<Longrightarrow>
     \<exists>v. select_scalar rows (key_is (Some a) (Some c)) (\<lambda>r. Some (f r)) = Some v"
  by (induction rows) (auto simp: select_scalar_def has_key_def sql_simps)

lemma fk_violated_iff:
  "fk_violated a c parent \<longleftrightarrow> (\<exists>a' c'. a = Some a' \<and> c = Some c' \<and> \<not> has_key parent a' c')"
  by (cases "(a, c, parent)" rule: fk_violated.cases) auto

lemma select_scalar_SomeD:
  "select_scalar rows (key_is (Some a) (Some c)) f = Some v \<Longrightarrow> has_key rows a c"
  by (induction rows) (auto simp: select_scalar_def has_key_def sql_simps split: if_splits)

lemma is_true_exists_key:
  "is_true (sql_exists rows (key_is (Some a) (Some c))) \<longleftrightarrow> has_key rows a c"
  by (simp add: sql_simps has_key_iff) blast

lemma has_key_append: "has_key (xs @ ys) a c \<longleftrightarrow> has_key xs a c \<or> has_key ys a c"
  by (auto simp: has_key_def)

lemma has_key_map:
  "has_key (map f rows) a c = list_ex (\<lambda>r. auth_name (f r) = a \<and> code (f r) = c) rows"
  by (simp add: has_key_def list_ex_iff)

lemma has_key_crs_view:
  "has_key (crs_view s) a c \<longleftrightarrow>
     has_key (geodetic_crs s) a c \<or> has_key (projected_crs s) a c
     \<or> has_key (vertical_crs s) a c \<or> has_key (compound_crs s) a c"
  by (simp add: crs_view_def has_key_append has_key_map) (simp add: has_key_def)

lemma has_key_snoc:
  "has_key (rows @ [r]) a c \<longleftrightarrow> has_key rows a c \<or> (auth_name r = a \<and> code r = c)"
  by (auto simp: has_key_def)

lemma left_join_matches_nonempty: "left_join_matches ys cond \<noteq> []"
  by (simp add: left_join_matches_def split: list.splits)

lemma has_key_helmert_view:
  "list_ex (\<lambda>(h, m). auth_name h = a \<and> code h = c) (helmert_transformation s)
     \<longleftrightarrow> has_key (helmert_transformation_table s) a c"
proof -
  have "\<exists>m. m \<in> set (left_join_matches ys cond)" for ys :: "coordinate_operation_method list" and cond
    using left_join_matches_nonempty [of ys cond] by (cases "left_join_matches ys cond") auto
  then show ?thesis
    by (fastforce simp: helmert_transformation_def list_ex_iff has_key_iff)
qed

lemma has_key_coordinate_operation_with_conversion_view:
  "has_key (coordinate_operation_with_conversion_view s) a c \<longleftrightarrow>
     has_key (grid_transformation s) a c \<or> has_key (helmert_transformation_table s) a c
     \<or> has_key (other_transformation s) a c \<or> has_key (concatenated_operation s) a c
     \<or> has_key (conversion_table s) a c"
proof -
  have "has_key (coordinate_operation_view s) a c \<longleftrightarrow>
     has_key (grid_transformation s) a c \<or> has_key (helmert_transformation_table s) a c
     \<or> has_key (other_transformation s) a c \<or> has_key (concatenated_operation s) a c"
    by (simp add: coordinate_operation_view_def has_key_append has_key_map
        case_prod_unfold has_key_helmert_view [unfolded case_prod_unfold])
       (simp add: has_key_def)
  then show ?thesis
    by (simp add: coordinate_operation_with_conversion_view_def has_key_append has_key_map)
       (simp add: has_key_def)
qed

text \<open>Unfolding facts for running the inserts on the example rows.\<close>

lemmas eval_defs =
  insert_row_def sql_simps select_scalar_def has_key_def check_holds_iff
  sql_ge_def sql_gt_def sql_between_def sql_not_def sql_ne_def quote_def
  coordinate_system_type_def coordinate_system_dimension_def unit_of_measure_type_def

lemmas example_defs =
  example_db_def initial_db_def earth_def metre_def degree_def wgs84_ellipsoid_def world_def
  retired_area_def greenwich_def wgs84_datum_def retired_datum_def mean_sea_level_def
  retired_vertical_datum_def ellipsoidal_2d_def ellipsoidal_3d_def cartesian_3d_def
  cartesian_2d_def vertical_1d_def wgs84_def retired_geodetic_crs_def
  transverse_mercator_def utm_zone_31n_def geocentric_translations_def
  retired_to_wgs84_def retired_to_utm_def

lemmas view_defs =
  crs_view_def coordinate_operation_with_conversion_view_def coordinate_operation_view_def
  helmert_transformation_def conversion_def conversion_param_matches_def
  left_join_matches_def

section \<open>Ellipsoid: inverse flattening or semi-minor axis\<close>

text \<open>
  C3. An ellipsoid that is admitted has exactly one of \<open>inv_flattening\<close> and
  \<open>semi_minor_axis\<close>; with both \<^verbatim>\<open>NULL\<close>, or with both set, the insert aborts with the
  message of the trigger's first rule, whatever the database holds.
\<close>

theorem ellipsoid_exactly_one_shape_parameter:
  "(insert_ellipsoid s NEW = Inr s' \<longrightarrow>
      (inv_flattening NEW = None) \<noteq> (semi_minor_axis NEW = None))
   \<and> ((inv_flattening NEW = None) = (semi_minor_axis NEW = None) \<longrightarrow>
      insert_ellipsoid s NEW = Inl (Abort ''insert on ellipsoid violates constraint: inv_flattening (exclusive) or semi_minor_axis should be defined''))"
  by (auto simp: insert_ellipsoid_def insert_row_def ellipsoid_insert_trigger_def sql_simps
      split: option.splits)

theorem ellipsoid_exactly_one_shape_parameter_witness:
  "insert_ellipsoid db_with_metre wgs84_ellipsoid
     = Inr (db_with_metre\<lparr>ellipsoid := [wgs84_ellipsoid]\<rparr>)
   \<and> inv_flattening wgs84_ellipsoid \<noteq> None \<and> semi_minor_axis wgs84_ellipsoid = None
   \<and> insert_ellipsoid db_with_metre (wgs84_ellipsoid\<lparr>inv_flattening := None\<rparr>)
     = Inl (Abort ''insert on ellipsoid violates constraint: inv_flattening (exclusive) or semi_minor_axis should be defined'')
   \<and> insert_ellipsoid db_with_metre (wgs84_ellipsoid\<lparr>semi_minor_axis := Some 6356752\<rparr>)
     = Inl (Abort ''insert on ellipsoid violates constraint: inv_flattening (exclusive) or semi_minor_axis should be defined'')"
proof -
  have admitted: "insert_ellipsoid db_with_metre wgs84_ellipsoid
      = Inr (db_with_metre\<lparr>ellipsoid := [wgs84_ellipsoid]\<rparr>)"
    by (simp add: insert_ellipsoid_def insert_row_def ellipsoid_insert_trigger_def
        ellipsoid_constraints_def db_with_metre_def initial_db_def metre_def
        wgs84_ellipsoid_def sql_simps select_scalar_def has_key_def check_holds_def
        sql_ge_def sql_gt_def unit_of_measure_type_def)
  from ellipsoid_exactly_one_shape_parameter
    [of db_with_metre wgs84_ellipsoid "db_with_metre\<lparr>ellipsoid := [wgs84_ellipsoid]\<rparr>"]
    ellipsoid_exactly_one_shape_parameter
    [of db_with_metre "wgs84_ellipsoid\<lparr>inv_flattening := None\<rparr>"]
    ellipsoid_exactly_one_shape_parameter
    [of db_with_metre "wgs84_ellipsoid\<lparr>semi_minor_axis := Some 6356752\<rparr>"]
    admitted
  show ?thesis by (simp add: wgs84_ellipsoid_def)
qed

section \<open>Rounding to doubles\<close>

lemma pow2_eq_powr: "pow2 e = 2 powr (real_of_int e)"
  by (simp add: pow2_def powr_real_of_int inverse_eq_divide)

lemma pow2_pos: "0 < pow2 e"
  by (simp add: pow2_eq_powr)

lemma pow2_mono: "a \<le> b \<Longrightarrow> pow2 a \<le> pow2 b"
  by (simp add: pow2_eq_powr)

lemma binary_exponent_le:
  assumes "\<bar>x\<bar> < 2 ^ 10"
  shows "binary_exponent x \<le> 9"
proof (cases "1 \<le> \<bar>x\<bar>")
  case True
  from assms have "\<lfloor>\<bar>x\<bar>\<rfloor> < 2 ^ 10"
    by (simp add: floor_less_iff)
  then have "bitlen \<lfloor>\<bar>x\<bar>\<rfloor> \<le> 10"
    by (simp add: bitlen_le_iff_power)
  with True show ?thesis
    by (simp add: binary_exponent_def)
next
  case False
  with bitlen_nonneg [of "\<lceil>1 / \<bar>x\<bar>\<rceil> - 1"] show ?thesis
    by (simp add: binary_exponent_def)
qed

lemma round_half_even_error: "\<bar>of_int (round_half_even y) - y\<bar> \<le> 1 / 2"
  unfolding round_half_even_def Let_def
  by (auto simp: abs_le_iff)

text \<open>
  Below \<open>2 ^ 10\<close> the doubles are at most \<open>1 / 2 ^ 43\<close> apart, so rounding moves a number
  by at most \<open>1 / 2 ^ 44\<close>, and the result is finite.
\<close>

lemma round_to_double_error:
  assumes "\<bar>x\<bar> < 2 ^ 10"
  shows "\<bar>round_to_double x - x\<bar> \<le> 1 / 2 ^ 44"
proof (cases "x = 0")
  case True
  then show ?thesis by (simp add: round_to_double_def)
next
  case False
  define ulp where "ulp = pow2 (max (binary_exponent x) (- 1022) - 52)"
  have pos: "0 < ulp"
    by (simp add: ulp_def pow2_pos)
  from binary_exponent_le [OF assms]
  have "max (binary_exponent x) (- 1022) - 52 \<le> - 43"
    by simp
  from pow2_mono [OF this] have le: "ulp \<le> 1 / 2 ^ 43"
    by (simp add: ulp_def pow2_def)
  have r: "round_to_double x = of_int (round_half_even (x / ulp)) * ulp"
    using False by (simp add: round_to_double_def ulp_def Let_def)
  have "round_to_double x - x = (of_int (round_half_even (x / ulp)) - x / ulp) * ulp"
    using pos by (simp add: r left_diff_distrib)
  then have "\<bar>round_to_double x - x\<bar> = \<bar>of_int (round_half_even (x / ulp)) - x / ulp\<bar> * ulp"
    using pos by (simp add: abs_mult)
  also have "\<dots> \<le> 1 / 2 * ulp"
    using pos by (intro mult_right_mono round_half_even_error) simp
  also have "\<dots> \<le> 1 / 2 * (1 / 2 ^ 43)"
    using le by simp
  finally show ?thesis by simp
qed

lemma double_of_real_Finite:
  assumes "\<bar>x\<bar> < 2 ^ 10"
  shows "double_of_real x = Finite (round_to_double x)"
proof -
  from round_to_double_error [OF assms] have "\<bar>round_to_double x - x\<bar> \<le> 1"
    by (rule order_trans) simp
  with assms have "\<bar>round_to_double x\<bar> < 2 ^ 11"
    by simp
  moreover have "(2::real) ^ 11 \<le> max_double"
    by (simp add: max_double_def)
  ultimately show ?thesis
    by (simp add: double_of_real_def Let_def abs_less_iff)
qed

text \<open>Evaluation of the rounding on numerals.\<close>

lemmas double_defs =
  pow2_def binary_exponent_def round_half_even_def round_to_double_def max_double_def
  double_of_real_def Let_def compute_bitlen


section \<open>Area: ordering of the bounds\<close>

lemma area_admitted:
  "insert_area s NEW = Inr s' \<longleftrightarrow>
     area_insert_trigger s NEW = None \<and> area_constraints s NEW = None
     \<and> s' = s\<lparr>area := area s @ [NEW]\<rparr>"
  by (simp add: insert_area_def insert_row_Inr_iff)

text \<open>
  The condition \<^verbatim>\<open>east_lon + 360 - west_lon <= 200\<close> of the trigger for longitudes that
  pass their \<^verbatim>\<open>CHECK\<close>s: both operations round, neither overflows, and the exact span
  is within \<open>1 / 2 ^ 43\<close> of the computed one.
\<close>

lemma area_span:
  assumes "- 180 \<le> w" "w \<le> 180" "- 180 \<le> e" "e \<le> 180"
  shows "sql_le_double
           (sql_sub (sql_add (double_value (Some e)) (double_value (Some 360)))
              (double_value (Some w)))
           (double_value (Some 200))
         = Some (round_to_double (round_to_double (e + 360) - w) \<le> 200)"
    and "round_to_double (round_to_double (e + 360) - w) \<le> 200
           \<Longrightarrow> e + 360 - w \<le> 200 + 1 / 2 ^ 43"
proof -
  from assms have a: "\<bar>e + 360\<bar> < 2 ^ 10"
    by (simp add: abs_less_iff)
  note ea = round_to_double_error [OF a]
  from ea have "\<bar>round_to_double (e + 360) - (e + 360)\<bar> \<le> 1"
    by (rule order_trans) simp
  with assms have b: "\<bar>round_to_double (e + 360) - w\<bar> < 2 ^ 10"
    by simp
  note eb = round_to_double_error [OF b]
  show "sql_le_double
           (sql_sub (sql_add (double_value (Some e)) (double_value (Some 360)))
              (double_value (Some w)))
           (double_value (Some 200))
         = Some (round_to_double (round_to_double (e + 360) - w) \<le> 200)"
    by (simp add: double_of_real_Finite [OF a] double_of_real_Finite [OF b])
  assume "round_to_double (round_to_double (e + 360) - w) \<le> 200"
  moreover from ea have "- (round_to_double (e + 360) - (e + 360)) \<le> 1 / 2 ^ 44"
    by (rule abs_le_D2)
  moreover from eb
  have "- (round_to_double (round_to_double (e + 360) - w) - (round_to_double (e + 360) - w))
          \<le> 1 / 2 ^ 44"
    by (rule abs_le_D2)
  ultimately show "e + 360 - w \<le> 200 + 1 / 2 ^ 43"
    by simp
qed

lemma area_admitted_longitudes:
  assumes "insert_area s NEW = Inr s'" "west_lon NEW = Some w" "east_lon NEW = Some e"
  shows "- 180 \<le> w \<and> w \<le> 180 \<and> - 180 \<le> e \<and> e \<le> 180"
proof -
  from assms(1) have cons: "area_constraints s NEW = None"
    by (simp add: area_admitted)
  note rule = run_rules_None_nth [OF cons [unfolded area_constraints_def]]
  from rule [of 5] rule [of 6] assms(2,3) show ?thesis
    by (simp add: check_holds_def sql_between_def sql_ge_def sql_simps)
qed

lemma area_with_rounded_span_insert:
  "insert_area initial_db area_with_rounded_span
     = Inr (initial_db\<lparr>area := [area_with_rounded_span]\<rparr>)"
  by (simp add: insert_area_def insert_row_def area_insert_trigger_def area_constraints_def
      initial_db_def area_with_rounded_span_def sql_simps has_key_def check_holds_def
      sql_between_def sql_ge_def sql_gt_def sql_not_def double_defs)

text \<open>
  C4, as stated, fails in two ways. The four bound columns are nullable and a comparison
  with \<^verbatim>\<open>NULL\<close> is not true, so for an area without bounds neither rule of the trigger
  fires and no \<^verbatim>\<open>CHECK\<close> fails. And the trigger computes \<open>east + 360 - west\<close> in double
  precision: for west 160 and east \<open>1 / 2 ^ 60\<close> the sum \<open>east + 360\<close> rounds to 360 and
  the computed span is 200, while the span itself is above 200 (the four bounds of this
  area are doubles). Both areas are admitted to the initial database, and the ordering
  of the bounds is true of neither.
\<close>

theorem areas_with_unordered_bounds_admitted:
  "insert_area initial_db area_without_bounds
     = Inr (initial_db\<lparr>area := [area_without_bounds]\<rparr>)
   \<and> \<not> area_bounds_ordered area_without_bounds
   \<and> insert_area initial_db area_with_rounded_span
     = Inr (initial_db\<lparr>area := [area_with_rounded_span]\<rparr>)
   \<and> list_all is_double [- 10, 10, 160, 1 / 2 ^ 60]
   \<and> \<not> area_bounds_ordered area_with_rounded_span"
proof -
  have "insert_area initial_db area_without_bounds
     = Inr (initial_db\<lparr>area := [area_without_bounds]\<rparr>)"
    by (simp add: insert_area_def insert_row_def area_insert_trigger_def area_constraints_def
        initial_db_def area_without_bounds_def sql_simps has_key_def
        check_holds_def sql_between_def sql_ge_def sql_gt_def sql_not_def)
  moreover have "\<not> area_bounds_ordered area_without_bounds"
    by (simp add: area_bounds_ordered_def area_without_bounds_def)
  moreover have "\<not> area_bounds_ordered area_with_rounded_span"
    by (simp add: area_bounds_ordered_def area_with_rounded_span_def)
  moreover have "list_all is_double [- 10, 10, 160, 1 / 2 ^ 60]"
    by (simp add: is_double_def double_defs)
  ultimately show ?thesis
    using area_with_rounded_span_insert by simp
qed

text \<open>
  C4, amended. For every admitted area the bounds that are present are ordered, the
  longitudes as the trigger computes: a present south latitude is at most a present
  north latitude, and present west and east longitudes satisfy \<open>west \<le> east\<close> or
  \<open>east + 360 - west \<le> 200\<close> with the sum and the difference each rounded to a double,
  so that the span \<open>east + 360 - west\<close> itself is at most \<open>200 + 1 / 2 ^ 43\<close>. An area
  with south 10 and north 5 is rejected by the trigger's first rule.
\<close>

theorem area_present_bounds_ordered:
  "(insert_area s NEW = Inr s' \<longrightarrow>
      (\<forall>sl nl. south_lat NEW = Some sl \<and> north_lat NEW = Some nl \<longrightarrow> sl \<le> nl)
      \<and> (\<forall>w e. west_lon NEW = Some w \<and> east_lon NEW = Some e \<longrightarrow>
            w \<le> e
            \<or> (round_to_double (round_to_double (e + 360) - w) \<le> 200
                \<and> e + 360 - w \<le> 200 + 1 / 2 ^ 43)))
   \<and> (south_lat NEW = Some 10 \<and> north_lat NEW = Some 5 \<longrightarrow>
        insert_area s NEW = Inl (Abort ''insert on area violates constraint: south_lat <= north_lat''))"
proof (intro conjI impI allI)
  fix sl nl
  assume "insert_area s NEW = Inr s'" and "south_lat NEW = Some sl \<and> north_lat NEW = Some nl"
  then have "area_insert_trigger s NEW = None" and "south_lat NEW = Some sl"
    and "north_lat NEW = Some nl"
    by (simp_all add: area_admitted)
  from run_rules_None_nth [OF this(1) [unfolded area_insert_trigger_def], of 0] this(2,3)
  show "sl \<le> nl"
    by (simp add: sql_simps sql_gt_def)
next
  fix w e
  assume admitted: "insert_area s NEW = Inr s'"
    and lon: "west_lon NEW = Some w \<and> east_lon NEW = Some e"
  from area_admitted_longitudes [OF admitted] lon
  have range: "- 180 \<le> w" "w \<le> 180" "- 180 \<le> e" "e \<le> 180"
    by simp_all
  from admitted have "area_insert_trigger s NEW = None"
    by (simp add: area_admitted)
  from run_rules_None_nth [OF this [unfolded area_insert_trigger_def], of 1] lon
  have "w \<le> e \<or> round_to_double (round_to_double (e + 360) - w) \<le> 200"
    by (auto simp: sql_simps area_span(1) [OF range, simplified])
  with area_span(2) [OF range]
  show "w \<le> e
        \<or> (round_to_double (round_to_double (e + 360) - w) \<le> 200
            \<and> e + 360 - w \<le> 200 + 1 / 2 ^ 43)"
    by blast
next
  assume "south_lat NEW = Some 10 \<and> north_lat NEW = Some 5"
  then show "insert_area s NEW = Inl (Abort ''insert on area violates constraint: south_lat <= north_lat'')"
    by (simp add: insert_area_def insert_row_def area_insert_trigger_def sql_simps sql_gt_def)
qed

theorem area_present_bounds_ordered_witness:
  "insert_area initial_db world = Inr (initial_db\<lparr>area := [world]\<rparr>)
   \<and> insert_area initial_db area_with_rounded_span
     = Inr (initial_db\<lparr>area := [area_with_rounded_span]\<rparr>)
   \<and> round_to_double (round_to_double (1 / 2 ^ 60 + 360) - 160) \<le> 200
   \<and> 1 / 2 ^ 60 + 360 - 160 \<le> (200 + 1 / 2 ^ 43 :: real)
   \<and> insert_area initial_db (world\<lparr>south_lat := Some 10, north_lat := Some 5\<rparr>)
     = Inl (Abort ''insert on area violates constraint: south_lat <= north_lat'')"
proof -
  have admitted: "insert_area initial_db world = Inr (initial_db\<lparr>area := [world]\<rparr>)"
    by (simp add: insert_area_def insert_row_def area_insert_trigger_def area_constraints_def
        initial_db_def world_def sql_simps has_key_def check_holds_def sql_between_def
        sql_ge_def sql_gt_def sql_not_def)
  have lon: "west_lon area_with_rounded_span = Some 160
      \<and> east_lon area_with_rounded_span = Some (1 / 2 ^ 60)"
    by (simp add: area_with_rounded_span_def)
  from area_present_bounds_ordered
      [of initial_db area_with_rounded_span
          "initial_db\<lparr>area := [area_with_rounded_span]\<rparr>"]
    area_with_rounded_span_insert
  have "\<forall>w e. west_lon area_with_rounded_span = Some w
          \<and> east_lon area_with_rounded_span = Some e \<longrightarrow>
            w \<le> e
            \<or> (round_to_double (round_to_double (e + 360) - w) \<le> 200
                \<and> e + 360 - w \<le> 200 + 1 / 2 ^ 43)"
    by blast
  from this [rule_format, OF lon]
  have "round_to_double (round_to_double (1 / 2 ^ 60 + 360) - 160) \<le> 200
        \<and> 1 / 2 ^ 60 + 360 - 160 \<le> (200 + 1 / 2 ^ 43 :: real)"
    by simp
  with area_present_bounds_ordered
      [of initial_db "world\<lparr>south_lat := Some 10, north_lat := Some 5\<rparr>"]
    admitted area_with_rounded_span_insert
  show ?thesis by (simp add: world_def)
qed


section \<open>Grid alternatives: format and method\<close>

lemma grid_alternatives_admitted_trigger:
  "insert_grid_alternatives s NEW = Inr s' \<Longrightarrow> grid_alternatives_insert_trigger s NEW = None"
  by (simp add: insert_grid_alternatives_def insert_row_Inr_iff)

text \<open>
  C7. An admitted grid alternative whose format is \<^verbatim>\<open>CTable2\<close>, \<^verbatim>\<open>NTv1\<close> or \<^verbatim>\<open>NTv2\<close>
  has the method \<^verbatim>\<open>hgridshift\<close>, and one whose format is \<^verbatim>\<open>GTX\<close> has the method
  \<^verbatim>\<open>vgridshift\<close>. Pairing a format with the other method aborts the insert with the
  message of the pairing rule, whatever the database holds.
\<close>

theorem grid_alternatives_format_method_pairing:
  "(insert_grid_alternatives s NEW = Inr s' \<longrightarrow>
      (proj_grid_format NEW \<in> {''CTable2'', ''NTv1'', ''NTv2''} \<longrightarrow> proj_method NEW = ''hgridshift'')
      \<and> (proj_grid_format NEW = ''GTX'' \<longrightarrow> proj_method NEW = ''vgridshift''))
   \<and> (proj_grid_format NEW \<in> {''CTable2'', ''NTv1'', ''NTv2''} \<and> proj_method NEW = ''vgridshift'' \<longrightarrow>
        insert_grid_alternatives s NEW
          = Inl (Abort (''insert on grid_alternatives violates constraint: proj_method must be ''
              @ quote ''hgridshift'' @ '' when proj_grid_format is '' @ quote ''CTable2''
              @ '', '' @ quote ''NTv1'' @ '', '' @ quote ''NTv2'')))
   \<and> (proj_grid_format NEW = ''GTX'' \<and> proj_method NEW = ''hgridshift'' \<longrightarrow>
        insert_grid_alternatives s NEW
          = Inl (Abort (''insert on grid_alternatives violates constraint: proj_method must be ''
              @ quote ''vridshift'' @ '' when proj_grid_format is '' @ quote ''GTX'')))"
proof (intro conjI impI)
  assume adm: "insert_grid_alternatives s NEW = Inr s'"
  then have none: "grid_alternatives_insert_trigger s NEW = None"
    by (rule grid_alternatives_admitted_trigger)
  {
    assume "proj_grid_format NEW \<in> {''CTable2'', ''NTv1'', ''NTv2''}"
    with none show "proj_method NEW = ''hgridshift''"
      unfolding grid_alternatives_insert_trigger_def run_rules_None_iff
      by (auto simp: sql_simps)
  }
  {
    assume "proj_grid_format NEW = ''GTX''"
    with none show "proj_method NEW = ''vgridshift''"
      unfolding grid_alternatives_insert_trigger_def run_rules_None_iff
      by (auto simp: sql_simps)
  }
next
  assume "proj_grid_format NEW \<in> {''CTable2'', ''NTv1'', ''NTv2''} \<and> proj_method NEW = ''vgridshift''"
  then show "insert_grid_alternatives s NEW
          = Inl (Abort (''insert on grid_alternatives violates constraint: proj_method must be ''
              @ quote ''hgridshift'' @ '' when proj_grid_format is '' @ quote ''CTable2''
              @ '', '' @ quote ''NTv1'' @ '', '' @ quote ''NTv2''))"
    by (auto simp: insert_grid_alternatives_def insert_row_def grid_alternatives_insert_trigger_def
        sql_simps)
next
  assume "proj_grid_format NEW = ''GTX'' \<and> proj_method NEW = ''hgridshift''"
  then show "insert_grid_alternatives s NEW
          = Inl (Abort (''insert on grid_alternatives violates constraint: proj_method must be ''
              @ quote ''vridshift'' @ '' when proj_grid_format is '' @ quote ''GTX''))"
    by (auto simp: insert_grid_alternatives_def insert_row_def grid_alternatives_insert_trigger_def
        sql_simps)
qed

theorem grid_alternatives_format_method_pairing_witness:
  "insert_grid_alternatives initial_db null_grid
     = Inr (initial_db\<lparr>grid_alternatives := [null_grid]\<rparr>)
   \<and> proj_grid_format null_grid = ''CTable2'' \<and> proj_method null_grid = ''hgridshift''
   \<and> insert_grid_alternatives initial_db (null_grid\<lparr>proj_method := ''vgridshift''\<rparr>)
     = Inl (Abort (''insert on grid_alternatives violates constraint: proj_method must be ''
              @ quote ''hgridshift'' @ '' when proj_grid_format is '' @ quote ''CTable2''
              @ '', '' @ quote ''NTv1'' @ '', '' @ quote ''NTv2''))
   \<and> insert_grid_alternatives initial_db (null_grid\<lparr>proj_grid_format := ''GTX''\<rparr>)
     = Inl (Abort (''insert on grid_alternatives violates constraint: proj_method must be ''
              @ quote ''vridshift'' @ '' when proj_grid_format is '' @ quote ''GTX''))
   \<and> insert_grid_alternatives initial_db
         (null_grid\<lparr>proj_grid_format := ''GTX'', proj_method := ''vgridshift''\<rparr>)
     = Inr (initial_db\<lparr>grid_alternatives :=
         [null_grid\<lparr>proj_grid_format := ''GTX'', proj_method := ''vgridshift''\<rparr>]\<rparr>)"
proof -
  have admitted: "insert_grid_alternatives initial_db null_grid
      = Inr (initial_db\<lparr>grid_alternatives := [null_grid]\<rparr>)"
    by (simp add: insert_grid_alternatives_def insert_row_def
        grid_alternatives_insert_trigger_def grid_alternatives_constraints_def
        initial_db_def null_grid_def sql_simps)
  have admitted_gtx: "insert_grid_alternatives initial_db
         (null_grid\<lparr>proj_grid_format := ''GTX'', proj_method := ''vgridshift''\<rparr>)
     = Inr (initial_db\<lparr>grid_alternatives :=
         [null_grid\<lparr>proj_grid_format := ''GTX'', proj_method := ''vgridshift''\<rparr>]\<rparr>)"
    by (simp add: insert_grid_alternatives_def insert_row_def
        grid_alternatives_insert_trigger_def grid_alternatives_constraints_def
        initial_db_def null_grid_def sql_simps)
  from grid_alternatives_format_method_pairing
      [of initial_db null_grid "initial_db\<lparr>grid_alternatives := [null_grid]\<rparr>"]
    grid_alternatives_format_method_pairing
      [of initial_db "null_grid\<lparr>proj_method := ''vgridshift''\<rparr>"]
    grid_alternatives_format_method_pairing
      [of initial_db "null_grid\<lparr>proj_grid_format := ''GTX''\<rparr>"]
    admitted admitted_gtx
  show ?thesis by (simp add: null_grid_def)
qed


section \<open>Geodetic CRS: coordinate system and CRS type\<close>

lemma geodetic_crs_admitted:
  "insert_geodetic_crs s NEW = Inr s' \<Longrightarrow>
     geodetic_crs_insert_trigger s NEW = None \<and> geodetic_crs_constraints s NEW = None"
  by (simp add: insert_geodetic_crs_def insert_row_Inr_iff)

lemma geodetic_crs_structured_coordinate_system:
  assumes "insert_geodetic_crs s NEW = Inr s'" and "geodetic_crs.text_definition NEW = None"
  shows "\<exists>t d. coordinate_system_type s (geodetic_crs.coordinate_system_auth_name NEW)
                  (geodetic_crs.coordinate_system_code NEW) = Some t
             \<and> coordinate_system_dimension s (geodetic_crs.coordinate_system_auth_name NEW)
                  (geodetic_crs.coordinate_system_code NEW) = Some d"
proof -
  from assms have trig: "geodetic_crs_insert_trigger s NEW = None"
    and cons: "geodetic_crs_constraints s NEW = None"
    by (auto dest: geodetic_crs_admitted)
  from trig assms(2) obtain a c where
    ac: "geodetic_crs.coordinate_system_auth_name NEW = Some a"
        "geodetic_crs.coordinate_system_code NEW = Some c"
    unfolding geodetic_crs_insert_trigger_def run_rules_None_iff
    by (auto simp: sql_simps)
  with cons have "has_key (coordinate_system s) a c"
    unfolding geodetic_crs_constraints_def run_rules_None_iff
    by (simp add: fk_violated_iff)
  then show ?thesis
    using select_scalar_has_key [of "coordinate_system s" a c coordinate_system.type]
      select_scalar_has_key [of "coordinate_system s" a c dimension]
    by (simp add: coordinate_system_type_def coordinate_system_dimension_def ac)
qed

lemma geodetic_crs_structured_rules:
  assumes adm: "insert_geodetic_crs s NEW = Inr s'"
    and str: "geodetic_crs.text_definition NEW = None"
  shows "\<exists>t d. coordinate_system_type s (geodetic_crs.coordinate_system_auth_name NEW)
                (geodetic_crs.coordinate_system_code NEW) = Some t
           \<and> coordinate_system_dimension s (geodetic_crs.coordinate_system_auth_name NEW)
                (geodetic_crs.coordinate_system_code NEW) = Some d
           \<and> (geodetic_crs.type NEW = ''geocentric'' \<longrightarrow> t = ''Cartesian'' \<and> d = 3)
           \<and> (geodetic_crs.type NEW = ''geographic 2D'' \<longrightarrow>
                 t = ''ellipsoidal'' \<and> (\<not> geodetic_crs.deprecated NEW \<longrightarrow> d = 2))
           \<and> (geodetic_crs.type NEW = ''geographic 3D'' \<longrightarrow> t = ''ellipsoidal'' \<and> d = 3)"
proof -
  from geodetic_crs_structured_coordinate_system [OF adm str] obtain t d where
    t: "coordinate_system_type s (geodetic_crs.coordinate_system_auth_name NEW)
              (geodetic_crs.coordinate_system_code NEW) = Some t"
    and d: "coordinate_system_dimension s (geodetic_crs.coordinate_system_auth_name NEW)
              (geodetic_crs.coordinate_system_code NEW) = Some d"
    by blast
  from adm have trig: "geodetic_crs_insert_trigger s NEW = None"
    by (simp add: geodetic_crs_admitted)
  note rule = run_rules_None_nth [OF trig [unfolded geodetic_crs_insert_trigger_def]]
  from rule [of 8] rule [of 9] rule [of 10] rule [of 11] rule [of 12]
  have "(geodetic_crs.type NEW = ''geocentric'' \<longrightarrow> t = ''Cartesian'' \<and> d = 3)
         \<and> (geodetic_crs.type NEW = ''geographic 2D'' \<longrightarrow>
               t = ''ellipsoidal'' \<and> (\<not> geodetic_crs.deprecated NEW \<longrightarrow> d = 2))
         \<and> (geodetic_crs.type NEW = ''geographic 3D'' \<longrightarrow> t = ''ellipsoidal'' \<and> d = 3)"
    by (auto simp: sql_simps t d)
  with t d show ?thesis by blast
qed

text \<open>
  C9, as stated, fails: the rule "coordinate_system.dimension must be 2 for type =
  'geographic 2D'" carries the guard \<^verbatim>\<open>NEW.deprecated != 1\<close>. A deprecated geographic 2D
  CRS with a structured definition over the ellipsoidal system of dimension 3 is
  admitted to the example database.
\<close>

theorem deprecated_geographic_2D_on_3D_system_admitted:
  "insert_geodetic_crs example_db deprecated_2d_on_3d_system
     = Inr (example_db\<lparr>geodetic_crs := geodetic_crs example_db @ [deprecated_2d_on_3d_system]\<rparr>)
   \<and> geodetic_crs.text_definition deprecated_2d_on_3d_system = None
   \<and> \<not> coordinate_system_matches_crs_type example_db deprecated_2d_on_3d_system"
  by (simp add: insert_geodetic_crs_def geodetic_crs_insert_trigger_def
      geodetic_crs_constraints_def crs_view_def coordinate_system_matches_crs_type_def
      deprecated_2d_on_3d_system_def example_defs eval_defs)

text \<open>
  C9, amended. For every geodetic CRS admitted with a structured definition
  (\<open>text_definition\<close> is \<^verbatim>\<open>NULL\<close>) the referenced coordinate system exists, and:
  geocentric requires Cartesian of dimension 3; geographic 2D requires ellipsoidal, and
  dimension 2 when the CRS is not deprecated; geographic 3D requires ellipsoidal of
  dimension 3. Outside the deprecated geographic 2D case that is the property of the
  specification. A structured insert that violates the amended property is rejected.
\<close>

theorem geodetic_crs_coordinate_system_matches_unless_deprecated_2D:
  "(insert_geodetic_crs s NEW = Inr s' \<and> geodetic_crs.text_definition NEW = None \<longrightarrow>
      (\<exists>t d. coordinate_system_type s (geodetic_crs.coordinate_system_auth_name NEW)
                (geodetic_crs.coordinate_system_code NEW) = Some t
           \<and> coordinate_system_dimension s (geodetic_crs.coordinate_system_auth_name NEW)
                (geodetic_crs.coordinate_system_code NEW) = Some d
           \<and> (geodetic_crs.type NEW = ''geocentric'' \<longrightarrow> t = ''Cartesian'' \<and> d = 3)
           \<and> (geodetic_crs.type NEW = ''geographic 2D'' \<longrightarrow>
                 t = ''ellipsoidal'' \<and> (\<not> geodetic_crs.deprecated NEW \<longrightarrow> d = 2))
           \<and> (geodetic_crs.type NEW = ''geographic 3D'' \<longrightarrow> t = ''ellipsoidal'' \<and> d = 3)))
   \<and> (insert_geodetic_crs s NEW = Inr s' \<and> geodetic_crs.text_definition NEW = None
        \<and> (geodetic_crs.type NEW \<noteq> ''geographic 2D'' \<or> \<not> geodetic_crs.deprecated NEW) \<longrightarrow>
        coordinate_system_matches_crs_type s NEW)
   \<and> (geodetic_crs.text_definition NEW = None
        \<and> \<not> (\<exists>t d. coordinate_system_type s (geodetic_crs.coordinate_system_auth_name NEW)
                (geodetic_crs.coordinate_system_code NEW) = Some t
           \<and> coordinate_system_dimension s (geodetic_crs.coordinate_system_auth_name NEW)
                (geodetic_crs.coordinate_system_code NEW) = Some d
           \<and> (geodetic_crs.type NEW = ''geocentric'' \<longrightarrow> t = ''Cartesian'' \<and> d = 3)
           \<and> (geodetic_crs.type NEW = ''geographic 2D'' \<longrightarrow>
                 t = ''ellipsoidal'' \<and> (\<not> geodetic_crs.deprecated NEW \<longrightarrow> d = 2))
           \<and> (geodetic_crs.type NEW = ''geographic 3D'' \<longrightarrow> t = ''ellipsoidal'' \<and> d = 3))
        \<longrightarrow> (\<exists>e. insert_geodetic_crs s NEW = Inl e))"
proof (intro conjI impI)
  assume "insert_geodetic_crs s NEW = Inr s' \<and> geodetic_crs.text_definition NEW = None"
  then show "\<exists>t d. coordinate_system_type s (geodetic_crs.coordinate_system_auth_name NEW)
                (geodetic_crs.coordinate_system_code NEW) = Some t
           \<and> coordinate_system_dimension s (geodetic_crs.coordinate_system_auth_name NEW)
                (geodetic_crs.coordinate_system_code NEW) = Some d
           \<and> (geodetic_crs.type NEW = ''geocentric'' \<longrightarrow> t = ''Cartesian'' \<and> d = 3)
           \<and> (geodetic_crs.type NEW = ''geographic 2D'' \<longrightarrow>
                 t = ''ellipsoidal'' \<and> (\<not> geodetic_crs.deprecated NEW \<longrightarrow> d = 2))
           \<and> (geodetic_crs.type NEW = ''geographic 3D'' \<longrightarrow> t = ''ellipsoidal'' \<and> d = 3)"
    by (blast intro: geodetic_crs_structured_rules)
next
  assume "insert_geodetic_crs s NEW = Inr s' \<and> geodetic_crs.text_definition NEW = None
        \<and> (geodetic_crs.type NEW \<noteq> ''geographic 2D'' \<or> \<not> geodetic_crs.deprecated NEW)"
  then show "coordinate_system_matches_crs_type s NEW"
    using geodetic_crs_structured_rules [of s NEW s']
    by (auto simp: coordinate_system_matches_crs_type_def Let_def)
next
  assume viol: "geodetic_crs.text_definition NEW = None
        \<and> \<not> (\<exists>t d. coordinate_system_type s (geodetic_crs.coordinate_system_auth_name NEW)
                (geodetic_crs.coordinate_system_code NEW) = Some t
           \<and> coordinate_system_dimension s (geodetic_crs.coordinate_system_auth_name NEW)
                (geodetic_crs.coordinate_system_code NEW) = Some d
           \<and> (geodetic_crs.type NEW = ''geocentric'' \<longrightarrow> t = ''Cartesian'' \<and> d = 3)
           \<and> (geodetic_crs.type NEW = ''geographic 2D'' \<longrightarrow>
                 t = ''ellipsoidal'' \<and> (\<not> geodetic_crs.deprecated NEW \<longrightarrow> d = 2))
           \<and> (geodetic_crs.type NEW = ''geographic 3D'' \<longrightarrow> t = ''ellipsoidal'' \<and> d = 3))"
  show "\<exists>e. insert_geodetic_crs s NEW = Inl e"
  proof (cases "insert_geodetic_crs s NEW")
    case (Inl e)
    then show ?thesis by blast
  next
    case (Inr s'')
    with viol geodetic_crs_structured_rules [of s NEW s''] show ?thesis by blast
  qed
qed

theorem geodetic_crs_coordinate_system_matches_unless_deprecated_2D_witness:
  "insert_geodetic_crs example_db wgs84_3d
     = Inr (example_db\<lparr>geodetic_crs := geodetic_crs example_db @ [wgs84_3d]\<rparr>)
   \<and> geodetic_crs.text_definition wgs84_3d = None
   \<and> geodetic_crs.type wgs84_3d = ''geographic 3D''
   \<and> coordinate_system_matches_crs_type example_db wgs84_3d
   \<and> (\<exists>e. insert_geodetic_crs example_db
             (wgs84_3d\<lparr>geodetic_crs.coordinate_system_code := Some ''6422''\<rparr>) = Inl e)"
proof -
  have admitted: "insert_geodetic_crs example_db wgs84_3d
      = Inr (example_db\<lparr>geodetic_crs := geodetic_crs example_db @ [wgs84_3d]\<rparr>)"
    by (simp add: insert_geodetic_crs_def geodetic_crs_insert_trigger_def
        geodetic_crs_constraints_def crs_view_def wgs84_3d_def example_defs eval_defs)
  have structured: "geodetic_crs.text_definition wgs84_3d = None"
      "geodetic_crs.type wgs84_3d = ''geographic 3D''"
      "\<not> geodetic_crs.deprecated wgs84_3d"
    by (simp_all add: wgs84_3d_def wgs84_def)
  have mismatch: "coordinate_system_dimension example_db
        (geodetic_crs.coordinate_system_auth_name
           (wgs84_3d\<lparr>geodetic_crs.coordinate_system_code := Some ''6422''\<rparr>))
        (geodetic_crs.coordinate_system_code
           (wgs84_3d\<lparr>geodetic_crs.coordinate_system_code := Some ''6422''\<rparr>)) = Some 2"
    by (simp add: wgs84_3d_def example_defs eval_defs)
  from geodetic_crs_coordinate_system_matches_unless_deprecated_2D
      [of example_db wgs84_3d
          "example_db\<lparr>geodetic_crs := geodetic_crs example_db @ [wgs84_3d]\<rparr>"]
    geodetic_crs_coordinate_system_matches_unless_deprecated_2D
      [of example_db "wgs84_3d\<lparr>geodetic_crs.coordinate_system_code := Some ''6422''\<rparr>"]
    admitted structured mismatch
  show ?thesis by (auto simp: wgs84_3d_def wgs84_def)
qed

section \<open>Geodetic CRS: deprecated datum or area\<close>

text \<open>
  C1. The two rules of \<^verbatim>\<open>geodetic_crs_insert_trigger\<close> that carry the messages "datum
  must not be deprecated when geodetic_crs is not deprecated" and "area_of_use must not
  be deprecated when geodetic_crs is not deprecated" end in
  \<^verbatim>\<open>AND NEW.text_definition IS NOT NULL\<close>: they skip every structured definition.
  A structured, non-deprecated geodetic CRS that references the deprecated datum, and
  one that references the deprecated area, are both admitted to the example database.
\<close>

theorem geodetic_crs_on_deprecated_datum_or_area_admitted:
  "insert_geodetic_crs example_db crs_on_retired_datum
     = Inr (example_db\<lparr>geodetic_crs := geodetic_crs example_db @ [crs_on_retired_datum]\<rparr>)
   \<and> insert_geodetic_crs example_db crs_on_retired_area
     = Inr (example_db\<lparr>geodetic_crs := geodetic_crs example_db @ [crs_on_retired_area]\<rparr>)
   \<and> \<not> geodetic_crs.deprecated crs_on_retired_datum
   \<and> geodetic_crs.text_definition crs_on_retired_datum = None
   \<and> geodetic_crs.datum_auth_name crs_on_retired_datum = Some (auth_name retired_datum)
   \<and> geodetic_crs.datum_code crs_on_retired_datum = Some (code retired_datum)
   \<and> retired_datum \<in> set (geodetic_datum example_db)
   \<and> geodetic_datum.deprecated retired_datum
   \<and> \<not> geodetic_crs.deprecated crs_on_retired_area
   \<and> geodetic_crs.text_definition crs_on_retired_area = None
   \<and> geodetic_crs.area_of_use_auth_name crs_on_retired_area = Some (auth_name retired_area)
   \<and> geodetic_crs.area_of_use_code crs_on_retired_area = Some (code retired_area)
   \<and> retired_area \<in> set (area example_db)
   \<and> area.deprecated retired_area"
  by (simp add: insert_geodetic_crs_def geodetic_crs_insert_trigger_def
      geodetic_crs_constraints_def crs_view_def
      crs_on_retired_datum_def crs_on_retired_area_def example_defs eval_defs)

text \<open>
  The datum rule can never fire: when \<open>text_definition\<close> is set and the datum columns
  are too, the earlier rule "datum must NOT be defined when text_definition is NOT NULL"
  aborts first.
\<close>

lemma geodetic_crs_constraints_not_Abort:
  "geodetic_crs_constraints s NEW \<noteq> Some (Abort m)"
proof
  assume "geodetic_crs_constraints s NEW = Some (Abort m)"
  from run_rules_SomeD [OF this [unfolded geodetic_crs_constraints_def]]
  show False by simp
qed

lemma geodetic_crs_datum_rule_never_fires:
  "insert_geodetic_crs s NEW \<noteq> Inl (Abort ''insert on geodetic_crs violates constraint: datum must not be deprecated when geodetic_crs is not deprecated'')"
proof
  assume "insert_geodetic_crs s NEW = Inl (Abort ''insert on geodetic_crs violates constraint: datum must not be deprecated when geodetic_crs is not deprecated'')"
  then have "geodetic_crs_insert_trigger s NEW = Some (Abort ''insert on geodetic_crs violates constraint: datum must not be deprecated when geodetic_crs is not deprecated'')"
    by (simp add: insert_geodetic_crs_def insert_row_Inl_iff geodetic_crs_constraints_not_Abort)
  then show False
    unfolding geodetic_crs_insert_trigger_def
    by (auto simp: sql_simps quote_def split: if_splits)
qed

section \<open>Vertical CRS: the deprecated datum rule\<close>

lemma vertical_crs_constraints_not_Abort:
  "vertical_crs_constraints s NEW \<noteq> Some (Abort m)"
proof
  assume "vertical_crs_constraints s NEW = Some (Abort m)"
  from run_rules_SomeD [OF this [unfolded vertical_crs_constraints_def]]
  show False by simp
qed

lemma has_key_map_keep_key:
  assumes "\<And>r. auth_name (f r) = auth_name r" "\<And>r. code (f r) = code r"
  shows "has_key (map f rows) a c = has_key rows a c"
  using assms by (simp add: has_key_iff)

text \<open>
  When the rule with the message "datum must not be deprecated when vertical_crs is not
  deprecated" rejects an insert: the key is new in \<^verbatim>\<open>crs_view\<close> (or the first rule would
  have fired), the new CRS is not deprecated, and \<^verbatim>\<open>vertical_crs\<close> holds a deprecated row
  whose key is the new row's datum reference.
\<close>

lemma vertical_crs_datum_rule:
  "insert_vertical_crs s NEW = Inl (Abort ''insert on vertical_crs violates constraint: datum must not be deprecated when vertical_crs is not deprecated'')
     \<longleftrightarrow> \<not> has_key (crs_view s) (auth_name NEW) (code NEW)
         \<and> \<not> vertical_crs.deprecated NEW
         \<and> (\<exists>r\<in>set (vertical_crs s). auth_name r = vertical_crs.datum_auth_name NEW
                \<and> code r = vertical_crs.datum_code NEW \<and> vertical_crs.deprecated r)"
  by (auto simp: insert_vertical_crs_def insert_row_Inl_iff vertical_crs_constraints_not_Abort
      vertical_crs_insert_trigger_def sql_simps quote_def has_key_iff)

text \<open>What admits a vertical CRS: no rule of the trigger fires and every constraint holds.\<close>

lemma vertical_crs_admitted:
  "insert_vertical_crs s NEW = Inr s' \<longleftrightarrow>
     s' = s\<lparr>vertical_crs := vertical_crs s @ [NEW]\<rparr>
     \<and> \<not> has_key (crs_view s) (auth_name NEW) (code NEW)
     \<and> (vertical_crs.deprecated NEW
          \<or> \<not> (\<exists>r\<in>set (vertical_crs s). auth_name r = vertical_crs.datum_auth_name NEW
                  \<and> code r = vertical_crs.datum_code NEW \<and> vertical_crs.deprecated r))
     \<and> (vertical_crs.deprecated NEW
          \<or> \<not> (\<exists>a\<in>set (area s). auth_name a = vertical_crs.area_of_use_auth_name NEW
                  \<and> code a = vertical_crs.area_of_use_code NEW \<and> area.deprecated a))
     \<and> coordinate_system_type s (Some (vertical_crs.coordinate_system_auth_name NEW))
          (Some (vertical_crs.coordinate_system_code NEW)) = Some ''vertical''
     \<and> coordinate_system_dimension s (Some (vertical_crs.coordinate_system_auth_name NEW))
          (Some (vertical_crs.coordinate_system_code NEW)) = Some 1
     \<and> has_key (vertical_datum s) (vertical_crs.datum_auth_name NEW)
          (vertical_crs.datum_code NEW)
     \<and> has_key (area s) (vertical_crs.area_of_use_auth_name NEW)
          (vertical_crs.area_of_use_code NEW)
     \<and> 1 \<le> text_length (auth_name NEW) \<and> 1 \<le> text_length (code NEW)
     \<and> 2 \<le> text_length (vertical_crs.name NEW)"
  (is "?admitted \<longleftrightarrow> ?conditions")
proof
  assume ?admitted
  then have trig: "vertical_crs_insert_trigger s NEW = None"
    and cons: "vertical_crs_constraints s NEW = None"
    and s': "s' = s\<lparr>vertical_crs := vertical_crs s @ [NEW]\<rparr>"
    by (simp_all add: insert_vertical_crs_def insert_row_Inr_iff)
  note t = run_rules_None_nth [OF trig [unfolded vertical_crs_insert_trigger_def]]
  note c = run_rules_None_nth [OF cons [unfolded vertical_crs_constraints_def]]
  from c [of 4] have cs: "has_key (coordinate_system s)
      (vertical_crs.coordinate_system_auth_name NEW) (vertical_crs.coordinate_system_code NEW)"
    by (simp add: fk_violated_iff)
  from select_scalar_has_key [OF cs, of coordinate_system.type] t [of 3]
  have type: "coordinate_system_type s (Some (vertical_crs.coordinate_system_auth_name NEW))
          (Some (vertical_crs.coordinate_system_code NEW)) = Some ''vertical''"
    by (auto simp: coordinate_system_type_def sql_simps)
  from select_scalar_has_key [OF cs, of coordinate_system.dimension] t [of 4]
  have dim: "coordinate_system_dimension s (Some (vertical_crs.coordinate_system_auth_name NEW))
          (Some (vertical_crs.coordinate_system_code NEW)) = Some 1"
    by (auto simp: coordinate_system_dimension_def sql_simps)
  from t [of 0] have key: "\<not> has_key (crs_view s) (auth_name NEW) (code NEW)"
    by (simp add: is_true_exists_key)
  from t [of 1] have datum: "vertical_crs.deprecated NEW
          \<or> \<not> (\<exists>r\<in>set (vertical_crs s). auth_name r = vertical_crs.datum_auth_name NEW
                  \<and> code r = vertical_crs.datum_code NEW \<and> vertical_crs.deprecated r)"
    by (auto simp: sql_simps)
  from t [of 2] have area: "vertical_crs.deprecated NEW
          \<or> \<not> (\<exists>a\<in>set (area s). auth_name a = vertical_crs.area_of_use_auth_name NEW
                  \<and> code a = vertical_crs.area_of_use_code NEW \<and> area.deprecated a)"
    by (auto simp: sql_simps)
  from c [of 0] c [of 1] c [of 2] c [of 5] c [of 6]
  have "has_key (vertical_datum s) (vertical_crs.datum_auth_name NEW)
          (vertical_crs.datum_code NEW)
     \<and> has_key (area s) (vertical_crs.area_of_use_auth_name NEW)
          (vertical_crs.area_of_use_code NEW)
     \<and> 1 \<le> text_length (auth_name NEW) \<and> 1 \<le> text_length (code NEW)
     \<and> 2 \<le> text_length (vertical_crs.name NEW)"
    by (simp add: fk_violated_iff)
  with s' key datum area type dim show ?conditions
    by blast
next
  assume c: ?conditions
  then have cs: "has_key (coordinate_system s) (vertical_crs.coordinate_system_auth_name NEW)
      (vertical_crs.coordinate_system_code NEW)"
    by (auto simp: coordinate_system_type_def dest: select_scalar_SomeD)
  from c have pk: "\<not> has_key (vertical_crs s) (auth_name NEW) (code NEW)"
    by (simp add: has_key_crs_view)
  have trig: "vertical_crs_insert_trigger s NEW = None"
    using c unfolding vertical_crs_insert_trigger_def run_rules_None_iff
    by (auto simp: sql_simps has_key_iff)
  have cons: "vertical_crs_constraints s NEW = None"
    using c cs pk unfolding vertical_crs_constraints_def run_rules_None_iff
    by (simp add: fk_violated_iff)
  from c show ?admitted
    by (simp add: insert_vertical_crs_def insert_row_def trig cons)
qed

lemma height_on_retired_datum_and_area_insert:
  "insert_vertical_crs example_db height_on_retired_datum_and_area
     = Inl (Abort ''insert on vertical_crs violates constraint: area_of_use must not be deprecated when vertical_crs is not deprecated'')"
  by (simp add: insert_vertical_crs_def vertical_crs_insert_trigger_def
      height_on_retired_datum_and_area_def height_on_retired_datum_def
      example_defs eval_defs crs_view_def)

text \<open>
  C10, as stated, fails in its last clause: a state with a deprecated vertical datum
  \<open>D\<close> and no vertical CRS with the key of \<open>D\<close> does not admit every non-deprecated
  vertical CRS that references \<open>D\<close>, because the other rules of the trigger and the
  constraints of the table still apply. The example database holds the deprecated datum
  \<^verbatim>\<open>EPSG:5000\<close> and no vertical CRS; the non-deprecated vertical CRS \<^verbatim>\<open>EPSG:5700\<close> on
  that datum and on the deprecated area \<^verbatim>\<open>EPSG:1000\<close> is rejected by the rule on the
  area.
\<close>

theorem vertical_crs_on_deprecated_datum_rejected_for_its_area:
  "retired_vertical_datum \<in> set (vertical_datum example_db)
   \<and> vertical_datum.deprecated retired_vertical_datum
   \<and> \<not> has_key (vertical_crs example_db) (auth_name retired_vertical_datum)
         (code retired_vertical_datum)
   \<and> vertical_crs.datum_auth_name height_on_retired_datum_and_area
       = auth_name retired_vertical_datum
   \<and> vertical_crs.datum_code height_on_retired_datum_and_area = code retired_vertical_datum
   \<and> \<not> vertical_crs.deprecated height_on_retired_datum_and_area
   \<and> insert_vertical_crs example_db height_on_retired_datum_and_area
     = Inl (Abort ''insert on vertical_crs violates constraint: area_of_use must not be deprecated when vertical_crs is not deprecated'')"
  using height_on_retired_datum_and_area_insert
  by (simp add: height_on_retired_datum_and_area_def height_on_retired_datum_def
      example_defs has_key_def)

text \<open>
  C10, amended. The rule "datum must not be deprecated when vertical_crs is not
  deprecated" looks the datum's key up in \<^verbatim>\<open>vertical_crs\<close>, not in \<^verbatim>\<open>vertical_datum\<close>: it
  rejects an insert exactly when the new key is not in \<^verbatim>\<open>crs_view\<close>, the new CRS is not
  deprecated and \<^verbatim>\<open>vertical_crs\<close> holds a deprecated row whose key is the datum reference
  of the new row. The \<open>deprecated\<close> flags of the vertical datums have no influence on
  whether, and with which error, an insert is rejected. So when the database holds a
  deprecated vertical datum \<open>D\<close> and no vertical CRS with the key of \<open>D\<close>, a
  non-deprecated vertical CRS that references \<open>D\<close> is never rejected by that rule, and
  it is admitted exactly when the other rules and the constraints hold: its key is new
  in \<^verbatim>\<open>crs_view\<close>, its area exists and no deprecated area has the area's key, its
  coordinate system is vertical of dimension 1, and the three \<^verbatim>\<open>CHECK\<close>s on the text
  columns pass.
\<close>

theorem vertical_crs_datum_rule_reads_vertical_crs:
  "(insert_vertical_crs s NEW = Inl (Abort ''insert on vertical_crs violates constraint: datum must not be deprecated when vertical_crs is not deprecated'')
      \<longleftrightarrow> \<not> has_key (crs_view s) (auth_name NEW) (code NEW)
          \<and> \<not> vertical_crs.deprecated NEW
          \<and> (\<exists>r\<in>set (vertical_crs s). auth_name r = vertical_crs.datum_auth_name NEW
                 \<and> code r = vertical_crs.datum_code NEW \<and> vertical_crs.deprecated r))
   \<and> (insert_vertical_crs
         (s\<lparr>vertical_datum :=
              map (\<lambda>d. d\<lparr>vertical_datum.deprecated := flag d\<rparr>) (vertical_datum s)\<rparr>) NEW = Inl e
        \<longleftrightarrow> insert_vertical_crs s NEW = Inl e)
   \<and> (D \<in> set (vertical_datum s) \<and> vertical_datum.deprecated D
        \<and> \<not> has_key (vertical_crs s) (auth_name D) (code D)
        \<and> vertical_crs.datum_auth_name NEW = auth_name D
        \<and> vertical_crs.datum_code NEW = code D
        \<and> \<not> vertical_crs.deprecated NEW \<longrightarrow>
        insert_vertical_crs s NEW \<noteq> Inl (Abort ''insert on vertical_crs violates constraint: datum must not be deprecated when vertical_crs is not deprecated'')
        \<and> (insert_vertical_crs s NEW = Inr (s\<lparr>vertical_crs := vertical_crs s @ [NEW]\<rparr>)
             \<longleftrightarrow> \<not> has_key (crs_view s) (auth_name NEW) (code NEW)
                 \<and> has_key (area s) (vertical_crs.area_of_use_auth_name NEW)
                      (vertical_crs.area_of_use_code NEW)
                 \<and> (\<forall>a\<in>set (area s). auth_name a = vertical_crs.area_of_use_auth_name NEW
                        \<and> code a = vertical_crs.area_of_use_code NEW \<longrightarrow> \<not> area.deprecated a)
                 \<and> coordinate_system_type s
                      (Some (vertical_crs.coordinate_system_auth_name NEW))
                      (Some (vertical_crs.coordinate_system_code NEW)) = Some ''vertical''
                 \<and> coordinate_system_dimension s
                      (Some (vertical_crs.coordinate_system_auth_name NEW))
                      (Some (vertical_crs.coordinate_system_code NEW)) = Some 1
                 \<and> 1 \<le> text_length (auth_name NEW) \<and> 1 \<le> text_length (code NEW)
                 \<and> 2 \<le> text_length (vertical_crs.name NEW)))"
proof (intro conjI impI)
  show "insert_vertical_crs s NEW = Inl (Abort ''insert on vertical_crs violates constraint: datum must not be deprecated when vertical_crs is not deprecated'')
      \<longleftrightarrow> \<not> has_key (crs_view s) (auth_name NEW) (code NEW)
          \<and> \<not> vertical_crs.deprecated NEW
          \<and> (\<exists>r\<in>set (vertical_crs s). auth_name r = vertical_crs.datum_auth_name NEW
                 \<and> code r = vertical_crs.datum_code NEW \<and> vertical_crs.deprecated r)"
    by (rule vertical_crs_datum_rule)
next
  show "insert_vertical_crs
       (s\<lparr>vertical_datum :=
            map (\<lambda>d. d\<lparr>vertical_datum.deprecated := flag d\<rparr>) (vertical_datum s)\<rparr>) NEW = Inl e
      \<longleftrightarrow> insert_vertical_crs s NEW = Inl e"
    by (simp add: insert_vertical_crs_def insert_row_Inl_iff vertical_crs_insert_trigger_def
        vertical_crs_constraints_def crs_view_def coordinate_system_type_def
        coordinate_system_dimension_def has_key_map_keep_key)
next
  assume hyp: "D \<in> set (vertical_datum s) \<and> vertical_datum.deprecated D
        \<and> \<not> has_key (vertical_crs s) (auth_name D) (code D)
        \<and> vertical_crs.datum_auth_name NEW = auth_name D
        \<and> vertical_crs.datum_code NEW = code D
        \<and> \<not> vertical_crs.deprecated NEW"
  then have no_row: "\<not> (\<exists>r\<in>set (vertical_crs s). auth_name r = vertical_crs.datum_auth_name NEW
      \<and> code r = vertical_crs.datum_code NEW \<and> vertical_crs.deprecated r)"
    by (auto simp: has_key_iff)
  then show "insert_vertical_crs s NEW \<noteq> Inl (Abort ''insert on vertical_crs violates constraint: datum must not be deprecated when vertical_crs is not deprecated'')"
    by (simp only: vertical_crs_datum_rule) blast
  from hyp have datum: "has_key (vertical_datum s) (vertical_crs.datum_auth_name NEW)
      (vertical_crs.datum_code NEW)"
    by (auto simp: has_key_iff)
  from hyp no_row datum
  show "insert_vertical_crs s NEW = Inr (s\<lparr>vertical_crs := vertical_crs s @ [NEW]\<rparr>)
             \<longleftrightarrow> \<not> has_key (crs_view s) (auth_name NEW) (code NEW)
                 \<and> has_key (area s) (vertical_crs.area_of_use_auth_name NEW)
                      (vertical_crs.area_of_use_code NEW)
                 \<and> (\<forall>a\<in>set (area s). auth_name a = vertical_crs.area_of_use_auth_name NEW
                        \<and> code a = vertical_crs.area_of_use_code NEW \<longrightarrow> \<not> area.deprecated a)
                 \<and> coordinate_system_type s
                      (Some (vertical_crs.coordinate_system_auth_name NEW))
                      (Some (vertical_crs.coordinate_system_code NEW)) = Some ''vertical''
                 \<and> coordinate_system_dimension s
                      (Some (vertical_crs.coordinate_system_auth_name NEW))
                      (Some (vertical_crs.coordinate_system_code NEW)) = Some 1
                 \<and> 1 \<le> text_length (auth_name NEW) \<and> 1 \<le> text_length (code NEW)
                 \<and> 2 \<le> text_length (vertical_crs.name NEW)"
    unfolding vertical_crs_admitted by blast
qed

lemma retired_height_insert:
  "insert_vertical_crs example_db retired_height
     = Inr (example_db\<lparr>vertical_crs := [retired_height]\<rparr>)"
  by (simp add: insert_vertical_crs_def vertical_crs_insert_trigger_def
      vertical_crs_constraints_def retired_height_def height_on_retired_datum_def
      example_defs eval_defs crs_view_def)

theorem vertical_crs_datum_rule_reads_vertical_crs_witness:
  "retired_vertical_datum \<in> set (vertical_datum example_db)
   \<and> vertical_datum.deprecated retired_vertical_datum
   \<and> vertical_crs.datum_auth_name height_on_retired_datum = auth_name retired_vertical_datum
   \<and> vertical_crs.datum_code height_on_retired_datum = code retired_vertical_datum
   \<and> \<not> vertical_crs.deprecated height_on_retired_datum
   \<and> insert_vertical_crs example_db height_on_retired_datum
     = Inr (example_db\<lparr>vertical_crs := vertical_crs example_db @ [height_on_retired_datum]\<rparr>)
   \<and> insert_vertical_crs example_db retired_height
     = Inr (example_db\<lparr>vertical_crs := [retired_height]\<rparr>)
   \<and> mean_sea_level \<in> set (vertical_datum example_db)
   \<and> \<not> vertical_datum.deprecated mean_sea_level
   \<and> vertical_crs.datum_auth_name height_on_mean_sea_level = auth_name mean_sea_level
   \<and> vertical_crs.datum_code height_on_mean_sea_level = code mean_sea_level
   \<and> insert_vertical_crs (example_db\<lparr>vertical_crs := [retired_height]\<rparr>)
       height_on_mean_sea_level
     = Inl (Abort ''insert on vertical_crs violates constraint: datum must not be deprecated when vertical_crs is not deprecated'')"
proof -
  have hyp: "retired_vertical_datum \<in> set (vertical_datum example_db)
      \<and> vertical_datum.deprecated retired_vertical_datum
      \<and> \<not> has_key (vertical_crs example_db) (auth_name retired_vertical_datum)
           (code retired_vertical_datum)
      \<and> vertical_crs.datum_auth_name height_on_retired_datum = auth_name retired_vertical_datum
      \<and> vertical_crs.datum_code height_on_retired_datum = code retired_vertical_datum
      \<and> \<not> vertical_crs.deprecated height_on_retired_datum"
    by (simp add: height_on_retired_datum_def example_defs has_key_def)
  have rest: "\<not> has_key (crs_view example_db) (auth_name height_on_retired_datum)
        (code height_on_retired_datum)
    \<and> has_key (area example_db) (vertical_crs.area_of_use_auth_name height_on_retired_datum)
        (vertical_crs.area_of_use_code height_on_retired_datum)
    \<and> (\<forall>a\<in>set (area example_db).
        auth_name a = vertical_crs.area_of_use_auth_name height_on_retired_datum
        \<and> code a = vertical_crs.area_of_use_code height_on_retired_datum \<longrightarrow> \<not> area.deprecated a)
    \<and> coordinate_system_type example_db
        (Some (vertical_crs.coordinate_system_auth_name height_on_retired_datum))
        (Some (vertical_crs.coordinate_system_code height_on_retired_datum)) = Some ''vertical''
    \<and> coordinate_system_dimension example_db
        (Some (vertical_crs.coordinate_system_auth_name height_on_retired_datum))
        (Some (vertical_crs.coordinate_system_code height_on_retired_datum)) = Some 1
    \<and> 1 \<le> text_length (auth_name height_on_retired_datum)
    \<and> 1 \<le> text_length (code height_on_retired_datum)
    \<and> 2 \<le> text_length (vertical_crs.name height_on_retired_datum)"
    by (simp add: height_on_retired_datum_def example_defs eval_defs crs_view_def)
  have rejected: "\<not> has_key (crs_view (example_db\<lparr>vertical_crs := [retired_height]\<rparr>))
        (auth_name height_on_mean_sea_level) (code height_on_mean_sea_level)
    \<and> \<not> vertical_crs.deprecated height_on_mean_sea_level
    \<and> (\<exists>r\<in>set (vertical_crs (example_db\<lparr>vertical_crs := [retired_height]\<rparr>)).
          auth_name r = vertical_crs.datum_auth_name height_on_mean_sea_level
          \<and> code r = vertical_crs.datum_code height_on_mean_sea_level
          \<and> vertical_crs.deprecated r)"
    by (simp add: height_on_mean_sea_level_def retired_height_def height_on_retired_datum_def
        example_defs eval_defs crs_view_def)
  have datum: "mean_sea_level \<in> set (vertical_datum example_db)
      \<and> \<not> vertical_datum.deprecated mean_sea_level
      \<and> vertical_crs.datum_auth_name height_on_mean_sea_level = auth_name mean_sea_level
      \<and> vertical_crs.datum_code height_on_mean_sea_level = code mean_sea_level"
    by (simp add: height_on_mean_sea_level_def height_on_retired_datum_def example_defs)
  from vertical_crs_datum_rule_reads_vertical_crs
      [where s = example_db and NEW = height_on_retired_datum
         and D = retired_vertical_datum and flag = "\<lambda>d. False" and e = "Abort []"]
    vertical_crs_datum_rule_reads_vertical_crs
      [where s = "example_db\<lparr>vertical_crs := [retired_height]\<rparr>"
         and NEW = height_on_mean_sea_level
         and D = retired_vertical_datum and flag = "\<lambda>d. False" and e = "Abort []"]
    hyp rest rejected datum retired_height_insert
  show ?thesis by blast
qed


section \<open>Conversion: parameter slots\<close>

lemma run_rules_append:
  "run_rules (xs @ ys) = None \<longleftrightarrow> run_rules xs = None \<and> run_rules ys = None"
  by (auto simp: run_rules_None_iff)

text \<open>The foreign keys of the units of the seven slots.\<close>

lemma conversion_table_foreign_keys_units:
  assumes "run_rules (conversion_table_foreign_keys s r) = None"
  shows "\<forall>(a, c, v, ua, uc) \<in> set (conversion_slots r).
           \<forall>ua' uc'. ua = Some ua' \<and> uc = Some uc' \<longrightarrow> has_key (unit_of_measure s) ua' uc'"
proof -
  note rule = run_rules_None_nth [OF assms [unfolded conversion_table_foreign_keys_def]]
  from rule [of 2] rule [of 3] rule [of 4] rule [of 5] rule [of 6] rule [of 7] rule [of 8]
  show ?thesis
    by (auto simp: conversion_slots_def fk_violated_iff)
qed

text \<open>
  The triggers of the view one by one: what they leave untouched, and what the trigger of
  a slot asks of the slot's reference.
\<close>

lemma run_triggers_Inr_iff:
  "run_triggers (t # ts) s = Inr s' \<longleftrightarrow> (\<exists>s1. t s = Inr s1 \<and> run_triggers ts s1 = Inr s')"
  by (simp split: sum.splits)

lemma run_triggers_each:
  "run_triggers ts s = Inr s' \<Longrightarrow> t \<in> set ts \<Longrightarrow> \<exists>s1 s2. t s1 = Inr s2"
  by (induction ts arbitrary: s) (auto split: sum.splits)

lemma run_triggers_keep:
  "run_triggers ts s = Inr s' \<Longrightarrow>
     (\<And>t s s'. t \<in> set ts \<Longrightarrow> t s = Inr s' \<Longrightarrow> f s' = f s) \<Longrightarrow> f s' = f s"
proof (induction ts arbitrary: s)
  case Nil
  then show ?case by simp
next
  case (Cons t ts)
  from Cons.prems(1) obtain s1 where t: "t s = Inr s1" and rest: "run_triggers ts s1 = Inr s'"
    by (auto split: sum.splits)
  have "f s' = f s1"
  proof (rule Cons.IH [OF rest])
    fix t' u u'
    assume "t' \<in> set ts" "t' u = Inr u'"
    with Cons.prems(2) [of t' u u'] show "f u' = f u"
      by simp
  qed
  moreover from Cons.prems(2) [of t s s1] t have "f s1 = f s"
    by simp
  ultimately show ?case by simp
qed

lemma insert_conversion_param_values_Inr:
  "insert_conversion_param_values s a c n = Inr s' \<longleftrightarrow>
     (\<exists>a' c' n'. a = Some a' \<and> c = Some c' \<and> n = Some n'
        \<and> insert_conversion_param s
             \<lparr>auth_name = a', code = c', conversion_param.name = n'\<rparr> = Inr s')"
  by (cases "(s, a, c, n)" rule: insert_conversion_param_values.cases) simp_all

lemma insert_conversion_method_values_Inr:
  "insert_conversion_method_values s a c n = Inr s' \<longleftrightarrow>
     (\<exists>a' c' n'. a = Some a' \<and> c = Some c' \<and> n = Some n'
        \<and> insert_conversion_method s
             \<lparr>auth_name = a', code = c', conversion_method.name = n'\<rparr> = Inr s')"
  by (cases "(s, a, c, n)" rule: insert_conversion_method_values.cases) simp_all

lemma conversion_insert_trigger_param_reference:
  assumes "conversion_insert_trigger_param a c n s = Inr s'" "a \<noteq> None"
  shows "c \<noteq> None \<and> n \<noteq> None"
proof (rule ccontr)
  assume "\<not> (c \<noteq> None \<and> n \<noteq> None)"
  then have none: "c = None \<or> n = None"
    by blast
  then have "is_true (sql_not_exists (conversion_param s)
      (\<lambda>p. sql_and (sql_and (sql_eq (Some (auth_name p)) a) (sql_eq (Some (code p)) c))
              (sql_eq (Some (conversion_param.name p)) n)))"
    by (auto simp: sql_simps)
  with assms have "insert_conversion_param_values s a c n = Inr s'"
    by (simp add: conversion_insert_trigger_param_def sql_simps)
  with none show False
    by (auto simp: insert_conversion_param_values_Inr)
qed

lemma conversion_insert_trigger_param_keeps:
  assumes "conversion_insert_trigger_param a c n s = Inr s'"
  shows "unit_of_measure s' = unit_of_measure s"
  using assms
  by (auto simp: conversion_insert_trigger_param_def insert_conversion_param_values_Inr
      insert_conversion_param_def insert_row_Inr_iff split: if_splits)

lemma conversion_insert_trigger_method_keeps:
  assumes "conversion_insert_trigger_method NEW s = Inr s'"
  shows "unit_of_measure s' = unit_of_measure s"
  using assms
  by (auto simp: conversion_insert_trigger_method_def insert_conversion_method_values_Inr
      insert_conversion_method_def insert_row_Inr_iff split: if_splits)

lemma conversion_insert_trigger_insert_into_conversion_table_keeps:
  assumes "conversion_insert_trigger_insert_into_conversion_table NEW s = Inr s'"
  shows "unit_of_measure s' = unit_of_measure s"
  using assms
  by (auto simp: conversion_insert_trigger_insert_into_conversion_table_def insert_row_Inr_iff)

lemmas conversion_insert_trigger_defs =
  conversion_insert_trigger_param1_def conversion_insert_trigger_param2_def
  conversion_insert_trigger_param3_def conversion_insert_trigger_param4_def
  conversion_insert_trigger_param5_def conversion_insert_trigger_param6_def
  conversion_insert_trigger_param7_def

lemma insert_conversion_Inr:
  assumes "insert_conversion s NEW = Inr s'"
  shows "run_triggers
             [conversion_insert_trigger_insert_into_conversion_table NEW,
              conversion_insert_trigger_param7 NEW,
              conversion_insert_trigger_param6 NEW,
              conversion_insert_trigger_param5 NEW,
              conversion_insert_trigger_param4 NEW,
              conversion_insert_trigger_param3 NEW,
              conversion_insert_trigger_param2 NEW,
              conversion_insert_trigger_param1 NEW,
              conversion_insert_trigger_method NEW] s = Inr s'"
    and "run_rules (conversion_table_foreign_keys s' (conversion_table.truncate NEW)) = None"
  using assms by (auto simp: insert_conversion_def split: sum.splits option.splits)

lemma insert_conversion_references:
  assumes "insert_conversion s NEW = Inr s'"
  shows "\<forall>(a, c, n) \<in> set (conversion_param_references NEW). a \<noteq> None \<longrightarrow> c \<noteq> None \<and> n \<noteq> None"
proof -
  note each = run_triggers_each [OF insert_conversion_Inr(1) [OF assms]]
  have "conversion_table.param1_auth_name NEW \<noteq> None \<longrightarrow>
      conversion_table.param1_code NEW \<noteq> None \<and> conversion_row.param1_name NEW \<noteq> None"
    using each [of "conversion_insert_trigger_param1 NEW"]
    by (auto simp: conversion_insert_trigger_param1_def
        dest: conversion_insert_trigger_param_reference)
  moreover have "conversion_table.param2_auth_name NEW \<noteq> None \<longrightarrow>
      conversion_table.param2_code NEW \<noteq> None \<and> conversion_row.param2_name NEW \<noteq> None"
    using each [of "conversion_insert_trigger_param2 NEW"]
    by (auto simp: conversion_insert_trigger_param2_def
        dest: conversion_insert_trigger_param_reference)
  moreover have "conversion_table.param3_auth_name NEW \<noteq> None \<longrightarrow>
      conversion_table.param3_code NEW \<noteq> None \<and> conversion_row.param3_name NEW \<noteq> None"
    using each [of "conversion_insert_trigger_param3 NEW"]
    by (auto simp: conversion_insert_trigger_param3_def
        dest: conversion_insert_trigger_param_reference)
  moreover have "conversion_table.param4_auth_name NEW \<noteq> None \<longrightarrow>
      conversion_table.param4_code NEW \<noteq> None \<and> conversion_row.param4_name NEW \<noteq> None"
    using each [of "conversion_insert_trigger_param4 NEW"]
    by (auto simp: conversion_insert_trigger_param4_def
        dest: conversion_insert_trigger_param_reference)
  moreover have "conversion_table.param5_auth_name NEW \<noteq> None \<longrightarrow>
      conversion_table.param5_code NEW \<noteq> None \<and> conversion_row.param5_name NEW \<noteq> None"
    using each [of "conversion_insert_trigger_param5 NEW"]
    by (auto simp: conversion_insert_trigger_param5_def
        dest: conversion_insert_trigger_param_reference)
  moreover have "conversion_table.param6_auth_name NEW \<noteq> None \<longrightarrow>
      conversion_table.param6_code NEW \<noteq> None \<and> conversion_row.param6_name NEW \<noteq> None"
    using each [of "conversion_insert_trigger_param6 NEW"]
    by (auto simp: conversion_insert_trigger_param6_def
        dest: conversion_insert_trigger_param_reference)
  moreover have "conversion_table.param7_auth_name NEW \<noteq> None \<longrightarrow>
      conversion_table.param7_code NEW \<noteq> None \<and> conversion_row.param7_name NEW \<noteq> None"
    using each [of "conversion_insert_trigger_param7 NEW"]
    by (auto simp: conversion_insert_trigger_param7_def
        dest: conversion_insert_trigger_param_reference)
  ultimately show ?thesis
    by (simp add: conversion_param_references_def)
qed

lemma insert_conversion_units:
  assumes "insert_conversion s NEW = Inr s'"
  shows "\<forall>(a, c, v, ua, uc) \<in> set (conversion_slots (conversion_table.truncate NEW)).
           \<forall>ua' uc'. ua = Some ua' \<and> uc = Some uc' \<longrightarrow> has_key (unit_of_measure s) ua' uc'"
proof -
  have "unit_of_measure s' = unit_of_measure s"
    by (rule run_triggers_keep [OF insert_conversion_Inr(1) [OF assms]])
      (auto simp: conversion_insert_trigger_defs
        dest: conversion_insert_trigger_param_keeps conversion_insert_trigger_method_keeps
          conversion_insert_trigger_insert_into_conversion_table_keeps)
  with conversion_table_foreign_keys_units [OF insert_conversion_Inr(2) [OF assms]]
  show ?thesis by simp
qed

text \<open>The example rows.\<close>

lemma conversion_with_partial_slot_insert:
  "insert_conversion_table example_db conversion_with_partial_slot
     = Inr (example_db\<lparr>conversion_table :=
              conversion_table example_db @ [conversion_with_partial_slot]\<rparr>)"
  by (simp add: insert_conversion_table_def conversion_table_insert_trigger_def
      conversion_table_constraints_def conversion_table_checks_def
      conversion_table_foreign_keys_def conversion_with_partial_slot_def
      coordinate_operation_with_conversion_view_def coordinate_operation_view_def
      helmert_transformation_def left_join_matches_def sql_length_def
      example_defs eval_defs)

lemmas partial_slot_row_defs =
  partial_slot_row_def conversion_with_partial_slot_def conversion_table.defs
  conversion_row.defs

lemmas insert_conversion_defs =
  insert_conversion_def conversion_insert_trigger_insert_into_conversion_table_def
  conversion_insert_trigger_defs conversion_insert_trigger_param_def
  conversion_insert_trigger_method_def insert_conversion_param_def
  conversion_param_constraints_def insert_conversion_method_def
  conversion_method_insert_trigger_def conversion_method_constraints_def
  conversion_table_insert_trigger_def conversion_table_checks_def
  conversion_table_foreign_keys_def coordinate_operation_with_conversion_view_def
  coordinate_operation_view_def helmert_transformation_def left_join_matches_def
  sql_length_def sql_not_exists_def sql_exists_def

lemma partial_slot_row_insert:
  "insert_conversion example_db partial_slot_row
     = Inr (example_db
          \<lparr>conversion_table := conversion_table example_db @ [conversion_with_partial_slot],
           conversion_param :=
             [\<lparr>auth_name = ''EPSG'', code = ''8805'',
               conversion_param.name = ''Scale factor at natural origin''\<rparr>,
              \<lparr>auth_name = ''EPSG'', code = ''8802'',
               conversion_param.name = ''Longitude of natural origin''\<rparr>,
              \<lparr>auth_name = ''EPSG'', code = ''8801'',
               conversion_param.name = ''Latitude of natural origin''\<rparr>]\<rparr>)"
  by (simp add: insert_conversion_defs partial_slot_row_defs example_defs eval_defs)

lemma partial_slot_row_without_code_insert:
  "insert_conversion example_db
       (partial_slot_row\<lparr>conversion_table.param3_code := None\<rparr>)
     = Inl (Not_null_failed ''conversion_param.code'')"
  by (simp add: insert_conversion_defs partial_slot_row_defs example_defs eval_defs)

text \<open>
  C2, as stated, fails: \<^verbatim>\<open>conversion_table\<close> has no \<^verbatim>\<open>CHECK\<close> on the slot columns, its
  trigger has the single rule on the key, and the triggers of the view \<^verbatim>\<open>conversion\<close> look
  at the parameter reference of a slot only. A conversion whose third slot has a
  parameter reference but neither value nor unit is admitted to the example database,
  inserted into the table or through the view.
\<close>

theorem conversion_with_partial_slot_admitted:
  "insert_conversion_table example_db conversion_with_partial_slot
     = Inr (example_db\<lparr>conversion_table :=
              conversion_table example_db @ [conversion_with_partial_slot]\<rparr>)
   \<and> (\<exists>s'. insert_conversion example_db partial_slot_row = Inr s'
         \<and> conversion_table s' = conversion_table example_db @ [conversion_with_partial_slot])
   \<and> \<not> list_all slot_all_or_nothing (conversion_slots conversion_with_partial_slot)"
  using conversion_with_partial_slot_insert partial_slot_row_insert
  by (simp add: conversion_with_partial_slot_def conversion_slots_def utm_zone_31n_def)

text \<open>
  C2, amended. The slots of an admitted conversion need not be all-or-nothing; what is
  required of them depends on how the row is inserted. For a row inserted into
  \<^verbatim>\<open>conversion_table\<close>, whether it is admitted does not depend on the parameter reference
  and value columns of its seven slots: replacing all of them by arbitrary values,
  \<^verbatim>\<open>NULL\<close> or not, changes nothing. For a row admitted through the view \<^verbatim>\<open>conversion\<close>,
  a slot whose \<open>paramN_auth_name\<close> is set has its \<open>paramN_code\<close> and \<open>paramN_name\<close> set
  as well. In both cases, when both unit columns of a slot are set, they name an
  existing unit of measure.
\<close>

theorem conversion_admission_ignores_parameter_slots:
  "((\<exists>s'. insert_conversion_table s
        (NEW\<lparr>conversion_table.param1_auth_name := a1, conversion_table.param1_code := c1, conversion_table.param1_value := v1,
          conversion_table.param2_auth_name := a2, conversion_table.param2_code := c2, conversion_table.param2_value := v2,
          conversion_table.param3_auth_name := a3, conversion_table.param3_code := c3, conversion_table.param3_value := v3,
          conversion_table.param4_auth_name := a4, conversion_table.param4_code := c4, conversion_table.param4_value := v4,
          conversion_table.param5_auth_name := a5, conversion_table.param5_code := c5, conversion_table.param5_value := v5,
          conversion_table.param6_auth_name := a6, conversion_table.param6_code := c6, conversion_table.param6_value := v6,
          conversion_table.param7_auth_name := a7, conversion_table.param7_code := c7, conversion_table.param7_value := v7\<rparr>) = Inr s')
      \<longleftrightarrow> (\<exists>s'. insert_conversion_table s NEW = Inr s'))
   \<and> (insert_conversion_table s NEW = Inr s' \<longrightarrow>
        (\<forall>(a, c, v, ua, uc) \<in> set (conversion_slots NEW).
           \<forall>ua' uc'. ua = Some ua' \<and> uc = Some uc' \<longrightarrow> has_key (unit_of_measure s) ua' uc'))
   \<and> (insert_conversion s ROW = Inr s'' \<longrightarrow>
        (\<forall>(a, c, n) \<in> set (conversion_param_references ROW).
           a \<noteq> None \<longrightarrow> c \<noteq> None \<and> n \<noteq> None)
        \<and> (\<forall>(a, c, v, ua, uc) \<in> set (conversion_slots (conversion_table.truncate ROW)).
             \<forall>ua' uc'. ua = Some ua' \<and> uc = Some uc' \<longrightarrow> has_key (unit_of_measure s) ua' uc'))"
proof (intro conjI impI)
  show "(\<exists>s'. insert_conversion_table s
        (NEW\<lparr>conversion_table.param1_auth_name := a1, conversion_table.param1_code := c1, conversion_table.param1_value := v1,
          conversion_table.param2_auth_name := a2, conversion_table.param2_code := c2, conversion_table.param2_value := v2,
          conversion_table.param3_auth_name := a3, conversion_table.param3_code := c3, conversion_table.param3_value := v3,
          conversion_table.param4_auth_name := a4, conversion_table.param4_code := c4, conversion_table.param4_value := v4,
          conversion_table.param5_auth_name := a5, conversion_table.param5_code := c5, conversion_table.param5_value := v5,
          conversion_table.param6_auth_name := a6, conversion_table.param6_code := c6, conversion_table.param6_value := v6,
          conversion_table.param7_auth_name := a7, conversion_table.param7_code := c7, conversion_table.param7_value := v7\<rparr>) = Inr s')
      \<longleftrightarrow> (\<exists>s'. insert_conversion_table s NEW = Inr s')"
    by (simp add: insert_conversion_table_def insert_row_Inr_iff
        conversion_table_insert_trigger_def conversion_table_constraints_def
        conversion_table_checks_def conversion_table_foreign_keys_def)
next
  assume "insert_conversion_table s NEW = Inr s'"
  then have "run_rules (conversion_table_foreign_keys s NEW) = None"
    by (simp add: insert_conversion_table_def insert_row_Inr_iff
        conversion_table_constraints_def run_rules_append)
  then show "\<forall>(a, c, v, ua, uc) \<in> set (conversion_slots NEW).
           \<forall>ua' uc'. ua = Some ua' \<and> uc = Some uc' \<longrightarrow> has_key (unit_of_measure s) ua' uc'"
    by (rule conversion_table_foreign_keys_units)
next
  assume "insert_conversion s ROW = Inr s''"
  then show "\<forall>(a, c, n) \<in> set (conversion_param_references ROW).
           a \<noteq> None \<longrightarrow> c \<noteq> None \<and> n \<noteq> None"
    by (rule insert_conversion_references)
next
  assume "insert_conversion s ROW = Inr s''"
  then show "\<forall>(a, c, v, ua, uc) \<in> set (conversion_slots (conversion_table.truncate ROW)).
             \<forall>ua' uc'. ua = Some ua' \<and> uc = Some uc' \<longrightarrow> has_key (unit_of_measure s) ua' uc'"
    by (rule insert_conversion_units)
qed

theorem conversion_admission_ignores_parameter_slots_witness:
  "insert_conversion_table example_db conversion_with_partial_slot
     = Inr (example_db\<lparr>conversion_table :=
              conversion_table example_db @ [conversion_with_partial_slot]\<rparr>)
   \<and> conversion_table.param1_uom_auth_name conversion_with_partial_slot = Some ''EPSG''
   \<and> conversion_table.param1_uom_code conversion_with_partial_slot = Some ''9102''
   \<and> has_key (unit_of_measure example_db) ''EPSG'' ''9102''
   \<and> (\<exists>s'. insert_conversion_table example_db
          (conversion_with_partial_slot
           \<lparr>conversion_table.param1_auth_name := None, conversion_table.param1_code := None, conversion_table.param1_value := None,
            conversion_table.param2_auth_name := None, conversion_table.param2_code := None, conversion_table.param2_value := None,
            conversion_table.param3_auth_name := None, conversion_table.param3_code := None, conversion_table.param3_value := None,
            conversion_table.param4_auth_name := None, conversion_table.param4_code := None, conversion_table.param4_value := None,
            conversion_table.param5_auth_name := None, conversion_table.param5_code := None, conversion_table.param5_value := None,
            conversion_table.param6_auth_name := None, conversion_table.param6_code := None, conversion_table.param6_value := None,
            conversion_table.param7_auth_name := None, conversion_table.param7_code := None, conversion_table.param7_value := None\<rparr>) = Inr s')
   \<and> (\<exists>s'. insert_conversion example_db partial_slot_row = Inr s')
   \<and> conversion_table.param3_auth_name partial_slot_row = Some ''EPSG''
   \<and> conversion_table.param3_code partial_slot_row \<noteq> None
   \<and> conversion_row.param3_name partial_slot_row \<noteq> None
   \<and> insert_conversion example_db (partial_slot_row\<lparr>conversion_table.param3_code := None\<rparr>)
     = Inl (Not_null_failed ''conversion_param.code'')"
proof -
  note inst = conversion_admission_ignores_parameter_slots
      [of example_db
          None None None None None None None None None None None None None None
          None None None None None None None
          conversion_with_partial_slot
          "example_db\<lparr>conversion_table :=
              conversion_table example_db @ [conversion_with_partial_slot]\<rparr>"
          partial_slot_row
          "example_db
          \<lparr>conversion_table := conversion_table example_db @ [conversion_with_partial_slot],
           conversion_param :=
             [\<lparr>auth_name = ''EPSG'', code = ''8805'',
               conversion_param.name = ''Scale factor at natural origin''\<rparr>,
              \<lparr>auth_name = ''EPSG'', code = ''8802'',
               conversion_param.name = ''Longitude of natural origin''\<rparr>,
              \<lparr>auth_name = ''EPSG'', code = ''8801'',
               conversion_param.name = ''Latitude of natural origin''\<rparr>]\<rparr>"]
  note slots = inst [THEN conjunct2, THEN conjunct1, THEN mp,
      OF conversion_with_partial_slot_insert]
  note refs = inst [THEN conjunct2, THEN conjunct2, THEN mp, OF partial_slot_row_insert,
      THEN conjunct1]
  from conversion_with_partial_slot_insert
  have "\<exists>s'. insert_conversion_table example_db conversion_with_partial_slot = Inr s'"
    by (rule exI)
  with inst [THEN conjunct1]
  have none: "\<exists>s'. insert_conversion_table example_db
          (conversion_with_partial_slot
           \<lparr>conversion_table.param1_auth_name := None, conversion_table.param1_code := None, conversion_table.param1_value := None,
            conversion_table.param2_auth_name := None, conversion_table.param2_code := None, conversion_table.param2_value := None,
            conversion_table.param3_auth_name := None, conversion_table.param3_code := None, conversion_table.param3_value := None,
            conversion_table.param4_auth_name := None, conversion_table.param4_code := None, conversion_table.param4_value := None,
            conversion_table.param5_auth_name := None, conversion_table.param5_code := None, conversion_table.param5_value := None,
            conversion_table.param6_auth_name := None, conversion_table.param6_code := None, conversion_table.param6_value := None,
            conversion_table.param7_auth_name := None, conversion_table.param7_code := None, conversion_table.param7_value := None\<rparr>) = Inr s'"
    by (rule iffD2)
  have uom: "conversion_table.param1_uom_auth_name conversion_with_partial_slot = Some ''EPSG''"
    "conversion_table.param1_uom_code conversion_with_partial_slot = Some ''9102''"
    by (simp_all add: conversion_with_partial_slot_def utm_zone_31n_def)
  with slots have unit: "has_key (unit_of_measure example_db) ''EPSG'' ''9102''"
    by (simp add: conversion_slots_def)
  have auth: "conversion_table.param3_auth_name partial_slot_row = Some ''EPSG''"
    by (simp add: partial_slot_row_defs)
  with refs have ref: "conversion_table.param3_code partial_slot_row \<noteq> None
      \<and> conversion_row.param3_name partial_slot_row \<noteq> None"
    by (simp add: conversion_param_references_def)
  from partial_slot_row_insert
  have row: "\<exists>s'. insert_conversion example_db partial_slot_row = Inr s'"
    by (rule exI)
  from conversion_with_partial_slot_insert uom unit none row auth ref
    partial_slot_row_without_code_insert
  show ?thesis by - (intro conjI, (erule conjunct1 conjunct2 | assumption)+)
qed


section \<open>Concatenated operation: steps\<close>

lemma concatenated_operation_admitted:
  "insert_concatenated_operation s NEW = Inr s' \<Longrightarrow>
     concatenated_operation_insert_trigger s NEW = None
     \<and> s' = s\<lparr>concatenated_operation := concatenated_operation s @ [NEW]\<rparr>"
  by (simp add: insert_concatenated_operation_def insert_row_Inr_iff)

lemma concatenated_operation_steps:
  assumes adm: "insert_concatenated_operation s NEW = Inr s'"
  shows "\<not> has_key (coordinate_operation_with_conversion_view s) (auth_name NEW) (code NEW)"
    and "has_key (coordinate_operation_with_conversion_view s) (step1_auth_name NEW) (step1_code NEW)"
    and "has_key (coordinate_operation_with_conversion_view s) (step2_auth_name NEW) (step2_code NEW)"
    and "step3_auth_name NEW = Some a \<Longrightarrow>
           \<exists>c. step3_code NEW = Some c \<and> has_key (coordinate_operation_with_conversion_view s) a c"
    and "\<not> has_key (concatenated_operation s) (step1_auth_name NEW) (step1_code NEW)"
    and "\<not> has_key (concatenated_operation s) (step2_auth_name NEW) (step2_code NEW)"
    and "step3_auth_name NEW = Some a \<Longrightarrow> step3_code NEW = Some c \<Longrightarrow>
           \<not> has_key (concatenated_operation s) a c"
proof -
  from adm have trig: "concatenated_operation_insert_trigger s NEW = None"
    by (simp add: concatenated_operation_admitted)
  note rule = run_rules_None_nth [OF trig [unfolded concatenated_operation_insert_trigger_def]]
  from rule [of 0]
  show "\<not> has_key (coordinate_operation_with_conversion_view s) (auth_name NEW) (code NEW)"
    by (auto simp: sql_simps has_key_iff)
  from rule [of 1]
  show "has_key (coordinate_operation_with_conversion_view s) (step1_auth_name NEW) (step1_code NEW)"
    by (auto simp: sql_simps has_key_iff)
  from rule [of 2]
  show "has_key (coordinate_operation_with_conversion_view s) (step2_auth_name NEW) (step2_code NEW)"
    by (auto simp: sql_simps has_key_iff)
  from rule [of 3]
  show "\<exists>c. step3_code NEW = Some c \<and> has_key (coordinate_operation_with_conversion_view s) a c"
    if "step3_auth_name NEW = Some a"
    using that by (cases "step3_code NEW") (auto simp: sql_simps has_key_iff)
  from rule [of 6]
  show "\<not> has_key (concatenated_operation s) (step1_auth_name NEW) (step1_code NEW)"
    by (auto simp: sql_simps has_key_iff)
  from rule [of 7]
  show "\<not> has_key (concatenated_operation s) (step2_auth_name NEW) (step2_code NEW)"
    by (auto simp: sql_simps has_key_iff)
  from rule [of 8]
  show "\<not> has_key (concatenated_operation s) a c"
    if "step3_auth_name NEW = Some a" "step3_code NEW = Some c"
    using that by (auto simp: sql_simps has_key_iff)
qed


text \<open>
  C6. In the database that holds an admitted concatenated operation, its first and
  second step, and its third step when \<open>step3_auth_name\<close> is set, have a key of
  \<^verbatim>\<open>coordinate_operation_with_conversion_view\<close> that is not the key of a concatenated
  operation (the third step then has its code set too). An insert one of whose steps
  is the key of a concatenated operation is rejected.
\<close>

theorem concatenated_operation_steps_exist_and_are_not_concatenated:
  "(insert_concatenated_operation s NEW = Inr s' \<longrightarrow>
      has_key (coordinate_operation_with_conversion_view s') (step1_auth_name NEW) (step1_code NEW)
      \<and> \<not> has_key (concatenated_operation s') (step1_auth_name NEW) (step1_code NEW)
      \<and> has_key (coordinate_operation_with_conversion_view s') (step2_auth_name NEW) (step2_code NEW)
      \<and> \<not> has_key (concatenated_operation s') (step2_auth_name NEW) (step2_code NEW)
      \<and> (\<forall>a. step3_auth_name NEW = Some a \<longrightarrow>
            (\<exists>c. step3_code NEW = Some c
                 \<and> has_key (coordinate_operation_with_conversion_view s') a c
                 \<and> \<not> has_key (concatenated_operation s') a c)))
   \<and> (has_key (concatenated_operation s) (step1_auth_name NEW) (step1_code NEW)
        \<or> has_key (concatenated_operation s) (step2_auth_name NEW) (step2_code NEW)
        \<or> (\<exists>a c. step3_auth_name NEW = Some a \<and> step3_code NEW = Some c
                  \<and> has_key (concatenated_operation s) a c)
        \<longrightarrow> (\<exists>e. insert_concatenated_operation s NEW = Inl e))"
proof (intro conjI impI)
  assume adm: "insert_concatenated_operation s NEW = Inr s'"
  then have s': "s' = s\<lparr>concatenated_operation := concatenated_operation s @ [NEW]\<rparr>"
    by (simp add: concatenated_operation_admitted)
  note steps = concatenated_operation_steps [OF adm]
  have grow: "has_key (coordinate_operation_with_conversion_view s) a c \<Longrightarrow>
      has_key (coordinate_operation_with_conversion_view s') a c" for a c
    by (auto simp: has_key_coordinate_operation_with_conversion_view s' has_key_snoc)
  have other: "has_key (coordinate_operation_with_conversion_view s) a c \<Longrightarrow>
      \<not> has_key (concatenated_operation s) a c \<Longrightarrow>
      \<not> has_key (concatenated_operation s') a c" for a c
    using steps(1) by (auto simp: s' has_key_snoc)
  show "has_key (coordinate_operation_with_conversion_view s') (step1_auth_name NEW) (step1_code NEW)"
    using steps(2) by (rule grow)
  show "\<not> has_key (concatenated_operation s') (step1_auth_name NEW) (step1_code NEW)"
    using steps(2) steps(5) by (rule other)
  show "has_key (coordinate_operation_with_conversion_view s') (step2_auth_name NEW) (step2_code NEW)"
    using steps(3) by (rule grow)
  show "\<not> has_key (concatenated_operation s') (step2_auth_name NEW) (step2_code NEW)"
    using steps(3) steps(6) by (rule other)
  show "\<forall>a. step3_auth_name NEW = Some a \<longrightarrow>
            (\<exists>c. step3_code NEW = Some c
                 \<and> has_key (coordinate_operation_with_conversion_view s') a c
                 \<and> \<not> has_key (concatenated_operation s') a c)"
    using steps(4) steps(7) grow other by blast
next
  assume nested: "has_key (concatenated_operation s) (step1_auth_name NEW) (step1_code NEW)
        \<or> has_key (concatenated_operation s) (step2_auth_name NEW) (step2_code NEW)
        \<or> (\<exists>a c. step3_auth_name NEW = Some a \<and> step3_code NEW = Some c
                  \<and> has_key (concatenated_operation s) a c)"
  show "\<exists>e. insert_concatenated_operation s NEW = Inl e"
  proof (cases "insert_concatenated_operation s NEW")
    case (Inl e)
    then show ?thesis by blast
  next
    case (Inr s'')
    from concatenated_operation_steps(5-7) [OF Inr] nested show ?thesis by blast
  qed
qed

lemma wgs84_chain_insert:
  "insert_concatenated_operation example_db wgs84_chain
     = Inr (example_db\<lparr>concatenated_operation :=
              concatenated_operation example_db @ [wgs84_chain]\<rparr>)"
  by (simp add: insert_concatenated_operation_def concatenated_operation_insert_trigger_def
      concatenated_operation_constraints_def wgs84_chain_def crs_view_def
      coordinate_operation_with_conversion_view_def coordinate_operation_view_def
      helmert_transformation_def left_join_matches_def
      example_defs eval_defs)

lemma nested_chain_insert:
  "insert_concatenated_operation example_db (wgs84_chain\<lparr>step1_code := ''8000''\<rparr>)
     = Inl (Abort ''insert on concatenated_operation violates constraint: step1 should not be a concatenated_operation'')"
  by (simp add: insert_concatenated_operation_def concatenated_operation_insert_trigger_def
      concatenated_operation_constraints_def wgs84_chain_def crs_view_def
      coordinate_operation_with_conversion_view_def coordinate_operation_view_def
      helmert_transformation_def left_join_matches_def
      example_defs eval_defs)

theorem concatenated_operation_steps_exist_and_are_not_concatenated_witness:
  "insert_concatenated_operation example_db wgs84_chain
     = Inr (example_db\<lparr>concatenated_operation :=
              concatenated_operation example_db @ [wgs84_chain]\<rparr>)
   \<and> step1_auth_name wgs84_chain = ''EPSG'' \<and> step1_code wgs84_chain = ''1100''
   \<and> has_key (coordinate_operation_with_conversion_view
        (example_db\<lparr>concatenated_operation :=
              concatenated_operation example_db @ [wgs84_chain]\<rparr>)) ''EPSG'' ''1100''
   \<and> \<not> has_key (concatenated_operation
        (example_db\<lparr>concatenated_operation :=
              concatenated_operation example_db @ [wgs84_chain]\<rparr>)) ''EPSG'' ''1100''
   \<and> has_key (concatenated_operation example_db) ''EPSG'' ''8000''
   \<and> (\<exists>e. insert_concatenated_operation example_db (wgs84_chain\<lparr>step1_code := ''8000''\<rparr>)
            = Inl e)"
proof -
  have steps: "step1_auth_name wgs84_chain = ''EPSG''" "step1_code wgs84_chain = ''1100''"
    by (simp_all add: wgs84_chain_def retired_to_utm_def)
  have nested: "has_key (concatenated_operation example_db) ''EPSG'' ''8000''"
    by (simp add: has_key_def example_defs)
  from concatenated_operation_steps_exist_and_are_not_concatenated
      [of example_db wgs84_chain
          "example_db\<lparr>concatenated_operation :=
              concatenated_operation example_db @ [wgs84_chain]\<rparr>"]
    wgs84_chain_insert steps
  have "has_key (coordinate_operation_with_conversion_view
        (example_db\<lparr>concatenated_operation :=
              concatenated_operation example_db @ [wgs84_chain]\<rparr>)) ''EPSG'' ''1100''
      \<and> \<not> has_key (concatenated_operation
        (example_db\<lparr>concatenated_operation :=
              concatenated_operation example_db @ [wgs84_chain]\<rparr>)) ''EPSG'' ''1100''"
    by simp
  moreover
  from concatenated_operation_steps_exist_and_are_not_concatenated
      [of example_db "wgs84_chain\<lparr>step1_code := ''8000''\<rparr>"]
    steps nested
  have "\<exists>e. insert_concatenated_operation example_db (wgs84_chain\<lparr>step1_code := ''8000''\<rparr>)
            = Inl e"
    by simp
  ultimately show ?thesis
    using wgs84_chain_insert steps nested by blast
qed

section \<open>The exemption of the authority ESRI\<close>


















section \<open>The CRS namespace and the operation namespace\<close>

lemma run_rules_first: "c \<Longrightarrow> run_rules ((c, e) # rs) = Some e"
  by simp

lemma insert_unit_of_measure_Inr:
  "insert_unit_of_measure s r = Inr s' \<Longrightarrow> s' = s\<lparr>unit_of_measure := unit_of_measure s @ [r]\<rparr>"
  by (simp add: insert_unit_of_measure_def insert_row_Inr_iff)

lemma insert_celestial_body_Inr:
  "insert_celestial_body s r = Inr s' \<Longrightarrow> s' = s\<lparr>celestial_body := celestial_body s @ [r]\<rparr>"
  by (simp add: insert_celestial_body_def insert_row_Inr_iff)

lemma insert_ellipsoid_Inr:
  "insert_ellipsoid s r = Inr s' \<Longrightarrow> s' = s\<lparr>ellipsoid := ellipsoid s @ [r]\<rparr>"
  by (simp add: insert_ellipsoid_def insert_row_Inr_iff)

lemma insert_area_Inr:
  "insert_area s r = Inr s' \<Longrightarrow> s' = s\<lparr>area := area s @ [r]\<rparr>"
  by (simp add: insert_area_def insert_row_Inr_iff)

lemma insert_prime_meridian_Inr:
  "insert_prime_meridian s r = Inr s' \<Longrightarrow> s' = s\<lparr>prime_meridian := prime_meridian s @ [r]\<rparr>"
  by (simp add: insert_prime_meridian_def insert_row_Inr_iff)

lemma insert_geodetic_datum_Inr:
  "insert_geodetic_datum s r = Inr s' \<Longrightarrow> s' = s\<lparr>geodetic_datum := geodetic_datum s @ [r]\<rparr>"
  by (simp add: insert_geodetic_datum_def insert_row_Inr_iff)

lemma insert_vertical_datum_Inr:
  "insert_vertical_datum s r = Inr s' \<Longrightarrow> s' = s\<lparr>vertical_datum := vertical_datum s @ [r]\<rparr>"
  by (simp add: insert_vertical_datum_def insert_row_Inr_iff)

lemma insert_coordinate_system_Inr:
  "insert_coordinate_system s r = Inr s' \<Longrightarrow> s' = s\<lparr>coordinate_system := coordinate_system s @ [r]\<rparr>"
  by (simp add: insert_coordinate_system_def insert_row_Inr_iff)

lemma insert_geodetic_crs_Inr:
  "insert_geodetic_crs s r = Inr s' \<Longrightarrow> s' = s\<lparr>geodetic_crs := geodetic_crs s @ [r]\<rparr>"
  by (simp add: insert_geodetic_crs_def insert_row_Inr_iff)

lemma insert_vertical_crs_Inr:
  "insert_vertical_crs s r = Inr s' \<Longrightarrow> s' = s\<lparr>vertical_crs := vertical_crs s @ [r]\<rparr>"
  by (simp add: insert_vertical_crs_def insert_row_Inr_iff)

lemma insert_conversion_method_Inr:
  "insert_conversion_method s r = Inr s' \<Longrightarrow> s' = s\<lparr>conversion_method := conversion_method s @ [r]\<rparr>"
  by (simp add: insert_conversion_method_def insert_row_Inr_iff)

lemma insert_conversion_param_Inr:
  "insert_conversion_param s r = Inr s' \<Longrightarrow> s' = s\<lparr>conversion_param := conversion_param s @ [r]\<rparr>"
  by (simp add: insert_conversion_param_def insert_row_Inr_iff)

lemma insert_conversion_table_Inr:
  "insert_conversion_table s r = Inr s' \<Longrightarrow> s' = s\<lparr>conversion_table := conversion_table s @ [r]\<rparr>"
  by (simp add: insert_conversion_table_def insert_row_Inr_iff)

lemma insert_projected_crs_Inr:
  "insert_projected_crs s r = Inr s' \<Longrightarrow> s' = s\<lparr>projected_crs := projected_crs s @ [r]\<rparr>"
  by (simp add: insert_projected_crs_def insert_row_Inr_iff)

lemma insert_compound_crs_Inr:
  "insert_compound_crs s r = Inr s' \<Longrightarrow> s' = s\<lparr>compound_crs := compound_crs s @ [r]\<rparr>"
  by (simp add: insert_compound_crs_def insert_row_Inr_iff)

lemma insert_coordinate_operation_method_Inr:
  "insert_coordinate_operation_method s r = Inr s' \<Longrightarrow> s' = s\<lparr>coordinate_operation_method := coordinate_operation_method s @ [r]\<rparr>"
  by (simp add: insert_coordinate_operation_method_def insert_row_Inr_iff)

lemma insert_helmert_transformation_table_Inr:
  "insert_helmert_transformation_table s r = Inr s' \<Longrightarrow> s' = s\<lparr>helmert_transformation_table := helmert_transformation_table s @ [r]\<rparr>"
  by (simp add: insert_helmert_transformation_table_def insert_row_Inr_iff)

lemma insert_grid_transformation_Inr:
  "insert_grid_transformation s r = Inr s' \<Longrightarrow> s' = s\<lparr>grid_transformation := grid_transformation s @ [r]\<rparr>"
  by (simp add: insert_grid_transformation_def insert_row_Inr_iff)

lemma insert_grid_packages_Inr:
  "insert_grid_packages s r = Inr s' \<Longrightarrow> s' = s\<lparr>grid_packages := grid_packages s @ [r]\<rparr>"
  by (simp add: insert_grid_packages_def insert_row_Inr_iff)

lemma insert_grid_alternatives_Inr:
  "insert_grid_alternatives s r = Inr s' \<Longrightarrow> s' = s\<lparr>grid_alternatives := grid_alternatives s @ [r]\<rparr>"
  by (simp add: insert_grid_alternatives_def insert_row_Inr_iff)

lemma insert_other_transformation_Inr:
  "insert_other_transformation s r = Inr s' \<Longrightarrow> s' = s\<lparr>other_transformation := other_transformation s @ [r]\<rparr>"
  by (simp add: insert_other_transformation_def insert_row_Inr_iff)

lemma insert_concatenated_operation_Inr:
  "insert_concatenated_operation s r = Inr s' \<Longrightarrow> s' = s\<lparr>concatenated_operation := concatenated_operation s @ [r]\<rparr>"
  by (simp add: insert_concatenated_operation_def insert_row_Inr_iff)

lemma insert_geodetic_crs_duplicate:
  "has_key (crs_view s) (auth_name r) (code r) \<Longrightarrow>
     insert_geodetic_crs s r = Inl (Abort ''insert on geodetic_crs violates constraint: (auth_name, code) must not already exist in crs_view'')"
proof -
  assume dup: "has_key (crs_view s) (auth_name r) (code r)"
  have "geodetic_crs_insert_trigger s r = Some (Abort ''insert on geodetic_crs violates constraint: (auth_name, code) must not already exist in crs_view'')"
    unfolding geodetic_crs_insert_trigger_def
    by (rule run_rules_first) (use dup in \<open>simp add: is_true_exists_key\<close>)
  then show ?thesis
    by (simp add: insert_geodetic_crs_def insert_row_def)
qed

lemma insert_geodetic_crs_new_key:
  "insert_geodetic_crs s r = Inr s' \<Longrightarrow> \<not> has_key (crs_view s) (auth_name r) (code r)"
  using insert_geodetic_crs_duplicate [of s r] by auto

lemma insert_projected_crs_duplicate:
  "has_key (crs_view s) (auth_name r) (code r) \<Longrightarrow>
     insert_projected_crs s r = Inl (Abort ''insert on projected_crs violates constraint: (auth_name, code) must not already exist in crs_view'')"
proof -
  assume dup: "has_key (crs_view s) (auth_name r) (code r)"
  have "projected_crs_insert_trigger s r = Some (Abort ''insert on projected_crs violates constraint: (auth_name, code) must not already exist in crs_view'')"
    unfolding projected_crs_insert_trigger_def
    by (rule run_rules_first) (use dup in \<open>simp add: is_true_exists_key\<close>)
  then show ?thesis
    by (simp add: insert_projected_crs_def insert_row_def)
qed

lemma insert_projected_crs_new_key:
  "insert_projected_crs s r = Inr s' \<Longrightarrow> \<not> has_key (crs_view s) (auth_name r) (code r)"
  using insert_projected_crs_duplicate [of s r] by auto

lemma insert_vertical_crs_duplicate:
  "has_key (crs_view s) (auth_name r) (code r) \<Longrightarrow>
     insert_vertical_crs s r = Inl (Abort ''insert on vertical_crs violates constraint: (auth_name, code) must not already exist in crs_view'')"
proof -
  assume dup: "has_key (crs_view s) (auth_name r) (code r)"
  have "vertical_crs_insert_trigger s r = Some (Abort ''insert on vertical_crs violates constraint: (auth_name, code) must not already exist in crs_view'')"
    unfolding vertical_crs_insert_trigger_def
    by (rule run_rules_first) (use dup in \<open>simp add: is_true_exists_key\<close>)
  then show ?thesis
    by (simp add: insert_vertical_crs_def insert_row_def)
qed

lemma insert_vertical_crs_new_key:
  "insert_vertical_crs s r = Inr s' \<Longrightarrow> \<not> has_key (crs_view s) (auth_name r) (code r)"
  using insert_vertical_crs_duplicate [of s r] by auto

lemma insert_compound_crs_duplicate:
  "has_key (crs_view s) (auth_name r) (code r) \<Longrightarrow>
     insert_compound_crs s r = Inl (Abort ''insert on compound_crs violates constraint: (auth_name, code) must not already exist in crs_view'')"
proof -
  assume dup: "has_key (crs_view s) (auth_name r) (code r)"
  have "compound_crs_insert_trigger s r = Some (Abort ''insert on compound_crs violates constraint: (auth_name, code) must not already exist in crs_view'')"
    unfolding compound_crs_insert_trigger_def
    by (rule run_rules_first) (use dup in \<open>simp add: is_true_exists_key\<close>)
  then show ?thesis
    by (simp add: insert_compound_crs_def insert_row_def)
qed

lemma insert_compound_crs_new_key:
  "insert_compound_crs s r = Inr s' \<Longrightarrow> \<not> has_key (crs_view s) (auth_name r) (code r)"
  using insert_compound_crs_duplicate [of s r] by auto

lemma insert_grid_transformation_duplicate:
  "has_key (coordinate_operation_with_conversion_view s) (auth_name r) (code r) \<Longrightarrow>
     insert_grid_transformation s r = Inl (Abort ''insert on grid_transformation violates constraint: (auth_name, code) must not already exist in coordinate_operation_with_conversion_view'')"
proof -
  assume dup: "has_key (coordinate_operation_with_conversion_view s) (auth_name r) (code r)"
  have "grid_transformation_insert_trigger s r = Some (Abort ''insert on grid_transformation violates constraint: (auth_name, code) must not already exist in coordinate_operation_with_conversion_view'')"
    unfolding grid_transformation_insert_trigger_def
    by (rule run_rules_first) (use dup in \<open>simp add: is_true_exists_key\<close>)
  then show ?thesis
    by (simp add: insert_grid_transformation_def insert_row_def)
qed

lemma insert_grid_transformation_new_key:
  "insert_grid_transformation s r = Inr s' \<Longrightarrow> \<not> has_key (coordinate_operation_with_conversion_view s) (auth_name r) (code r)"
  using insert_grid_transformation_duplicate [of s r] by auto

lemma insert_helmert_transformation_table_duplicate:
  "has_key (coordinate_operation_with_conversion_view s) (auth_name r) (code r) \<Longrightarrow>
     insert_helmert_transformation_table s r = Inl (Abort ''insert on helmert_transformation violates constraint: (auth_name, code) must not already exist in coordinate_operation_with_conversion_view'')"
proof -
  assume dup: "has_key (coordinate_operation_with_conversion_view s) (auth_name r) (code r)"
  have "helmert_transformation_insert_trigger s r = Some (Abort ''insert on helmert_transformation violates constraint: (auth_name, code) must not already exist in coordinate_operation_with_conversion_view'')"
    unfolding helmert_transformation_insert_trigger_def
    by (rule run_rules_first) (use dup in \<open>simp add: is_true_exists_key\<close>)
  then show ?thesis
    by (simp add: insert_helmert_transformation_table_def insert_row_def)
qed

lemma insert_helmert_transformation_table_new_key:
  "insert_helmert_transformation_table s r = Inr s' \<Longrightarrow> \<not> has_key (coordinate_operation_with_conversion_view s) (auth_name r) (code r)"
  using insert_helmert_transformation_table_duplicate [of s r] by auto

lemma insert_other_transformation_duplicate:
  "has_key (coordinate_operation_with_conversion_view s) (auth_name r) (code r) \<Longrightarrow>
     insert_other_transformation s r = Inl (Abort ''insert on other_transformation violates constraint: (auth_name, code) must not already exist in coordinate_operation_with_conversion_view'')"
proof -
  assume dup: "has_key (coordinate_operation_with_conversion_view s) (auth_name r) (code r)"
  have "other_transformation_insert_trigger s r = Some (Abort ''insert on other_transformation violates constraint: (auth_name, code) must not already exist in coordinate_operation_with_conversion_view'')"
    unfolding other_transformation_insert_trigger_def
    by (rule run_rules_first) (use dup in \<open>simp add: is_true_exists_key\<close>)
  then show ?thesis
    by (simp add: insert_other_transformation_def insert_row_def)
qed

lemma insert_other_transformation_new_key:
  "insert_other_transformation s r = Inr s' \<Longrightarrow> \<not> has_key (coordinate_operation_with_conversion_view s) (auth_name r) (code r)"
  using insert_other_transformation_duplicate [of s r] by auto

lemma insert_concatenated_operation_duplicate:
  "has_key (coordinate_operation_with_conversion_view s) (auth_name r) (code r) \<Longrightarrow>
     insert_concatenated_operation s r = Inl (Abort ''insert on concatenated_operation violates constraint: (auth_name, code) must not already exist in coordinate_operation_with_conversion_view'')"
proof -
  assume dup: "has_key (coordinate_operation_with_conversion_view s) (auth_name r) (code r)"
  have "concatenated_operation_insert_trigger s r = Some (Abort ''insert on concatenated_operation violates constraint: (auth_name, code) must not already exist in coordinate_operation_with_conversion_view'')"
    unfolding concatenated_operation_insert_trigger_def
    by (rule run_rules_first) (use dup in \<open>simp add: is_true_exists_key\<close>)
  then show ?thesis
    by (simp add: insert_concatenated_operation_def insert_row_def)
qed

lemma insert_concatenated_operation_new_key:
  "insert_concatenated_operation s r = Inr s' \<Longrightarrow> \<not> has_key (coordinate_operation_with_conversion_view s) (auth_name r) (code r)"
  using insert_concatenated_operation_duplicate [of s r] by auto

lemma insert_conversion_table_duplicate:
  "has_key (coordinate_operation_with_conversion_view s) (auth_name r) (code r) \<Longrightarrow>
     insert_conversion_table s r = Inl (Abort ''insert on conversion_table violates constraint: (auth_name, code) must not already exist in coordinate_operation_with_conversion_view'')"
proof -
  assume dup: "has_key (coordinate_operation_with_conversion_view s) (auth_name r) (code r)"
  have "conversion_table_insert_trigger s r = Some (Abort ''insert on conversion_table violates constraint: (auth_name, code) must not already exist in coordinate_operation_with_conversion_view'')"
    unfolding conversion_table_insert_trigger_def
    by (rule run_rules_first) (use dup in \<open>simp add: is_true_exists_key\<close>)
  then show ?thesis
    by (simp add: insert_conversion_table_def insert_row_def)
qed

lemma insert_conversion_table_new_key:
  "insert_conversion_table s r = Inr s' \<Longrightarrow> \<not> has_key (coordinate_operation_with_conversion_view s) (auth_name r) (code r)"
  using insert_conversion_table_duplicate [of s r] by auto


lemma crs_view_tags:
  "(\<lambda>v. (auth_name v, code v, crs_view_row.table_name v)) ` set (crs_view s) =
     (\<lambda>r. (auth_name r, code r, ''geodetic_crs'')) ` set (geodetic_crs s)
     \<union> (\<lambda>r. (auth_name r, code r, ''projected_crs'')) ` set (projected_crs s)
     \<union> (\<lambda>r. (auth_name r, code r, ''vertical_crs'')) ` set (vertical_crs s)
     \<union> (\<lambda>r. (auth_name r, code r, ''compound_crs'')) ` set (compound_crs s)"
  by (simp add: crs_view_def image_Un image_image Un_assoc)

lemma helmert_transformation_keys:
  "(\<lambda>(h, m). f h) ` set (helmert_transformation s) = f ` set (helmert_transformation_table s)"
proof -
  have "\<exists>m. m \<in> set (left_join_matches ys cond)" for ys :: "coordinate_operation_method list" and cond
    using left_join_matches_nonempty [of ys cond] by (cases "left_join_matches ys cond") auto
  then show ?thesis
    by (fastforce simp: helmert_transformation_def image_iff)
qed

lemma coordinate_operation_with_conversion_view_tags:
  "(\<lambda>v. (auth_name v, code v, coordinate_operation_with_conversion_view_row.type v))
       ` set (coordinate_operation_with_conversion_view s) =
     (\<lambda>r. (auth_name r, code r, ''grid_transformation'')) ` set (grid_transformation s)
     \<union> (\<lambda>r. (auth_name r, code r, ''helmert_transformation'')) ` set (helmert_transformation_table s)
     \<union> (\<lambda>r. (auth_name r, code r, ''other_transformation'')) ` set (other_transformation s)
     \<union> (\<lambda>r. (auth_name r, code r, ''concatenated_operation'')) ` set (concatenated_operation s)
     \<union> (\<lambda>r. (auth_name r, code r, ''conversion'')) ` set (conversion_table s)"
  by (simp add: coordinate_operation_with_conversion_view_def coordinate_operation_view_def
      image_Un image_image case_prod_unfold Un_assoc
      helmert_transformation_keys
        [of "\<lambda>h. (auth_name h, code h, ''helmert_transformation'')", unfolded case_prod_unfold])


lemma has_key_crs_view_tags:
  "has_key (crs_view s) a c \<longleftrightarrow>
     (\<exists>k. (a, c, k) \<in> (\<lambda>v. (auth_name v, code v, crs_view_row.table_name v)) ` set (crs_view s))"
proof
  assume "has_key (crs_view s) a c"
  then obtain v where v: "v \<in> set (crs_view s)" "auth_name v = a" "code v = c"
    by (auto simp: has_key_iff)
  from v(1) have "(auth_name v, code v, crs_view_row.table_name v)
      \<in> (\<lambda>v. (auth_name v, code v, crs_view_row.table_name v)) ` set (crs_view s)"
    by (rule imageI)
  with v show "\<exists>k. (a, c, k) \<in> (\<lambda>v. (auth_name v, code v, crs_view_row.table_name v)) ` set (crs_view s)"
    by blast
next
  assume "\<exists>k. (a, c, k) \<in> (\<lambda>v. (auth_name v, code v, crs_view_row.table_name v)) ` set (crs_view s)"
  then obtain k v where "v \<in> set (crs_view s)" "(a, c, k) = (auth_name v, code v, crs_view_row.table_name v)"
    by blast
  then show "has_key (crs_view s) a c"
    by (auto simp: has_key_iff)
qed

lemma has_key_operation_view_tags:
  "has_key (coordinate_operation_with_conversion_view s) a c \<longleftrightarrow>
     (\<exists>k. (a, c, k) \<in> (\<lambda>v. (auth_name v, code v, coordinate_operation_with_conversion_view_row.type v))
       ` set (coordinate_operation_with_conversion_view s))"
proof
  assume "has_key (coordinate_operation_with_conversion_view s) a c"
  then obtain v where v: "v \<in> set (coordinate_operation_with_conversion_view s)" "auth_name v = a" "code v = c"
    by (auto simp: has_key_iff)
  from v(1) have "(auth_name v, code v, coordinate_operation_with_conversion_view_row.type v)
      \<in> (\<lambda>v. (auth_name v, code v, coordinate_operation_with_conversion_view_row.type v)) ` set (coordinate_operation_with_conversion_view s)"
    by (rule imageI)
  with v show "\<exists>k. (a, c, k) \<in> (\<lambda>v. (auth_name v, code v, coordinate_operation_with_conversion_view_row.type v)) ` set (coordinate_operation_with_conversion_view s)"
    by blast
next
  assume "\<exists>k. (a, c, k) \<in> (\<lambda>v. (auth_name v, code v, coordinate_operation_with_conversion_view_row.type v)) ` set (coordinate_operation_with_conversion_view s)"
  then obtain k v where "v \<in> set (coordinate_operation_with_conversion_view s)" "(a, c, k) = (auth_name v, code v, coordinate_operation_with_conversion_view_row.type v)"
    by blast
  then show "has_key (coordinate_operation_with_conversion_view s) a c"
    by (auto simp: has_key_iff)
qed

lemma single_kind_insert:
  assumes "\<forall>a c k k'. (a, c, k) \<in> T \<and> (a, c, k') \<in> T \<longrightarrow> k = k'"
    and "\<not> (\<exists>k. (a0, c0, k) \<in> T)"
  shows "\<forall>a c k k'. (a, c, k) \<in> insert (a0, c0, k0) T \<and> (a, c, k') \<in> insert (a0, c0, k0) T
           \<longrightarrow> k = k'"
  using assms by blast

lemma crs_single_kind_step:
  assumes inv: "\<forall>a c k k'. (a, c, k) \<in> (\<lambda>v. (auth_name v, code v, crs_view_row.table_name v)) ` set (crs_view s)
            \<and> (a, c, k') \<in> (\<lambda>v. (auth_name v, code v, crs_view_row.table_name v)) ` set (crs_view s) \<longrightarrow> k = k'"
    and step: "execute s st = Inr s'"
  shows "\<forall>a c k k'. (a, c, k) \<in> (\<lambda>v. (auth_name v, code v, crs_view_row.table_name v)) ` set (crs_view s')
            \<and> (a, c, k') \<in> (\<lambda>v. (auth_name v, code v, crs_view_row.table_name v)) ` set (crs_view s') \<longrightarrow> k = k'"
proof (cases st)
  case (Insert_unit_of_measure r)
  with step have ins: "insert_unit_of_measure s r = Inr s'" by simp
  have same: "(\<lambda>v. (auth_name v, code v, crs_view_row.table_name v)) ` set (crs_view s')
      = (\<lambda>v. (auth_name v, code v, crs_view_row.table_name v)) ` set (crs_view s)"
    unfolding crs_view_tags insert_unit_of_measure_Inr [OF ins] by simp
  show ?thesis unfolding same by (rule inv)
next
  case (Insert_celestial_body r)
  with step have ins: "insert_celestial_body s r = Inr s'" by simp
  have same: "(\<lambda>v. (auth_name v, code v, crs_view_row.table_name v)) ` set (crs_view s')
      = (\<lambda>v. (auth_name v, code v, crs_view_row.table_name v)) ` set (crs_view s)"
    unfolding crs_view_tags insert_celestial_body_Inr [OF ins] by simp
  show ?thesis unfolding same by (rule inv)
next
  case (Insert_ellipsoid r)
  with step have ins: "insert_ellipsoid s r = Inr s'" by simp
  have same: "(\<lambda>v. (auth_name v, code v, crs_view_row.table_name v)) ` set (crs_view s')
      = (\<lambda>v. (auth_name v, code v, crs_view_row.table_name v)) ` set (crs_view s)"
    unfolding crs_view_tags insert_ellipsoid_Inr [OF ins] by simp
  show ?thesis unfolding same by (rule inv)
next
  case (Insert_area r)
  with step have ins: "insert_area s r = Inr s'" by simp
  have same: "(\<lambda>v. (auth_name v, code v, crs_view_row.table_name v)) ` set (crs_view s')
      = (\<lambda>v. (auth_name v, code v, crs_view_row.table_name v)) ` set (crs_view s)"
    unfolding crs_view_tags insert_area_Inr [OF ins] by simp
  show ?thesis unfolding same by (rule inv)
next
  case (Insert_prime_meridian r)
  with step have ins: "insert_prime_meridian s r = Inr s'" by simp
  have same: "(\<lambda>v. (auth_name v, code v, crs_view_row.table_name v)) ` set (crs_view s')
      = (\<lambda>v. (auth_name v, code v, crs_view_row.table_name v)) ` set (crs_view s)"
    unfolding crs_view_tags insert_prime_meridian_Inr [OF ins] by simp
  show ?thesis unfolding same by (rule inv)
next
  case (Insert_geodetic_datum r)
  with step have ins: "insert_geodetic_datum s r = Inr s'" by simp
  have same: "(\<lambda>v. (auth_name v, code v, crs_view_row.table_name v)) ` set (crs_view s')
      = (\<lambda>v. (auth_name v, code v, crs_view_row.table_name v)) ` set (crs_view s)"
    unfolding crs_view_tags insert_geodetic_datum_Inr [OF ins] by simp
  show ?thesis unfolding same by (rule inv)
next
  case (Insert_vertical_datum r)
  with step have ins: "insert_vertical_datum s r = Inr s'" by simp
  have same: "(\<lambda>v. (auth_name v, code v, crs_view_row.table_name v)) ` set (crs_view s')
      = (\<lambda>v. (auth_name v, code v, crs_view_row.table_name v)) ` set (crs_view s)"
    unfolding crs_view_tags insert_vertical_datum_Inr [OF ins] by simp
  show ?thesis unfolding same by (rule inv)
next
  case (Insert_coordinate_system r)
  with step have ins: "insert_coordinate_system s r = Inr s'" by simp
  have same: "(\<lambda>v. (auth_name v, code v, crs_view_row.table_name v)) ` set (crs_view s')
      = (\<lambda>v. (auth_name v, code v, crs_view_row.table_name v)) ` set (crs_view s)"
    unfolding crs_view_tags insert_coordinate_system_Inr [OF ins] by simp
  show ?thesis unfolding same by (rule inv)
next
  case (Insert_geodetic_crs r)
  with step have ins: "insert_geodetic_crs s r = Inr s'" by simp
  have tags: "(\<lambda>v. (auth_name v, code v, crs_view_row.table_name v)) ` set (crs_view s')
      = insert (auth_name r, code r, ''geodetic_crs'')
          ((\<lambda>v. (auth_name v, code v, crs_view_row.table_name v)) ` set (crs_view s))"
    unfolding crs_view_tags insert_geodetic_crs_Inr [OF ins] by auto
  have new: "\<not> (\<exists>k. (auth_name r, code r, k) \<in> (\<lambda>v. (auth_name v, code v, crs_view_row.table_name v)) ` set (crs_view s))"
    using insert_geodetic_crs_new_key [OF ins] unfolding has_key_crs_view_tags .
  show ?thesis
    unfolding tags using inv new by (rule single_kind_insert)
next
  case (Insert_vertical_crs r)
  with step have ins: "insert_vertical_crs s r = Inr s'" by simp
  have tags: "(\<lambda>v. (auth_name v, code v, crs_view_row.table_name v)) ` set (crs_view s')
      = insert (auth_name r, code r, ''vertical_crs'')
          ((\<lambda>v. (auth_name v, code v, crs_view_row.table_name v)) ` set (crs_view s))"
    unfolding crs_view_tags insert_vertical_crs_Inr [OF ins] by auto
  have new: "\<not> (\<exists>k. (auth_name r, code r, k) \<in> (\<lambda>v. (auth_name v, code v, crs_view_row.table_name v)) ` set (crs_view s))"
    using insert_vertical_crs_new_key [OF ins] unfolding has_key_crs_view_tags .
  show ?thesis
    unfolding tags using inv new by (rule single_kind_insert)
next
  case (Insert_conversion_method r)
  with step have ins: "insert_conversion_method s r = Inr s'" by simp
  have same: "(\<lambda>v. (auth_name v, code v, crs_view_row.table_name v)) ` set (crs_view s')
      = (\<lambda>v. (auth_name v, code v, crs_view_row.table_name v)) ` set (crs_view s)"
    unfolding crs_view_tags insert_conversion_method_Inr [OF ins] by simp
  show ?thesis unfolding same by (rule inv)
next
  case (Insert_conversion_param r)
  with step have ins: "insert_conversion_param s r = Inr s'" by simp
  have same: "(\<lambda>v. (auth_name v, code v, crs_view_row.table_name v)) ` set (crs_view s')
      = (\<lambda>v. (auth_name v, code v, crs_view_row.table_name v)) ` set (crs_view s)"
    unfolding crs_view_tags insert_conversion_param_Inr [OF ins] by simp
  show ?thesis unfolding same by (rule inv)
next
  case (Insert_conversion_table r)
  with step have ins: "insert_conversion_table s r = Inr s'" by simp
  have same: "(\<lambda>v. (auth_name v, code v, crs_view_row.table_name v)) ` set (crs_view s')
      = (\<lambda>v. (auth_name v, code v, crs_view_row.table_name v)) ` set (crs_view s)"
    unfolding crs_view_tags insert_conversion_table_Inr [OF ins] by simp
  show ?thesis unfolding same by (rule inv)
next
  case (Insert_projected_crs r)
  with step have ins: "insert_projected_crs s r = Inr s'" by simp
  have tags: "(\<lambda>v. (auth_name v, code v, crs_view_row.table_name v)) ` set (crs_view s')
      = insert (auth_name r, code r, ''projected_crs'')
          ((\<lambda>v. (auth_name v, code v, crs_view_row.table_name v)) ` set (crs_view s))"
    unfolding crs_view_tags insert_projected_crs_Inr [OF ins] by auto
  have new: "\<not> (\<exists>k. (auth_name r, code r, k) \<in> (\<lambda>v. (auth_name v, code v, crs_view_row.table_name v)) ` set (crs_view s))"
    using insert_projected_crs_new_key [OF ins] unfolding has_key_crs_view_tags .
  show ?thesis
    unfolding tags using inv new by (rule single_kind_insert)
next
  case (Insert_compound_crs r)
  with step have ins: "insert_compound_crs s r = Inr s'" by simp
  have tags: "(\<lambda>v. (auth_name v, code v, crs_view_row.table_name v)) ` set (crs_view s')
      = insert (auth_name r, code r, ''compound_crs'')
          ((\<lambda>v. (auth_name v, code v, crs_view_row.table_name v)) ` set (crs_view s))"
    unfolding crs_view_tags insert_compound_crs_Inr [OF ins] by auto
  have new: "\<not> (\<exists>k. (auth_name r, code r, k) \<in> (\<lambda>v. (auth_name v, code v, crs_view_row.table_name v)) ` set (crs_view s))"
    using insert_compound_crs_new_key [OF ins] unfolding has_key_crs_view_tags .
  show ?thesis
    unfolding tags using inv new by (rule single_kind_insert)
next
  case (Insert_coordinate_operation_method r)
  with step have ins: "insert_coordinate_operation_method s r = Inr s'" by simp
  have same: "(\<lambda>v. (auth_name v, code v, crs_view_row.table_name v)) ` set (crs_view s')
      = (\<lambda>v. (auth_name v, code v, crs_view_row.table_name v)) ` set (crs_view s)"
    unfolding crs_view_tags insert_coordinate_operation_method_Inr [OF ins] by simp
  show ?thesis unfolding same by (rule inv)
next
  case (Insert_helmert_transformation_table r)
  with step have ins: "insert_helmert_transformation_table s r = Inr s'" by simp
  have same: "(\<lambda>v. (auth_name v, code v, crs_view_row.table_name v)) ` set (crs_view s')
      = (\<lambda>v. (auth_name v, code v, crs_view_row.table_name v)) ` set (crs_view s)"
    unfolding crs_view_tags insert_helmert_transformation_table_Inr [OF ins] by simp
  show ?thesis unfolding same by (rule inv)
next
  case (Insert_grid_transformation r)
  with step have ins: "insert_grid_transformation s r = Inr s'" by simp
  have same: "(\<lambda>v. (auth_name v, code v, crs_view_row.table_name v)) ` set (crs_view s')
      = (\<lambda>v. (auth_name v, code v, crs_view_row.table_name v)) ` set (crs_view s)"
    unfolding crs_view_tags insert_grid_transformation_Inr [OF ins] by simp
  show ?thesis unfolding same by (rule inv)
next
  case (Insert_grid_packages r)
  with step have ins: "insert_grid_packages s r = Inr s'" by simp
  have same: "(\<lambda>v. (auth_name v, code v, crs_view_row.table_name v)) ` set (crs_view s')
      = (\<lambda>v. (auth_name v, code v, crs_view_row.table_name v)) ` set (crs_view s)"
    unfolding crs_view_tags insert_grid_packages_Inr [OF ins] by simp
  show ?thesis unfolding same by (rule inv)
next
  case (Insert_grid_alternatives r)
  with step have ins: "insert_grid_alternatives s r = Inr s'" by simp
  have same: "(\<lambda>v. (auth_name v, code v, crs_view_row.table_name v)) ` set (crs_view s')
      = (\<lambda>v. (auth_name v, code v, crs_view_row.table_name v)) ` set (crs_view s)"
    unfolding crs_view_tags insert_grid_alternatives_Inr [OF ins] by simp
  show ?thesis unfolding same by (rule inv)
next
  case (Insert_other_transformation r)
  with step have ins: "insert_other_transformation s r = Inr s'" by simp
  have same: "(\<lambda>v. (auth_name v, code v, crs_view_row.table_name v)) ` set (crs_view s')
      = (\<lambda>v. (auth_name v, code v, crs_view_row.table_name v)) ` set (crs_view s)"
    unfolding crs_view_tags insert_other_transformation_Inr [OF ins] by simp
  show ?thesis unfolding same by (rule inv)
next
  case (Insert_concatenated_operation r)
  with step have ins: "insert_concatenated_operation s r = Inr s'" by simp
  have same: "(\<lambda>v. (auth_name v, code v, crs_view_row.table_name v)) ` set (crs_view s')
      = (\<lambda>v. (auth_name v, code v, crs_view_row.table_name v)) ` set (crs_view s)"
    unfolding crs_view_tags insert_concatenated_operation_Inr [OF ins] by simp
  show ?thesis unfolding same by (rule inv)
qed

lemma operation_single_kind_step:
  assumes inv: "\<forall>a c k k'. (a, c, k) \<in> (\<lambda>v. (auth_name v, code v, coordinate_operation_with_conversion_view_row.type v))
       ` set (coordinate_operation_with_conversion_view s)
            \<and> (a, c, k') \<in> (\<lambda>v. (auth_name v, code v, coordinate_operation_with_conversion_view_row.type v))
       ` set (coordinate_operation_with_conversion_view s) \<longrightarrow> k = k'"
    and step: "execute s st = Inr s'"
  shows "\<forall>a c k k'. (a, c, k) \<in> (\<lambda>v. (auth_name v, code v, coordinate_operation_with_conversion_view_row.type v))
       ` set (coordinate_operation_with_conversion_view s')
            \<and> (a, c, k') \<in> (\<lambda>v. (auth_name v, code v, coordinate_operation_with_conversion_view_row.type v))
       ` set (coordinate_operation_with_conversion_view s') \<longrightarrow> k = k'"
proof (cases st)
  case (Insert_unit_of_measure r)
  with step have ins: "insert_unit_of_measure s r = Inr s'" by simp
  have same: "(\<lambda>v. (auth_name v, code v, coordinate_operation_with_conversion_view_row.type v))
       ` set (coordinate_operation_with_conversion_view s')
      = (\<lambda>v. (auth_name v, code v, coordinate_operation_with_conversion_view_row.type v))
       ` set (coordinate_operation_with_conversion_view s)"
    unfolding coordinate_operation_with_conversion_view_tags insert_unit_of_measure_Inr [OF ins] by simp
  show ?thesis unfolding same by (rule inv)
next
  case (Insert_celestial_body r)
  with step have ins: "insert_celestial_body s r = Inr s'" by simp
  have same: "(\<lambda>v. (auth_name v, code v, coordinate_operation_with_conversion_view_row.type v))
       ` set (coordinate_operation_with_conversion_view s')
      = (\<lambda>v. (auth_name v, code v, coordinate_operation_with_conversion_view_row.type v))
       ` set (coordinate_operation_with_conversion_view s)"
    unfolding coordinate_operation_with_conversion_view_tags insert_celestial_body_Inr [OF ins] by simp
  show ?thesis unfolding same by (rule inv)
next
  case (Insert_ellipsoid r)
  with step have ins: "insert_ellipsoid s r = Inr s'" by simp
  have same: "(\<lambda>v. (auth_name v, code v, coordinate_operation_with_conversion_view_row.type v))
       ` set (coordinate_operation_with_conversion_view s')
      = (\<lambda>v. (auth_name v, code v, coordinate_operation_with_conversion_view_row.type v))
       ` set (coordinate_operation_with_conversion_view s)"
    unfolding coordinate_operation_with_conversion_view_tags insert_ellipsoid_Inr [OF ins] by simp
  show ?thesis unfolding same by (rule inv)
next
  case (Insert_area r)
  with step have ins: "insert_area s r = Inr s'" by simp
  have same: "(\<lambda>v. (auth_name v, code v, coordinate_operation_with_conversion_view_row.type v))
       ` set (coordinate_operation_with_conversion_view s')
      = (\<lambda>v. (auth_name v, code v, coordinate_operation_with_conversion_view_row.type v))
       ` set (coordinate_operation_with_conversion_view s)"
    unfolding coordinate_operation_with_conversion_view_tags insert_area_Inr [OF ins] by simp
  show ?thesis unfolding same by (rule inv)
next
  case (Insert_prime_meridian r)
  with step have ins: "insert_prime_meridian s r = Inr s'" by simp
  have same: "(\<lambda>v. (auth_name v, code v, coordinate_operation_with_conversion_view_row.type v))
       ` set (coordinate_operation_with_conversion_view s')
      = (\<lambda>v. (auth_name v, code v, coordinate_operation_with_conversion_view_row.type v))
       ` set (coordinate_operation_with_conversion_view s)"
    unfolding coordinate_operation_with_conversion_view_tags insert_prime_meridian_Inr [OF ins] by simp
  show ?thesis unfolding same by (rule inv)
next
  case (Insert_geodetic_datum r)
  with step have ins: "insert_geodetic_datum s r = Inr s'" by simp
  have same: "(\<lambda>v. (auth_name v, code v, coordinate_operation_with_conversion_view_row.type v))
       ` set (coordinate_operation_with_conversion_view s')
      = (\<lambda>v. (auth_name v, code v, coordinate_operation_with_conversion_view_row.type v))
       ` set (coordinate_operation_with_conversion_view s)"
    unfolding coordinate_operation_with_conversion_view_tags insert_geodetic_datum_Inr [OF ins] by simp
  show ?thesis unfolding same by (rule inv)
next
  case (Insert_vertical_datum r)
  with step have ins: "insert_vertical_datum s r = Inr s'" by simp
  have same: "(\<lambda>v. (auth_name v, code v, coordinate_operation_with_conversion_view_row.type v))
       ` set (coordinate_operation_with_conversion_view s')
      = (\<lambda>v. (auth_name v, code v, coordinate_operation_with_conversion_view_row.type v))
       ` set (coordinate_operation_with_conversion_view s)"
    unfolding coordinate_operation_with_conversion_view_tags insert_vertical_datum_Inr [OF ins] by simp
  show ?thesis unfolding same by (rule inv)
next
  case (Insert_coordinate_system r)
  with step have ins: "insert_coordinate_system s r = Inr s'" by simp
  have same: "(\<lambda>v. (auth_name v, code v, coordinate_operation_with_conversion_view_row.type v))
       ` set (coordinate_operation_with_conversion_view s')
      = (\<lambda>v. (auth_name v, code v, coordinate_operation_with_conversion_view_row.type v))
       ` set (coordinate_operation_with_conversion_view s)"
    unfolding coordinate_operation_with_conversion_view_tags insert_coordinate_system_Inr [OF ins] by simp
  show ?thesis unfolding same by (rule inv)
next
  case (Insert_geodetic_crs r)
  with step have ins: "insert_geodetic_crs s r = Inr s'" by simp
  have same: "(\<lambda>v. (auth_name v, code v, coordinate_operation_with_conversion_view_row.type v))
       ` set (coordinate_operation_with_conversion_view s')
      = (\<lambda>v. (auth_name v, code v, coordinate_operation_with_conversion_view_row.type v))
       ` set (coordinate_operation_with_conversion_view s)"
    unfolding coordinate_operation_with_conversion_view_tags insert_geodetic_crs_Inr [OF ins] by simp
  show ?thesis unfolding same by (rule inv)
next
  case (Insert_vertical_crs r)
  with step have ins: "insert_vertical_crs s r = Inr s'" by simp
  have same: "(\<lambda>v. (auth_name v, code v, coordinate_operation_with_conversion_view_row.type v))
       ` set (coordinate_operation_with_conversion_view s')
      = (\<lambda>v. (auth_name v, code v, coordinate_operation_with_conversion_view_row.type v))
       ` set (coordinate_operation_with_conversion_view s)"
    unfolding coordinate_operation_with_conversion_view_tags insert_vertical_crs_Inr [OF ins] by simp
  show ?thesis unfolding same by (rule inv)
next
  case (Insert_conversion_method r)
  with step have ins: "insert_conversion_method s r = Inr s'" by simp
  have same: "(\<lambda>v. (auth_name v, code v, coordinate_operation_with_conversion_view_row.type v))
       ` set (coordinate_operation_with_conversion_view s')
      = (\<lambda>v. (auth_name v, code v, coordinate_operation_with_conversion_view_row.type v))
       ` set (coordinate_operation_with_conversion_view s)"
    unfolding coordinate_operation_with_conversion_view_tags insert_conversion_method_Inr [OF ins] by simp
  show ?thesis unfolding same by (rule inv)
next
  case (Insert_conversion_param r)
  with step have ins: "insert_conversion_param s r = Inr s'" by simp
  have same: "(\<lambda>v. (auth_name v, code v, coordinate_operation_with_conversion_view_row.type v))
       ` set (coordinate_operation_with_conversion_view s')
      = (\<lambda>v. (auth_name v, code v, coordinate_operation_with_conversion_view_row.type v))
       ` set (coordinate_operation_with_conversion_view s)"
    unfolding coordinate_operation_with_conversion_view_tags insert_conversion_param_Inr [OF ins] by simp
  show ?thesis unfolding same by (rule inv)
next
  case (Insert_conversion_table r)
  with step have ins: "insert_conversion_table s r = Inr s'" by simp
  have tags: "(\<lambda>v. (auth_name v, code v, coordinate_operation_with_conversion_view_row.type v))
       ` set (coordinate_operation_with_conversion_view s')
      = insert (auth_name r, code r, ''conversion'')
          ((\<lambda>v. (auth_name v, code v, coordinate_operation_with_conversion_view_row.type v))
       ` set (coordinate_operation_with_conversion_view s))"
    unfolding coordinate_operation_with_conversion_view_tags insert_conversion_table_Inr [OF ins] by auto
  have new: "\<not> (\<exists>k. (auth_name r, code r, k) \<in> (\<lambda>v. (auth_name v, code v, coordinate_operation_with_conversion_view_row.type v))
       ` set (coordinate_operation_with_conversion_view s))"
    using insert_conversion_table_new_key [OF ins] unfolding has_key_operation_view_tags .
  show ?thesis
    unfolding tags using inv new by (rule single_kind_insert)
next
  case (Insert_projected_crs r)
  with step have ins: "insert_projected_crs s r = Inr s'" by simp
  have same: "(\<lambda>v. (auth_name v, code v, coordinate_operation_with_conversion_view_row.type v))
       ` set (coordinate_operation_with_conversion_view s')
      = (\<lambda>v. (auth_name v, code v, coordinate_operation_with_conversion_view_row.type v))
       ` set (coordinate_operation_with_conversion_view s)"
    unfolding coordinate_operation_with_conversion_view_tags insert_projected_crs_Inr [OF ins] by simp
  show ?thesis unfolding same by (rule inv)
next
  case (Insert_compound_crs r)
  with step have ins: "insert_compound_crs s r = Inr s'" by simp
  have same: "(\<lambda>v. (auth_name v, code v, coordinate_operation_with_conversion_view_row.type v))
       ` set (coordinate_operation_with_conversion_view s')
      = (\<lambda>v. (auth_name v, code v, coordinate_operation_with_conversion_view_row.type v))
       ` set (coordinate_operation_with_conversion_view s)"
    unfolding coordinate_operation_with_conversion_view_tags insert_compound_crs_Inr [OF ins] by simp
  show ?thesis unfolding same by (rule inv)
next
  case (Insert_coordinate_operation_method r)
  with step have ins: "insert_coordinate_operation_method s r = Inr s'" by simp
  have same: "(\<lambda>v. (auth_name v, code v, coordinate_operation_with_conversion_view_row.type v))
       ` set (coordinate_operation_with_conversion_view s')
      = (\<lambda>v. (auth_name v, code v, coordinate_operation_with_conversion_view_row.type v))
       ` set (coordinate_operation_with_conversion_view s)"
    unfolding coordinate_operation_with_conversion_view_tags insert_coordinate_operation_method_Inr [OF ins] by simp
  show ?thesis unfolding same by (rule inv)
next
  case (Insert_helmert_transformation_table r)
  with step have ins: "insert_helmert_transformation_table s r = Inr s'" by simp
  have tags: "(\<lambda>v. (auth_name v, code v, coordinate_operation_with_conversion_view_row.type v))
       ` set (coordinate_operation_with_conversion_view s')
      = insert (auth_name r, code r, ''helmert_transformation'')
          ((\<lambda>v. (auth_name v, code v, coordinate_operation_with_conversion_view_row.type v))
       ` set (coordinate_operation_with_conversion_view s))"
    unfolding coordinate_operation_with_conversion_view_tags insert_helmert_transformation_table_Inr [OF ins] by auto
  have new: "\<not> (\<exists>k. (auth_name r, code r, k) \<in> (\<lambda>v. (auth_name v, code v, coordinate_operation_with_conversion_view_row.type v))
       ` set (coordinate_operation_with_conversion_view s))"
    using insert_helmert_transformation_table_new_key [OF ins] unfolding has_key_operation_view_tags .
  show ?thesis
    unfolding tags using inv new by (rule single_kind_insert)
next
  case (Insert_grid_transformation r)
  with step have ins: "insert_grid_transformation s r = Inr s'" by simp
  have tags: "(\<lambda>v. (auth_name v, code v, coordinate_operation_with_conversion_view_row.type v))
       ` set (coordinate_operation_with_conversion_view s')
      = insert (auth_name r, code r, ''grid_transformation'')
          ((\<lambda>v. (auth_name v, code v, coordinate_operation_with_conversion_view_row.type v))
       ` set (coordinate_operation_with_conversion_view s))"
    unfolding coordinate_operation_with_conversion_view_tags insert_grid_transformation_Inr [OF ins] by auto
  have new: "\<not> (\<exists>k. (auth_name r, code r, k) \<in> (\<lambda>v. (auth_name v, code v, coordinate_operation_with_conversion_view_row.type v))
       ` set (coordinate_operation_with_conversion_view s))"
    using insert_grid_transformation_new_key [OF ins] unfolding has_key_operation_view_tags .
  show ?thesis
    unfolding tags using inv new by (rule single_kind_insert)
next
  case (Insert_grid_packages r)
  with step have ins: "insert_grid_packages s r = Inr s'" by simp
  have same: "(\<lambda>v. (auth_name v, code v, coordinate_operation_with_conversion_view_row.type v))
       ` set (coordinate_operation_with_conversion_view s')
      = (\<lambda>v. (auth_name v, code v, coordinate_operation_with_conversion_view_row.type v))
       ` set (coordinate_operation_with_conversion_view s)"
    unfolding coordinate_operation_with_conversion_view_tags insert_grid_packages_Inr [OF ins] by simp
  show ?thesis unfolding same by (rule inv)
next
  case (Insert_grid_alternatives r)
  with step have ins: "insert_grid_alternatives s r = Inr s'" by simp
  have same: "(\<lambda>v. (auth_name v, code v, coordinate_operation_with_conversion_view_row.type v))
       ` set (coordinate_operation_with_conversion_view s')
      = (\<lambda>v. (auth_name v, code v, coordinate_operation_with_conversion_view_row.type v))
       ` set (coordinate_operation_with_conversion_view s)"
    unfolding coordinate_operation_with_conversion_view_tags insert_grid_alternatives_Inr [OF ins] by simp
  show ?thesis unfolding same by (rule inv)
next
  case (Insert_other_transformation r)
  with step have ins: "insert_other_transformation s r = Inr s'" by simp
  have tags: "(\<lambda>v. (auth_name v, code v, coordinate_operation_with_conversion_view_row.type v))
       ` set (coordinate_operation_with_conversion_view s')
      = insert (auth_name r, code r, ''other_transformation'')
          ((\<lambda>v. (auth_name v, code v, coordinate_operation_with_conversion_view_row.type v))
       ` set (coordinate_operation_with_conversion_view s))"
    unfolding coordinate_operation_with_conversion_view_tags insert_other_transformation_Inr [OF ins] by auto
  have new: "\<not> (\<exists>k. (auth_name r, code r, k) \<in> (\<lambda>v. (auth_name v, code v, coordinate_operation_with_conversion_view_row.type v))
       ` set (coordinate_operation_with_conversion_view s))"
    using insert_other_transformation_new_key [OF ins] unfolding has_key_operation_view_tags .
  show ?thesis
    unfolding tags using inv new by (rule single_kind_insert)
next
  case (Insert_concatenated_operation r)
  with step have ins: "insert_concatenated_operation s r = Inr s'" by simp
  have tags: "(\<lambda>v. (auth_name v, code v, coordinate_operation_with_conversion_view_row.type v))
       ` set (coordinate_operation_with_conversion_view s')
      = insert (auth_name r, code r, ''concatenated_operation'')
          ((\<lambda>v. (auth_name v, code v, coordinate_operation_with_conversion_view_row.type v))
       ` set (coordinate_operation_with_conversion_view s))"
    unfolding coordinate_operation_with_conversion_view_tags insert_concatenated_operation_Inr [OF ins] by auto
  have new: "\<not> (\<exists>k. (auth_name r, code r, k) \<in> (\<lambda>v. (auth_name v, code v, coordinate_operation_with_conversion_view_row.type v))
       ` set (coordinate_operation_with_conversion_view s))"
    using insert_concatenated_operation_new_key [OF ins] unfolding has_key_operation_view_tags .
  show ?thesis
    unfolding tags using inv new by (rule single_kind_insert)
qed

lemma reachable_single_kind:
  assumes "reachable s"
  shows "\<forall>a c k k'. (a, c, k) \<in> (\<lambda>v. (auth_name v, code v, crs_view_row.table_name v)) ` set (crs_view s)
            \<and> (a, c, k') \<in> (\<lambda>v. (auth_name v, code v, crs_view_row.table_name v)) ` set (crs_view s) \<longrightarrow> k = k'"
    and "\<forall>a c k k'. (a, c, k) \<in> (\<lambda>v. (auth_name v, code v, coordinate_operation_with_conversion_view_row.type v))
       ` set (coordinate_operation_with_conversion_view s)
            \<and> (a, c, k') \<in> (\<lambda>v. (auth_name v, code v, coordinate_operation_with_conversion_view_row.type v))
       ` set (coordinate_operation_with_conversion_view s) \<longrightarrow> k = k'"
  using assms
proof (induction rule: reachable.induct)
  case initial
  {
    case 1
    show ?case by (simp add: crs_view_tags initial_db_def)
  next
    case 2
    show ?case by (simp add: coordinate_operation_with_conversion_view_tags initial_db_def)
  }
next
  case (step s st s')
  {
    case 1
    from step.IH(1) step.hyps(2) show ?case by (rule crs_single_kind_step)
  next
    case 2
    from step.IH(2) step.hyps(2) show ?case by (rule operation_single_kind_step)
  }
qed

lemma execute_all_reachable:
  "reachable s \<Longrightarrow> execute_all s sts = Inr s' \<Longrightarrow> reachable s'"
proof (induction sts arbitrary: s)
  case Nil
  then show ?case by simp
next
  case (Cons st sts)
  from Cons.prems(2) obtain s1 where s1: "execute s st = Inr s1" "execute_all s1 sts = Inr s'"
    by (auto split: sum.splits)
  from Cons.prems(1) s1(1) have "reachable s1" by (rule reachable.step)
  then show ?case using s1(2) by (rule Cons.IH)
qed

lemmas insert_defs =
  insert_unit_of_measure_def unit_of_measure_constraints_def
  insert_ellipsoid_def ellipsoid_insert_trigger_def ellipsoid_constraints_def
  insert_area_def area_insert_trigger_def area_constraints_def
  insert_prime_meridian_def prime_meridian_insert_trigger_def prime_meridian_constraints_def
  insert_geodetic_datum_def geodetic_datum_insert_trigger_def geodetic_datum_constraints_def
  insert_vertical_datum_def vertical_datum_insert_trigger_def vertical_datum_constraints_def
  insert_coordinate_system_def coordinate_system_insert_trigger_def
  coordinate_system_constraints_def
  insert_geodetic_crs_def geodetic_crs_insert_trigger_def geodetic_crs_constraints_def
  insert_conversion_method_def conversion_method_insert_trigger_def
  conversion_method_constraints_def known_conversion_methods_def
  insert_conversion_table_def conversion_table_insert_trigger_def
  conversion_table_constraints_def conversion_table_checks_def
      conversion_table_foreign_keys_def sql_length_def
  insert_coordinate_operation_method_def coordinate_operation_method_constraints_def
  insert_helmert_transformation_table_def helmert_transformation_insert_trigger_def
  helmert_transformation_table_constraints_def
  insert_concatenated_operation_def concatenated_operation_insert_trigger_def
  concatenated_operation_constraints_def

lemma example_db_loaded: "execute_all initial_db example_load = Inr example_db"
  by (simp add: example_load_def insert_defs view_defs example_defs eval_defs)

lemma reachable_example_db: "reachable example_db"
  using reachable.initial example_db_loaded by (rule execute_all_reachable)

lemma has_key_tagged:
  "has_key rows a b \<Longrightarrow> (a, b, kind) \<in> (\<lambda>r. (auth_name r, code r, kind)) ` set rows"
  by (force simp: has_key_iff)

lemma reachable_crs_tables_disjoint:
  assumes "reachable s"
  shows "length (filter (\<lambda>holds. holds a b)
             [has_key (geodetic_crs s), has_key (projected_crs s),
              has_key (vertical_crs s), has_key (compound_crs s)]) \<le> 1"
proof -
  note single = reachable_single_kind(1) [OF assms, unfolded crs_view_tags, rule_format]
  have "k = k'" if "has_key (geodetic_crs s) a b \<and> k = ''geodetic_crs''
        \<or> has_key (projected_crs s) a b \<and> k = ''projected_crs''
        \<or> has_key (vertical_crs s) a b \<and> k = ''vertical_crs''
        \<or> has_key (compound_crs s) a b \<and> k = ''compound_crs''"
      and "has_key (geodetic_crs s) a b \<and> k' = ''geodetic_crs''
        \<or> has_key (projected_crs s) a b \<and> k' = ''projected_crs''
        \<or> has_key (vertical_crs s) a b \<and> k' = ''vertical_crs''
        \<or> has_key (compound_crs s) a b \<and> k' = ''compound_crs''" for k k'
    using that by (intro single [of a b k k']) (auto dest: has_key_tagged)
  from this [of "''geodetic_crs''" "''projected_crs''"]
    this [of "''geodetic_crs''" "''vertical_crs''"]
    this [of "''geodetic_crs''" "''compound_crs''"]
    this [of "''projected_crs''" "''vertical_crs''"]
    this [of "''projected_crs''" "''compound_crs''"]
    this [of "''vertical_crs''" "''compound_crs''"]
  show ?thesis by auto
qed

lemma reachable_operation_tables_disjoint:
  assumes "reachable s"
  shows "length (filter (\<lambda>holds. holds a b)
             [has_key (conversion_table s), has_key (helmert_transformation_table s),
              has_key (grid_transformation s), has_key (other_transformation s),
              has_key (concatenated_operation s)]) \<le> 1"
proof -
  note single = reachable_single_kind(2)
      [OF assms, unfolded coordinate_operation_with_conversion_view_tags, rule_format]
  have "k = k'" if "has_key (grid_transformation s) a b \<and> k = ''grid_transformation''
        \<or> has_key (helmert_transformation_table s) a b \<and> k = ''helmert_transformation''
        \<or> has_key (other_transformation s) a b \<and> k = ''other_transformation''
        \<or> has_key (concatenated_operation s) a b \<and> k = ''concatenated_operation''
        \<or> has_key (conversion_table s) a b \<and> k = ''conversion''"
      and "has_key (grid_transformation s) a b \<and> k' = ''grid_transformation''
        \<or> has_key (helmert_transformation_table s) a b \<and> k' = ''helmert_transformation''
        \<or> has_key (other_transformation s) a b \<and> k' = ''other_transformation''
        \<or> has_key (concatenated_operation s) a b \<and> k' = ''concatenated_operation''
        \<or> has_key (conversion_table s) a b \<and> k' = ''conversion''" for k k'
    using that by (intro single [of a b k k']) (auto dest: has_key_tagged)
  from this [of "''grid_transformation''" "''helmert_transformation''"]
    this [of "''grid_transformation''" "''other_transformation''"]
    this [of "''grid_transformation''" "''concatenated_operation''"]
    this [of "''grid_transformation''" "''conversion''"]
    this [of "''helmert_transformation''" "''other_transformation''"]
    this [of "''helmert_transformation''" "''concatenated_operation''"]
    this [of "''helmert_transformation''" "''conversion''"]
    this [of "''other_transformation''" "''concatenated_operation''"]
    this [of "''other_transformation''" "''conversion''"]
    this [of "''concatenated_operation''" "''conversion''"]
  show ?thesis by auto
qed

lemma reachable_view_single_kind:
  assumes "reachable s"
  shows "\<forall>x\<in>set (crs_view s). \<forall>y\<in>set (crs_view s).
         auth_name x = auth_name y \<and> code x = code y \<longrightarrow>
         crs_view_row.table_name x = crs_view_row.table_name y"
    and "\<forall>x\<in>set (coordinate_operation_with_conversion_view s).
           \<forall>y\<in>set (coordinate_operation_with_conversion_view s).
         auth_name x = auth_name y \<and> code x = code y \<longrightarrow>
         coordinate_operation_with_conversion_view_row.type x
           = coordinate_operation_with_conversion_view_row.type y"
proof -
  show "\<forall>x\<in>set (crs_view s). \<forall>y\<in>set (crs_view s).
         auth_name x = auth_name y \<and> code x = code y \<longrightarrow>
         crs_view_row.table_name x = crs_view_row.table_name y"
  proof (intro ballI impI)
    fix x y
    assume x: "x \<in> set (crs_view s)" and y: "y \<in> set (crs_view s)"
      and key: "auth_name x = auth_name y \<and> code x = code y"
    from x have "(auth_name x, code x, crs_view_row.table_name x)
        \<in> (\<lambda>v. (auth_name v, code v, crs_view_row.table_name v)) ` set (crs_view s)"
      by (rule imageI)
    moreover from y key have "(auth_name x, code x, crs_view_row.table_name y)
        \<in> (\<lambda>v. (auth_name v, code v, crs_view_row.table_name v)) ` set (crs_view s)"
      by (auto intro: rev_image_eqI)
    ultimately show "crs_view_row.table_name x = crs_view_row.table_name y"
      using reachable_single_kind(1) [OF assms] by blast
  qed
  show "\<forall>x\<in>set (coordinate_operation_with_conversion_view s).
           \<forall>y\<in>set (coordinate_operation_with_conversion_view s).
         auth_name x = auth_name y \<and> code x = code y \<longrightarrow>
         coordinate_operation_with_conversion_view_row.type x
           = coordinate_operation_with_conversion_view_row.type y"
  proof (intro ballI impI)
    fix x y
    assume x: "x \<in> set (coordinate_operation_with_conversion_view s)"
      and y: "y \<in> set (coordinate_operation_with_conversion_view s)"
      and key: "auth_name x = auth_name y \<and> code x = code y"
    from x have "(auth_name x, code x, coordinate_operation_with_conversion_view_row.type x)
        \<in> (\<lambda>v. (auth_name v, code v, coordinate_operation_with_conversion_view_row.type v))
            ` set (coordinate_operation_with_conversion_view s)"
      by (rule imageI)
    moreover from y key
    have "(auth_name x, code x, coordinate_operation_with_conversion_view_row.type y)
        \<in> (\<lambda>v. (auth_name v, code v, coordinate_operation_with_conversion_view_row.type v))
            ` set (coordinate_operation_with_conversion_view s)"
      by (auto intro: rev_image_eqI)
    ultimately show "coordinate_operation_with_conversion_view_row.type x
           = coordinate_operation_with_conversion_view_row.type y"
      using reachable_single_kind(2) [OF assms] by blast
  qed
qed

text \<open>
  C5. In every reachable state two rows of \<^verbatim>\<open>crs_view\<close> with the same
  \<open>(auth_name, code)\<close> carry the same kind tag, and so do two rows of
  \<^verbatim>\<open>coordinate_operation_with_conversion_view\<close>; in terms of the tables, a key is the
  key of at most one of the four CRS tables and of at most one of the five operation
  tables. The insert into each of the nine tables looks the new key up in the union
  view and aborts with the message of its first rule when the key is there.
\<close>

theorem crs_and_operation_namespaces_single_kind:
  "(reachable s \<longrightarrow>
      (\<forall>x\<in>set (crs_view s). \<forall>y\<in>set (crs_view s).
         auth_name x = auth_name y \<and> code x = code y \<longrightarrow>
         crs_view_row.table_name x = crs_view_row.table_name y)
      \<and> (\<forall>x\<in>set (coordinate_operation_with_conversion_view s).
           \<forall>y\<in>set (coordinate_operation_with_conversion_view s).
         auth_name x = auth_name y \<and> code x = code y \<longrightarrow>
         coordinate_operation_with_conversion_view_row.type x
           = coordinate_operation_with_conversion_view_row.type y)
      \<and> (\<forall>a b. length (filter (\<lambda>holds. holds a b)
             [has_key (geodetic_crs s), has_key (projected_crs s),
              has_key (vertical_crs s), has_key (compound_crs s)]) \<le> 1)
      \<and> (\<forall>a b. length (filter (\<lambda>holds. holds a b)
             [has_key (conversion_table s), has_key (helmert_transformation_table s),
              has_key (grid_transformation s), has_key (other_transformation s),
              has_key (concatenated_operation s)]) \<le> 1))
   \<and> (has_key (crs_view s) (auth_name g) (code g) \<longrightarrow>
        insert_geodetic_crs s g = Inl (Abort ''insert on geodetic_crs violates constraint: (auth_name, code) must not already exist in crs_view''))
   \<and> (has_key (crs_view s) (auth_name p) (code p) \<longrightarrow>
        insert_projected_crs s p = Inl (Abort ''insert on projected_crs violates constraint: (auth_name, code) must not already exist in crs_view''))
   \<and> (has_key (crs_view s) (auth_name v) (code v) \<longrightarrow>
        insert_vertical_crs s v = Inl (Abort ''insert on vertical_crs violates constraint: (auth_name, code) must not already exist in crs_view''))
   \<and> (has_key (crs_view s) (auth_name c) (code c) \<longrightarrow>
        insert_compound_crs s c = Inl (Abort ''insert on compound_crs violates constraint: (auth_name, code) must not already exist in crs_view''))
   \<and> (has_key (coordinate_operation_with_conversion_view s) (auth_name gt) (code gt) \<longrightarrow>
        insert_grid_transformation s gt = Inl (Abort ''insert on grid_transformation violates constraint: (auth_name, code) must not already exist in coordinate_operation_with_conversion_view''))
   \<and> (has_key (coordinate_operation_with_conversion_view s) (auth_name h) (code h) \<longrightarrow>
        insert_helmert_transformation_table s h = Inl (Abort ''insert on helmert_transformation violates constraint: (auth_name, code) must not already exist in coordinate_operation_with_conversion_view''))
   \<and> (has_key (coordinate_operation_with_conversion_view s) (auth_name ot) (code ot) \<longrightarrow>
        insert_other_transformation s ot = Inl (Abort ''insert on other_transformation violates constraint: (auth_name, code) must not already exist in coordinate_operation_with_conversion_view''))
   \<and> (has_key (coordinate_operation_with_conversion_view s) (auth_name k) (code k) \<longrightarrow>
        insert_concatenated_operation s k = Inl (Abort ''insert on concatenated_operation violates constraint: (auth_name, code) must not already exist in coordinate_operation_with_conversion_view''))
   \<and> (has_key (coordinate_operation_with_conversion_view s) (auth_name cv) (code cv) \<longrightarrow>
        insert_conversion_table s cv = Inl (Abort ''insert on conversion_table violates constraint: (auth_name, code) must not already exist in coordinate_operation_with_conversion_view''))"
  using reachable_view_single_kind [of s] reachable_crs_tables_disjoint [of s]
    reachable_operation_tables_disjoint [of s]
    insert_geodetic_crs_duplicate [of s g]
    insert_projected_crs_duplicate [of s p]
    insert_vertical_crs_duplicate [of s v]
    insert_compound_crs_duplicate [of s c]
    insert_grid_transformation_duplicate [of s gt]
    insert_helmert_transformation_table_duplicate [of s h]
    insert_other_transformation_duplicate [of s ot]
    insert_concatenated_operation_duplicate [of s k]
    insert_conversion_table_duplicate [of s cv]
  by blast

lemma example_db_duplicate_keys:
  "has_key (crs_view example_db) (auth_name (wgs84\<lparr>code := ''4000''\<rparr>)) (code (wgs84\<lparr>code := ''4000''\<rparr>))"
  "has_key (crs_view example_db) (auth_name (esri_projected\<lparr>auth_name := ''EPSG'', code := ''4326''\<rparr>)) (code (esri_projected\<lparr>auth_name := ''EPSG'', code := ''4326''\<rparr>))"
  "has_key (crs_view example_db) (auth_name (height_on_retired_datum\<lparr>code := ''4326''\<rparr>)) (code (height_on_retired_datum\<lparr>code := ''4326''\<rparr>))"
  "has_key (crs_view example_db) (auth_name (wgs84_with_height\<lparr>code := ''4000''\<rparr>)) (code (wgs84_with_height\<lparr>code := ''4000''\<rparr>))"
  "has_key (coordinate_operation_with_conversion_view example_db) (auth_name (esri_grid\<lparr>auth_name := ''EPSG'', code := ''8000''\<rparr>)) (code (esri_grid\<lparr>auth_name := ''EPSG'', code := ''8000''\<rparr>))"
  "has_key (coordinate_operation_with_conversion_view example_db) (auth_name (retired_to_wgs84\<lparr>code := ''16031''\<rparr>)) (code (retired_to_wgs84\<lparr>code := ''16031''\<rparr>))"
  "has_key (coordinate_operation_with_conversion_view example_db) (auth_name (esri_other\<lparr>auth_name := ''EPSG'', code := ''1100''\<rparr>)) (code (esri_other\<lparr>auth_name := ''EPSG'', code := ''1100''\<rparr>))"
  "has_key (coordinate_operation_with_conversion_view example_db) (auth_name (retired_to_utm\<lparr>code := ''16031''\<rparr>)) (code (retired_to_utm\<lparr>code := ''16031''\<rparr>))"
  "has_key (coordinate_operation_with_conversion_view example_db) (auth_name (utm_zone_31n\<lparr>code := ''1100''\<rparr>)) (code (utm_zone_31n\<lparr>code := ''1100''\<rparr>))"
  by (simp_all add: has_key_crs_view has_key_coordinate_operation_with_conversion_view)
     (simp_all add: has_key_def example_defs esri_projected_def esri_grid_def esri_other_def
        height_on_retired_datum_def wgs84_with_height_def)

theorem crs_and_operation_namespaces_single_kind_witness:
  "reachable example_db
   \<and> has_key (geodetic_crs example_db) ''EPSG'' ''4326''
   \<and> \<not> has_key (projected_crs example_db) ''EPSG'' ''4326''
   \<and> \<not> has_key (vertical_crs example_db) ''EPSG'' ''4326''
   \<and> \<not> has_key (compound_crs example_db) ''EPSG'' ''4326''
   \<and> has_key (helmert_transformation_table example_db) ''EPSG'' ''1100''
   \<and> \<not> has_key (conversion_table example_db) ''EPSG'' ''1100''
   \<and> insert_geodetic_crs example_db (wgs84\<lparr>code := ''4000''\<rparr>)
       = Inl (Abort ''insert on geodetic_crs violates constraint: (auth_name, code) must not already exist in crs_view'')
   \<and> insert_projected_crs example_db (esri_projected\<lparr>auth_name := ''EPSG'', code := ''4326''\<rparr>)
       = Inl (Abort ''insert on projected_crs violates constraint: (auth_name, code) must not already exist in crs_view'')
   \<and> insert_vertical_crs example_db (height_on_retired_datum\<lparr>code := ''4326''\<rparr>)
       = Inl (Abort ''insert on vertical_crs violates constraint: (auth_name, code) must not already exist in crs_view'')
   \<and> insert_compound_crs example_db (wgs84_with_height\<lparr>code := ''4000''\<rparr>)
       = Inl (Abort ''insert on compound_crs violates constraint: (auth_name, code) must not already exist in crs_view'')
   \<and> insert_grid_transformation example_db (esri_grid\<lparr>auth_name := ''EPSG'', code := ''8000''\<rparr>)
       = Inl (Abort ''insert on grid_transformation violates constraint: (auth_name, code) must not already exist in coordinate_operation_with_conversion_view'')
   \<and> insert_helmert_transformation_table example_db (retired_to_wgs84\<lparr>code := ''16031''\<rparr>)
       = Inl (Abort ''insert on helmert_transformation violates constraint: (auth_name, code) must not already exist in coordinate_operation_with_conversion_view'')
   \<and> insert_other_transformation example_db (esri_other\<lparr>auth_name := ''EPSG'', code := ''1100''\<rparr>)
       = Inl (Abort ''insert on other_transformation violates constraint: (auth_name, code) must not already exist in coordinate_operation_with_conversion_view'')
   \<and> insert_concatenated_operation example_db (retired_to_utm\<lparr>code := ''16031''\<rparr>)
       = Inl (Abort ''insert on concatenated_operation violates constraint: (auth_name, code) must not already exist in coordinate_operation_with_conversion_view'')
   \<and> insert_conversion_table example_db (utm_zone_31n\<lparr>code := ''1100''\<rparr>)
       = Inl (Abort ''insert on conversion_table violates constraint: (auth_name, code) must not already exist in coordinate_operation_with_conversion_view'')"
proof -
  note inst = crs_and_operation_namespaces_single_kind
      [where s = example_db
         and g = "wgs84\<lparr>code := ''4000''\<rparr>"
         and p = "esri_projected\<lparr>auth_name := ''EPSG'', code := ''4326''\<rparr>"
         and v = "height_on_retired_datum\<lparr>code := ''4326''\<rparr>"
         and c = "wgs84_with_height\<lparr>code := ''4000''\<rparr>"
         and gt = "esri_grid\<lparr>auth_name := ''EPSG'', code := ''8000''\<rparr>"
         and h = "retired_to_wgs84\<lparr>code := ''16031''\<rparr>"
         and ot = "esri_other\<lparr>auth_name := ''EPSG'', code := ''1100''\<rparr>"
         and k = "retired_to_utm\<lparr>code := ''16031''\<rparr>"
         and cv = "utm_zone_31n\<lparr>code := ''1100''\<rparr>"]
  from inst reachable_example_db
  have crs: "length (filter (\<lambda>holds. holds ''EPSG'' ''4326'')
             [has_key (geodetic_crs example_db), has_key (projected_crs example_db),
              has_key (vertical_crs example_db), has_key (compound_crs example_db)]) \<le> 1"
    and ops: "length (filter (\<lambda>holds. holds ''EPSG'' ''1100'')
             [has_key (conversion_table example_db),
              has_key (helmert_transformation_table example_db),
              has_key (grid_transformation example_db), has_key (other_transformation example_db),
              has_key (concatenated_operation example_db)]) \<le> 1"
    by blast+
  have present: "has_key (geodetic_crs example_db) ''EPSG'' ''4326''"
    "has_key (helmert_transformation_table example_db) ''EPSG'' ''1100''"
    by (simp_all add: has_key_def example_defs)
  from crs present(1) have absent_crs: "\<not> has_key (projected_crs example_db) ''EPSG'' ''4326''"
    "\<not> has_key (vertical_crs example_db) ''EPSG'' ''4326''"
    "\<not> has_key (compound_crs example_db) ''EPSG'' ''4326''"
    by (auto split: if_splits)
  from ops present(2) have absent_op: "\<not> has_key (conversion_table example_db) ''EPSG'' ''1100''"
    by (auto split: if_splits)
  from inst example_db_duplicate_keys
  have rejected:
    "insert_geodetic_crs example_db (wgs84\<lparr>code := ''4000''\<rparr>)
       = Inl (Abort ''insert on geodetic_crs violates constraint: (auth_name, code) must not already exist in crs_view'')"
    "insert_projected_crs example_db (esri_projected\<lparr>auth_name := ''EPSG'', code := ''4326''\<rparr>)
       = Inl (Abort ''insert on projected_crs violates constraint: (auth_name, code) must not already exist in crs_view'')"
    "insert_vertical_crs example_db (height_on_retired_datum\<lparr>code := ''4326''\<rparr>)
       = Inl (Abort ''insert on vertical_crs violates constraint: (auth_name, code) must not already exist in crs_view'')"
    "insert_compound_crs example_db (wgs84_with_height\<lparr>code := ''4000''\<rparr>)
       = Inl (Abort ''insert on compound_crs violates constraint: (auth_name, code) must not already exist in crs_view'')"
    "insert_grid_transformation example_db (esri_grid\<lparr>auth_name := ''EPSG'', code := ''8000''\<rparr>)
       = Inl (Abort ''insert on grid_transformation violates constraint: (auth_name, code) must not already exist in coordinate_operation_with_conversion_view'')"
    "insert_helmert_transformation_table example_db (retired_to_wgs84\<lparr>code := ''16031''\<rparr>)
       = Inl (Abort ''insert on helmert_transformation violates constraint: (auth_name, code) must not already exist in coordinate_operation_with_conversion_view'')"
    "insert_other_transformation example_db (esri_other\<lparr>auth_name := ''EPSG'', code := ''1100''\<rparr>)
       = Inl (Abort ''insert on other_transformation violates constraint: (auth_name, code) must not already exist in coordinate_operation_with_conversion_view'')"
    "insert_concatenated_operation example_db (retired_to_utm\<lparr>code := ''16031''\<rparr>)
       = Inl (Abort ''insert on concatenated_operation violates constraint: (auth_name, code) must not already exist in coordinate_operation_with_conversion_view'')"
    "insert_conversion_table example_db (utm_zone_31n\<lparr>code := ''1100''\<rparr>)
       = Inl (Abort ''insert on conversion_table violates constraint: (auth_name, code) must not already exist in coordinate_operation_with_conversion_view'')"
    by blast+
  from reachable_example_db present absent_crs absent_op rejected show ?thesis by blast
qed


section \<open>Inserts through the view conversion\<close>

text \<open>
  An insert through the view \<^verbatim>\<open>conversion\<close> reaches no state that inserts into the tables
  do not reach: the parameters and the method that its triggers insert are inserts into
  \<^verbatim>\<open>conversion_param\<close> and \<^verbatim>\<open>conversion_method\<close>, and after them the row can be inserted
  into \<^verbatim>\<open>conversion_table\<close>, whose foreign keys hold then. So what is proved of every
  reachable state holds after inserts through the view as well.
\<close>

lemma conversion_insert_trigger_param_commutes:
  "conversion_trigger_commutes (conversion_insert_trigger_param a c n)"
proof -
  have vals: "insert_conversion_param_values (s\<lparr>conversion_table := rows\<rparr>) a c n
      = map_sum id (\<lambda>u. u\<lparr>conversion_table := rows\<rparr>) (insert_conversion_param_values s a c n)"
    for s rows
    by (cases "(s, a, c, n)" rule: insert_conversion_param_values.cases)
      (simp_all add: insert_conversion_param_def insert_row_def conversion_param_constraints_def
        split: option.splits)
  have "u\<lparr>conversion_param := [], conversion_method := []\<rparr>
        = s\<lparr>conversion_param := [], conversion_method := []\<rparr>
      \<and> (u = s \<or> (\<exists>st. execute s st = Inr u))"
    if "conversion_insert_trigger_param a c n s = Inr u" for s u
  proof (cases "u = s")
    case True
    then show ?thesis by simp
  next
    case False
    with that obtain r where r: "insert_conversion_param s r = Inr u"
      by (auto simp: conversion_insert_trigger_param_def insert_conversion_param_values_Inr
          split: if_splits)
    then have "execute s (Insert_conversion_param r) = Inr u"
      by simp
    then have "\<exists>st. execute s st = Inr u"
      by (rule exI)
    moreover from r have "u = s\<lparr>conversion_param := conversion_param s @ [r]\<rparr>"
      by (simp add: insert_conversion_param_def insert_row_Inr_iff)
    then have "u\<lparr>conversion_param := [], conversion_method := []\<rparr>
        = s\<lparr>conversion_param := [], conversion_method := []\<rparr>"
      by simp
    ultimately show ?thesis by (intro conjI disjI2)
  qed
  then show ?thesis
    by (simp add: conversion_trigger_commutes_def conversion_insert_trigger_param_def vals)
qed

lemma conversion_insert_trigger_method_commutes:
  "conversion_trigger_commutes (conversion_insert_trigger_method NEW)"
proof -
  have vals: "insert_conversion_method_values (s\<lparr>conversion_table := rows\<rparr>) a c n
      = map_sum id (\<lambda>u. u\<lparr>conversion_table := rows\<rparr>) (insert_conversion_method_values s a c n)"
    for s rows a c n
    by (cases "(s, a, c, n)" rule: insert_conversion_method_values.cases)
      (simp_all add: insert_conversion_method_def insert_row_def
        conversion_method_constraints_def conversion_method_insert_trigger_def
        split: option.splits)
  have "u\<lparr>conversion_param := [], conversion_method := []\<rparr>
        = s\<lparr>conversion_param := [], conversion_method := []\<rparr>
      \<and> (u = s \<or> (\<exists>st. execute s st = Inr u))"
    if "conversion_insert_trigger_method NEW s = Inr u" for s u
  proof (cases "u = s")
    case True
    then show ?thesis by simp
  next
    case False
    with that obtain r where r: "insert_conversion_method s r = Inr u"
      by (auto simp: conversion_insert_trigger_method_def insert_conversion_method_values_Inr
          split: if_splits)
    then have "execute s (Insert_conversion_method r) = Inr u"
      by simp
    then have "\<exists>st. execute s st = Inr u"
      by (rule exI)
    moreover from r have "u = s\<lparr>conversion_method := conversion_method s @ [r]\<rparr>"
      by (simp add: insert_conversion_method_def insert_row_Inr_iff)
    then have "u\<lparr>conversion_param := [], conversion_method := []\<rparr>
        = s\<lparr>conversion_param := [], conversion_method := []\<rparr>"
      by simp
    ultimately show ?thesis by (intro conjI disjI2)
  qed
  then show ?thesis
    by (simp add: conversion_trigger_commutes_def conversion_insert_trigger_method_def vals)
qed

lemma run_triggers_commute:
  assumes "\<forall>t\<in>set ts. conversion_trigger_commutes t"
  shows "run_triggers ts (s\<lparr>conversion_table := rows\<rparr>)
           = map_sum id (\<lambda>u. u\<lparr>conversion_table := rows\<rparr>) (run_triggers ts s)"
  using assms
proof (induction ts arbitrary: s)
  case Nil
  then show ?case by simp
next
  case (Cons t ts)
  then have t: "t (s\<lparr>conversion_table := rows\<rparr>)
      = map_sum id (\<lambda>u. u\<lparr>conversion_table := rows\<rparr>) (t s)"
    by (simp add: conversion_trigger_commutes_def)
  from Cons show ?case
    by (cases "t s") (simp_all add: t)
qed

lemma run_triggers_reachable:
  assumes "\<forall>t\<in>set ts. conversion_trigger_commutes t"
  shows "run_triggers ts s = Inr u \<Longrightarrow> reachable s \<Longrightarrow>
     reachable u \<and> u\<lparr>conversion_param := [], conversion_method := []\<rparr>
                     = s\<lparr>conversion_param := [], conversion_method := []\<rparr>"
  using assms
proof (induction ts arbitrary: s)
  case Nil
  then show ?case by simp
next
  case (Cons t ts)
  from Cons.prems(1) obtain s1 where t: "t s = Inr s1" and rest: "run_triggers ts s1 = Inr u"
    by (auto split: sum.splits)
  from Cons.prems(3) t
  have s1: "s1\<lparr>conversion_param := [], conversion_method := []\<rparr>
              = s\<lparr>conversion_param := [], conversion_method := []\<rparr>"
    and step: "s1 = s \<or> (\<exists>st. execute s st = Inr s1)"
    by (simp_all add: conversion_trigger_commutes_def)
  from step Cons.prems(2) have "reachable s1"
    by (auto intro: reachable.step)
  with Cons.IH [OF rest] Cons.prems(3)
  have "reachable u" "u\<lparr>conversion_param := [], conversion_method := []\<rparr>
                       = s1\<lparr>conversion_param := [], conversion_method := []\<rparr>"
    by simp_all
  with s1 show ?case by simp
qed

lemma coordinate_operation_with_conversion_view_other_tables:
  "coordinate_operation_with_conversion_view
       (s\<lparr>conversion_param := p, conversion_method := m\<rparr>)
     = coordinate_operation_with_conversion_view s"
  by (simp add: view_defs)

lemma insert_conversion_reachable:
  assumes "reachable s" "insert_conversion s NEW = Inr s'"
  shows "reachable s'"
proof -
  define row where "row = conversion_table.truncate NEW"
  define ts where "ts =
     [conversion_insert_trigger_param7 NEW, conversion_insert_trigger_param6 NEW,
      conversion_insert_trigger_param5 NEW, conversion_insert_trigger_param4 NEW,
      conversion_insert_trigger_param3 NEW, conversion_insert_trigger_param2 NEW,
      conversion_insert_trigger_param1 NEW, conversion_insert_trigger_method NEW]"
  have commute: "\<forall>t\<in>set ts. conversion_trigger_commutes t"
    by (simp add: ts_def conversion_insert_trigger_defs conversion_insert_trigger_param_commutes
        conversion_insert_trigger_method_commutes)
  from insert_conversion_Inr [OF assms(2)]
  have run: "run_triggers (conversion_insert_trigger_insert_into_conversion_table NEW # ts) s
      = Inr s'"
    and fk: "run_rules (conversion_table_foreign_keys s' row) = None"
    by (simp_all add: ts_def row_def)
  from run obtain s1
    where first: "conversion_insert_trigger_insert_into_conversion_table NEW s = Inr s1"
      and rest: "run_triggers ts s1 = Inr s'"
    by (auto split: sum.splits)
  from first have trig: "conversion_table_insert_trigger s row = None"
    and checks: "run_rules (conversion_table_checks s row) = None"
    and s1: "s1 = s\<lparr>conversion_table := conversion_table s @ [row]\<rparr>"
    by (simp_all add: conversion_insert_trigger_insert_into_conversion_table_def
        insert_row_Inr_iff row_def)
  from rest obtain u where u: "run_triggers ts s = Inr u"
    and s': "s' = u\<lparr>conversion_table := conversion_table s @ [row]\<rparr>"
    unfolding s1 run_triggers_commute [OF commute]
    by (cases "run_triggers ts s") auto
  from run_triggers_reachable [OF commute u assms(1)]
  have reach: "reachable u"
    and frame: "u\<lparr>conversion_param := [], conversion_method := []\<rparr>
                  = s\<lparr>conversion_param := [], conversion_method := []\<rparr>"
    by simp_all
  from arg_cong [OF frame, of conversion_table]
  have table: "conversion_table u = conversion_table s"
    by simp
  from arg_cong [OF frame, of coordinate_operation_with_conversion_view]
  have view: "coordinate_operation_with_conversion_view u
      = coordinate_operation_with_conversion_view s"
    by (simp add: coordinate_operation_with_conversion_view_other_tables)
  from trig have "conversion_table_insert_trigger u row = None"
    by (simp add: conversion_table_insert_trigger_def view)
  moreover from checks have "run_rules (conversion_table_checks u row) = None"
    by (simp add: conversion_table_checks_def table)
  moreover from fk have "run_rules (conversion_table_foreign_keys u row) = None"
    by (simp add: conversion_table_foreign_keys_def s')
  ultimately have "conversion_table_insert_trigger u row = None"
    and "conversion_table_constraints u row = None"
    by (simp_all add: conversion_table_constraints_def run_rules_append)
  then have "execute u (Insert_conversion_table row) = Inr s'"
    by (simp add: insert_conversion_table_def insert_row_def s' table)
  with reach show ?thesis
    by (rule reachable.step)
qed

end
